theory Spec2Isabelle
  imports Complex_Main "HOL-Library.Log_Nat"
begin

section \<open>Data model shared by the four triangle renderers\<close>

text \<open>
  The repository holds four monolithic renderer classes:
  \<^item> \<open>PhongTriangleRenderer\<close> (phong_triangle.cpp),
  \<^item> \<open>TexturedTriangleRenderer\<close> (textured_triangle.cpp),
  \<^item> \<open>SimpleTriangleRenderer\<close> (simple_triangle.cpp),
  \<^item> \<open>TriangleRenderer\<close> (triangle_demo.cpp).
  Each member function becomes a HOL function on the renderer's members and on a
  record of the outside world (GLFW and the GL driver). Every call into GLFW, GLAD or GL,
  every line written to a stream and every assignment to a member that a property below
  speaks about is appended to a trace, so that orderings can be stated.

  Scalars of type \<open>float\<close> are idealised as \<open>real\<close>, except where a property depends
  on rounding: the accumulation \<open>rotationAngle += 0.01f\<close> and the matrix that
  \<open>glm::rotate\<close> computes from the angle, where the rounding of every operation to
  binary32 is written out (\<open>fl32\<close>).
\<close>

datatype vec3 = Vec3 real real real
datatype vec4 = Vec4 real real real real
text \<open>A \<open>glm::mat4\<close> is column-major: four columns.\<close>
datatype mat4 = Mat4 vec4 vec4 vec4 vec4

datatype key = GLFW_KEY_ESCAPE | GLFW_KEY_R | GLFW_KEY_G | GLFW_KEY_B | GLFW_KEY_Y | GLFW_KEY_W

datatype shader_kind = GL_VERTEX_SHADER | GL_FRAGMENT_SHADER

text \<open>The output streams of the host program.\<close>
datatype stream = Cout | Cerr

text \<open>The values a uniform can be given by the host.\<close>
datatype uniform_value = UMat4 mat4 | UVec3 vec3

text \<open>
  One entry per effect of the host code. Calls that return something carry the returned
  value as their last argument (a \<open>GLFWwindow*\<close> is \<open>None\<close> when it is \<open>nullptr\<close>, a
  uniform location is \<open>-1\<close> when the name is not active). The calls are grouped by the
  library they enter: GLFW and the GLAD loader, the GL entry points for shaders and
  programs, the other GL entry points, and effects inside the host program.
\<close>
datatype glfw_call =
    glfwInit bool
  | glfwWindowHint
  | glfwCreateWindow int int string "nat option"
  | glfwTerminate
  | glfwMakeContextCurrent "nat option"
  | glfwSetFramebufferSizeCallback "nat option"
  | gladLoadGLLoader bool
  | glfwWindowShouldClose bool
  | glfwGetKey key bool
  | glfwSetWindowShouldClose bool
  | glfwSwapBuffers
  | glfwPollEvents

datatype program_call =
    glCreateShader shader_kind nat
  | glShaderSource nat
  | glCompileShader nat
  | glGetShaderiv nat bool
  | glGetShaderInfoLog nat
  | glCreateProgram nat
  | glAttachShader nat nat
  | glLinkProgram nat
  | glGetProgramiv nat bool
  | glGetProgramInfoLog nat
  | glDeleteShader nat
  | glUseProgram nat
  | glGetUniformLocation nat string int
  | glUniformMatrix4fv int mat4
  | glUniform3fv int vec3
  | glDeleteProgram nat

datatype object_call =
    glGenVertexArrays nat
  | glGenBuffers nat
  | glGenTextures nat
  | glBindVertexArray nat
  | glBindBuffer nat
  | glBufferData nat "real list"
  | glVertexAttribPointer nat nat nat nat
  | glEnableVertexAttribArray nat
  | glEnableDepthTest
  | glTexParameteri
  | glTexImage2D nat nat "nat list"
  | glGenerateMipmap
  | glActiveTexture nat
  | glBindTexture nat
  | glClearColor real real real real
  | glClear bool bool
  | glDrawArrays nat nat
  | glDeleteVertexArrays nat
  | glDeleteBuffers nat
  | glDeleteTextures nat
  | glViewport int int int int

datatype host_effect =
    print stream string
  | assign_objectColor vec3
  | assign_rotationAngle real
  | assign_model mat4

datatype event = GLFW glfw_call | PROG program_call | GL object_call | HOST host_effect

text \<open>
  What the outside world answers during one run of the program. GLFW, GLAD and the GL
  driver are external collaborators; the host code only sees these answers.
  \<open>bufferData_accepted\<close> and \<open>texImage_accepted\<close> say whether the driver accepted the
  vertex and texture uploads (a rejected upload raises a GL error flag, which only
  \<open>glGetError\<close> would show). \<open>active_uniforms\<close> lists the uniform names that are active
  in the linked program; the location of a name is its position in the list.
  \<open>libm_cos\<close> and \<open>libm_sin\<close> are the cosine and sine of the platform's math library,
  before the result is stored in a \<open>float\<close>: IEEE 754 does not fix their last bit.
\<close>
record driver =
  glfwInit_ok :: bool
  created_window :: "nat option"
  gladLoad_ok :: bool
  vertex_shader_name :: nat
  vertex_compile_ok :: bool
  fragment_shader_name :: nat
  fragment_compile_ok :: bool
  program_name :: nat
  link_ok :: bool
  vao_name :: nat
  vbo_name :: nat
  texture_name :: nat
  bufferData_accepted :: bool
  texImage_accepted :: bool
  active_uniforms :: "string list"
  libm_cos :: "real \<Rightarrow> real"
  libm_sin :: "real \<Rightarrow> real"

text \<open>The part of the outside world that the host code changes.\<close>
record world =
  trace :: "event list"
  should_close :: bool

definition emit :: "event \<Rightarrow> world \<Rightarrow> world" where
  "emit e w = w\<lparr>trace := trace w @ [e]\<rparr>"

definition emits :: "event list \<Rightarrow> world \<Rightarrow> world" where
  "emits es w = w\<lparr>trace := trace w @ es\<rparr>"

definition world0 :: world where
  "world0 = \<lparr>trace = [], should_close = False\<rparr>"

text \<open>
  The members of the renderer classes. The four classes use the same member names; a
  class that lacks a member (\<open>texture\<close> outside the textured variant, the lighting
  vectors outside the Phong variant, the matrices in the two plain variants) never
  reads or writes that field.
\<close>
record renderer =
  window :: "nat option"
  VAO :: nat
  VBO :: nat
  shaderProgram :: nat
  texture :: nat
  width :: int
  height :: int
  lightPos :: vec3
  lightColor :: vec3
  objectColor :: vec3
  viewPos :: vec3
  model :: mat4
  view :: mat4
  projection :: mat4
  rotationAngle :: real

section \<open>Input handling\<close>

text \<open>
  \<open>glfwGetKey(window, k) == GLFW_PRESS\<close> reads the key state of the current frame;
  the snapshot is a function from keys to "is held".
\<close>
type_synonym keys = "key \<Rightarrow> bool"

definition set_objectColor :: "vec3 \<Rightarrow> renderer \<times> world \<Rightarrow> renderer \<times> world" where
  "set_objectColor c rw = ((fst rw)\<lparr>objectColor := c\<rparr>, emit (HOST (assign_objectColor c)) (snd rw))"

text \<open>One \<open>if (glfwGetKey(window, k) == GLFW_PRESS) { objectColor = c; }\<close>.\<close>
definition color_key :: "keys \<Rightarrow> key \<Rightarrow> vec3 \<Rightarrow> renderer \<times> world \<Rightarrow> renderer \<times> world" where
  "color_key ks k c rw =
     (let rw1 = (fst rw, emit (GLFW (glfwGetKey k (ks k))) (snd rw))
      in if ks k then set_objectColor c rw1 else rw1)"

text \<open>\<open>if (glfwGetKey(window, GLFW_KEY_ESCAPE) == GLFW_PRESS) glfwSetWindowShouldClose(window, true);\<close>\<close>
definition escape_key :: "keys \<Rightarrow> renderer \<times> world \<Rightarrow> renderer \<times> world" where
  "escape_key ks rw =
     (let w1 = emit (GLFW (glfwGetKey GLFW_KEY_ESCAPE (ks GLFW_KEY_ESCAPE))) (snd rw)
      in if ks GLFW_KEY_ESCAPE
         then (fst rw, (emit (GLFW (glfwSetWindowShouldClose True)) w1)\<lparr>should_close := True\<rparr>)
         else (fst rw, w1))"

definition phong_red :: vec3 where "phong_red = Vec3 (9/10) (3/10) (3/10)"
definition phong_green :: vec3 where "phong_green = Vec3 (3/10) (9/10) (3/10)"
definition phong_blue :: vec3 where "phong_blue = Vec3 (3/10) (3/10) (9/10)"
definition phong_yellow :: vec3 where "phong_yellow = Vec3 (9/10) (9/10) (3/10)"

text \<open>\<open>PhongTriangleRenderer::processInput\<close>\<close>
definition phong_processInput :: "keys \<Rightarrow> renderer \<times> world \<Rightarrow> renderer \<times> world" where
  "phong_processInput ks rw =
     color_key ks GLFW_KEY_Y phong_yellow
       (color_key ks GLFW_KEY_B phong_blue
         (color_key ks GLFW_KEY_G phong_green
           (color_key ks GLFW_KEY_R phong_red
             (escape_key ks rw))))"

definition tex_red :: vec3 where "tex_red = Vec3 1 (3/10) (3/10)"
definition tex_green :: vec3 where "tex_green = Vec3 (3/10) 1 (3/10)"
definition tex_blue :: vec3 where "tex_blue = Vec3 (3/10) (3/10) 1"
definition tex_white :: vec3 where "tex_white = Vec3 1 1 1"

text \<open>\<open>TexturedTriangleRenderer::processInput\<close>\<close>
definition textured_processInput :: "keys \<Rightarrow> renderer \<times> world \<Rightarrow> renderer \<times> world" where
  "textured_processInput ks rw =
     color_key ks GLFW_KEY_W tex_white
       (color_key ks GLFW_KEY_B tex_blue
         (color_key ks GLFW_KEY_G tex_green
           (color_key ks GLFW_KEY_R tex_red
             (escape_key ks rw))))"

section \<open>The glm functions the renderers call\<close>

text \<open>
  glm is an external library; these are its documented formulas (right-handed,
  depth range \<open>-1..1\<close>, the defaults), over the reals. \<open>glm::rotate\<close>, whose result a
  property below compares entry by entry, follows in binary32 after the rounding.
\<close>

definition radians :: "real \<Rightarrow> real" where
  "radians deg = deg * pi / 180"

definition vsub :: "vec3 \<Rightarrow> vec3 \<Rightarrow> vec3" where
  "vsub a b = (case a of Vec3 ax ay az \<Rightarrow> case b of Vec3 bx by bz \<Rightarrow> Vec3 (ax - bx) (ay - by) (az - bz))"

definition vadd :: "vec3 \<Rightarrow> vec3 \<Rightarrow> vec3" where
  "vadd a b = (case a of Vec3 ax ay az \<Rightarrow> case b of Vec3 bx by bz \<Rightarrow> Vec3 (ax + bx) (ay + by) (az + bz))"

text \<open>Component-wise product, GLSL's \<open>*\<close> on two vectors.\<close>
definition vmul :: "vec3 \<Rightarrow> vec3 \<Rightarrow> vec3" where
  "vmul a b = (case a of Vec3 ax ay az \<Rightarrow> case b of Vec3 bx by bz \<Rightarrow> Vec3 (ax * bx) (ay * by) (az * bz))"

definition scale :: "real \<Rightarrow> vec3 \<Rightarrow> vec3" where
  "scale k a = (case a of Vec3 ax ay az \<Rightarrow> Vec3 (k * ax) (k * ay) (k * az))"

definition neg :: "vec3 \<Rightarrow> vec3" where
  "neg a = (case a of Vec3 ax ay az \<Rightarrow> Vec3 (- ax) (- ay) (- az))"

definition dot :: "vec3 \<Rightarrow> vec3 \<Rightarrow> real" where
  "dot a b = (case a of Vec3 ax ay az \<Rightarrow> case b of Vec3 bx by bz \<Rightarrow> ax * bx + ay * by + az * bz)"

definition cross :: "vec3 \<Rightarrow> vec3 \<Rightarrow> vec3" where
  "cross a b = (case a of Vec3 ax ay az \<Rightarrow> case b of Vec3 bx by bz \<Rightarrow>
     Vec3 (ay * bz - by * az) (az * bx - bz * ax) (ax * by - bx * ay))"

text \<open>
  \<open>normalize(v) = v * inversesqrt(dot(v, v))\<close>. For the zero vector glm and GLSL
  divide by zero; HOL's \<open>x / 0 = 0\<close> gives the zero vector there, and no theorem below
  relies on that case.
\<close>
definition normalize :: "vec3 \<Rightarrow> vec3" where
  "normalize v = scale (1 / sqrt (dot v v)) v"

definition identity4 :: mat4 where
  "identity4 = Mat4 (Vec4 1 0 0 0) (Vec4 0 1 0 0) (Vec4 0 0 1 0) (Vec4 0 0 0 1)"

text \<open>\<open>glm::lookAt(eye, center, up)\<close>\<close>
definition lookAt :: "vec3 \<Rightarrow> vec3 \<Rightarrow> vec3 \<Rightarrow> mat4" where
  "lookAt eye center up =
     (let f = normalize (vsub center eye);
          s = normalize (cross f up);
          u = cross s f
      in case f of Vec3 fx fy fz \<Rightarrow> case s of Vec3 sx sy sz \<Rightarrow> case u of Vec3 ux uy uz \<Rightarrow>
           Mat4 (Vec4 sx ux (- fx) 0) (Vec4 sy uy (- fy) 0) (Vec4 sz uz (- fz) 0)
                (Vec4 (- dot s eye) (- dot u eye) (dot f eye) 1))"

text \<open>\<open>glm::perspective(fovy, aspect, zNear, zFar)\<close>\<close>
definition perspective :: "real \<Rightarrow> real \<Rightarrow> real \<Rightarrow> real \<Rightarrow> mat4" where
  "perspective fovy aspect zNear zFar =
     (let tanHalfFovy = tan (fovy / 2) in
      Mat4 (Vec4 (1 / (aspect * tanHalfFovy)) 0 0 0)
           (Vec4 0 (1 / tanHalfFovy) 0 0)
           (Vec4 0 0 (- (zFar + zNear) / (zFar - zNear)) (- 1))
           (Vec4 0 0 (- (2 * zFar * zNear) / (zFar - zNear)) 0))"

section \<open>Rounding to binary32\<close>

text \<open>
  \<open>rotationAngle\<close> is a \<open>float\<close> and \<open>rotationAngle += 0.01f\<close> rounds the sum to the
  nearest binary32 value, ties to even. \<open>fl32\<close> is that rounding for the normal range
  (24 significant bits; the subnormal and the overflow range are left out: the angle
  never reaches them).
\<close>

definition round_half_even :: "real \<Rightarrow> int" where
  "round_half_even q =
     (let f = \<lfloor>q\<rfloor> in
      if q - of_int f < 1 / 2 then f
      else if 1 / 2 < q - of_int f then f + 1
      else if even f then f else f + 1)"

definition fl32 :: "real \<Rightarrow> real" where
  "fl32 x =
     (if x = 0 then 0
      else let e = \<lfloor>log 2 \<bar>x\<bar>\<rfloor> - 23
           in of_int (round_half_even (x / 2 powr of_int e)) * 2 powr of_int e)"

text \<open>The literal \<open>0.01f\<close>.\<close>
definition rotation_step :: real where
  "rotation_step = fl32 (1 / 100)"

section \<open>\<open>glm::rotate\<close> in binary32\<close>

text \<open>
  The operations on \<open>float\<close>: the exact result, rounded. \<open>sqrt\<close> is correctly rounded
  by IEEE 754; \<open>cos\<close> and \<open>sin\<close> return whatever the platform's library computes, as a
  \<open>float\<close>.
\<close>
definition fadd :: "real \<Rightarrow> real \<Rightarrow> real" where
  "fadd x y = fl32 (x + y)"

definition fsub :: "real \<Rightarrow> real \<Rightarrow> real" where
  "fsub x y = fl32 (x - y)"

definition fmul :: "real \<Rightarrow> real \<Rightarrow> real" where
  "fmul x y = fl32 (x * y)"

definition fdiv :: "real \<Rightarrow> real \<Rightarrow> real" where
  "fdiv x y = fl32 (x / y)"

definition fsqrt :: "real \<Rightarrow> real" where
  "fsqrt x = fl32 (sqrt x)"

definition cosf :: "driver \<Rightarrow> real \<Rightarrow> real" where
  "cosf d a = fl32 (libm_cos d a)"

definition sinf :: "driver \<Rightarrow> real \<Rightarrow> real" where
  "sinf d a = fl32 (libm_sin d a)"

text \<open>\<open>glm::dot\<close> on \<open>vec3\<close>: \<open>tmp = a * b; return tmp.x + tmp.y + tmp.z\<close>.\<close>
definition fdot :: "vec3 \<Rightarrow> vec3 \<Rightarrow> real" where
  "fdot a b = (case a of Vec3 ax ay az \<Rightarrow> case b of Vec3 bx by bz \<Rightarrow>
     fadd (fadd (fmul ax bx) (fmul ay by)) (fmul az bz))"

text \<open>\<open>glm::inversesqrt(x) = 1 / sqrt(x)\<close>\<close>
definition inversesqrt :: "real \<Rightarrow> real" where
  "inversesqrt x = fdiv 1 (fsqrt x)"

text \<open>\<open>glm::normalize(v) = v * inversesqrt(dot(v, v))\<close>\<close>
definition fnormalize :: "vec3 \<Rightarrow> vec3" where
  "fnormalize v =
     (let k = inversesqrt (fdot v v)
      in case v of Vec3 x y z \<Rightarrow> Vec3 (fmul x k) (fmul y k) (fmul z k))"

text \<open>A scalar times a \<open>vec3\<close>, a \<open>vec4\<close> times a scalar, the sum of two \<open>vec4\<close>.\<close>
definition fscale :: "real \<Rightarrow> vec3 \<Rightarrow> vec3" where
  "fscale k a = (case a of Vec3 x y z \<Rightarrow> Vec3 (fmul k x) (fmul k y) (fmul k z))"

definition scale4 :: "vec4 \<Rightarrow> real \<Rightarrow> vec4" where
  "scale4 a k = (case a of Vec4 x y z w \<Rightarrow> Vec4 (fmul x k) (fmul y k) (fmul z k) (fmul w k))"

definition add4 :: "vec4 \<Rightarrow> vec4 \<Rightarrow> vec4" where
  "add4 a b = (case a of Vec4 x y z w \<Rightarrow> case b of Vec4 x' y' z' w' \<Rightarrow>
     Vec4 (fadd x x') (fadd y y') (fadd z z') (fadd w w'))"

text \<open>
  \<open>glm::rotate(m, angle, v)\<close>, statement by statement:
  \<open>c = cos(angle)\<close>, \<open>s = sin(angle)\<close>, \<open>axis = normalize(v)\<close>,
  \<open>temp = (1 - c) * axis\<close>, the nine entries \<open>Rotate[i][j]\<close>, and
  \<open>Result[i] = m[0] * Rotate[i][0] + m[1] * Rotate[i][1] + m[2] * Rotate[i][2]\<close>,
  \<open>Result[3] = m[3]\<close>. Every operation is rounded on its own; for the arguments the
  renderers pass (the identity and the axis \<open>(0, 1, 0)\<close>) every product is by 0 or 1 and
  therefore exact, so a compiler that fuses a multiplication with the following
  addition computes the same matrix.
\<close>
definition rotate4 :: "driver \<Rightarrow> mat4 \<Rightarrow> real \<Rightarrow> vec3 \<Rightarrow> mat4" where
  "rotate4 d m angle v =
     (let c = cosf d angle; s = sinf d angle in
      case fnormalize v of Vec3 ax ay az \<Rightarrow>
      case fscale (fsub 1 c) (Vec3 ax ay az) of Vec3 tx ty tz \<Rightarrow>
      case m of Mat4 m0 m1 m2 m3 \<Rightarrow>
        let r00 = fadd c (fmul tx ax);
            r01 = fadd (fmul tx ay) (fmul s az);
            r02 = fsub (fmul tx az) (fmul s ay);
            r10 = fsub (fmul ty ax) (fmul s az);
            r11 = fadd c (fmul ty ay);
            r12 = fadd (fmul ty az) (fmul s ax);
            r20 = fadd (fmul tz ax) (fmul s ay);
            r21 = fsub (fmul tz ay) (fmul s ax);
            r22 = fadd c (fmul tz az)
        in Mat4 (add4 (add4 (scale4 m0 r00) (scale4 m1 r01)) (scale4 m2 r02))
                (add4 (add4 (scale4 m0 r10) (scale4 m1 r11)) (scale4 m2 r12))
                (add4 (add4 (scale4 m0 r20) (scale4 m1 r21)) (scale4 m2 r22))
                m3)"

section \<open>Parts shared by the classes\<close>

fun index_of :: "'a \<Rightarrow> 'a list \<Rightarrow> nat option" where
  "index_of x [] = None"
| "index_of x (y # ys) = (if x = y then Some 0 else map_option Suc (index_of x ys))"

text \<open>What \<open>glGetUniformLocation(shaderProgram, name)\<close> returns.\<close>
definition uniform_location :: "driver \<Rightarrow> string \<Rightarrow> int" where
  "uniform_location d name = (case index_of name (active_uniforms d) of None \<Rightarrow> - 1 | Some i \<Rightarrow> int i)"

text \<open>
  \<open>createShaders\<close> has the same body in the four classes up to the three messages
  written to \<open>std::cerr\<close> (in triangle_demo.cpp the checks sit in
  \<open>checkShaderCompilation\<close> and \<open>checkProgramLinking\<close>).
\<close>
definition createShaders ::
  "string \<Rightarrow> string \<Rightarrow> string \<Rightarrow> driver \<Rightarrow> renderer \<times> world \<Rightarrow> bool \<times> renderer \<times> world" where
  "createShaders vmsg fmsg lmsg d rw =
     (let vs = vertex_shader_name d;
          w1 = emits [PROG (glCreateShader GL_VERTEX_SHADER vs), PROG (glShaderSource vs),
                      PROG (glCompileShader vs), PROG (glGetShaderiv vs (vertex_compile_ok d))] (snd rw)
      in if \<not> vertex_compile_ok d
         then (False, fst rw, emits [PROG (glGetShaderInfoLog vs), HOST (print Cerr vmsg)] w1)
         else
          let fs = fragment_shader_name d;
              w2 = emits [PROG (glCreateShader GL_FRAGMENT_SHADER fs), PROG (glShaderSource fs),
                          PROG (glCompileShader fs), PROG (glGetShaderiv fs (fragment_compile_ok d))] w1
          in if \<not> fragment_compile_ok d
             then (False, fst rw, emits [PROG (glGetShaderInfoLog fs), HOST (print Cerr fmsg)] w2)
             else
              let p = program_name d;
                  r3 = (fst rw)\<lparr>shaderProgram := p\<rparr>;
                  w3 = emits [PROG (glCreateProgram p), PROG (glAttachShader p vs),
                              PROG (glAttachShader p fs), PROG (glLinkProgram p),
                              PROG (glGetProgramiv p (link_ok d))] w2
              in if \<not> link_ok d
                 then (False, r3, emits [PROG (glGetProgramInfoLog p), HOST (print Cerr lmsg)] w3)
                 else (True, r3, emits [PROG (glDeleteShader vs), PROG (glDeleteShader fs)] w3))"

text \<open>\<open>static void framebufferSizeCallback(GLFWwindow*, int width, int height)\<close>: it is
  static, so it has no renderer to read or write.\<close>
definition framebufferSizeCallback :: "int \<Rightarrow> int \<Rightarrow> world \<Rightarrow> world" where
  "framebufferSizeCallback w h wd = emit (GL (glViewport 0 0 w h)) wd"

text \<open>
  What happens around one pass of the render loop: the key states that \<open>glfwGetKey\<close>
  reports in that pass, and what \<open>glfwPollEvents\<close> delivers in it (a close request of
  the user, framebuffer-size notifications).
\<close>
record frame =
  held :: keys
  close_request :: bool
  resizes :: "(int \<times> int) list"

definition poll_events :: "frame \<Rightarrow> world \<Rightarrow> world" where
  "poll_events f w =
     (let w1 = emit (GLFW glfwPollEvents) w;
          w2 = foldl (\<lambda>w' wh. framebufferSizeCallback (fst wh) (snd wh) w') w1 (resizes f)
      in if close_request f then w2\<lparr>should_close := True\<rparr> else w2)"

text \<open>
  The part of \<open>init\<close> that the four classes share: \<open>glfwInit\<close>, the window hints
  (\<open>hints\<close> of them), \<open>glfwCreateWindow(w, h, title)\<close>, the context, the loader and
  \<open>createShaders\<close> (passed as \<open>cs\<close>). The result is the value of \<open>init\<close> where it returns
  in this part (\<open>Some False\<close>), or \<open>None\<close> when control goes on to \<open>setupBuffers\<close>.
\<close>
definition init_start ::
  "nat \<Rightarrow> int \<Rightarrow> int \<Rightarrow> string \<Rightarrow> (driver \<Rightarrow> renderer \<times> world \<Rightarrow> bool \<times> renderer \<times> world) \<Rightarrow>
   driver \<Rightarrow> renderer \<times> world \<Rightarrow> bool option \<times> renderer \<times> world" where
  "init_start hints w h title cs d rw =
     (let w1 = emit (GLFW (glfwInit (glfwInit_ok d))) (snd rw)
      in if \<not> glfwInit_ok d
         then (Some False, fst rw, emit (HOST (print Cerr ''Failed to initialize GLFW'')) w1)
         else
          let w2 = emits (replicate hints (GLFW glfwWindowHint)
                          @ [GLFW (glfwCreateWindow w h title (created_window d))]) w1;
              r2 = (fst rw)\<lparr>window := created_window d\<rparr>
          in if window r2 = None
             then (Some False, r2,
                   emits [HOST (print Cerr ''Failed to create GLFW window''), GLFW glfwTerminate] w2)
             else
              let w3 = emits [GLFW (glfwMakeContextCurrent (window r2)),
                              GLFW (glfwSetFramebufferSizeCallback (window r2)),
                              GLFW (gladLoadGLLoader (gladLoad_ok d))] w2
              in if \<not> gladLoad_ok d
                 then (Some False, r2, emit (HOST (print Cerr ''Failed to initialize GLAD'')) w3)
                 else case cs d (r2, w3) of (ok, r4, w4) \<Rightarrow>
                        if \<not> ok then (Some False, r4, w4) else (None, r4, w4))"

text \<open>
  The GL entry points are function pointers that GLAD fills in when \<open>gladLoadGLLoader\<close>
  succeeds; until then they are null, and calling one is a call through a null pointer.
  \<open>unloaded_call loaded es\<close> says that the trace \<open>es\<close> holds such a call, \<open>loaded\<close> being
  whether the loader has succeeded before \<open>es\<close>.
\<close>
fun unloaded_call :: "bool \<Rightarrow> event list \<Rightarrow> bool" where
  "unloaded_call loaded [] = False"
| "unloaded_call loaded (GLFW (gladLoadGLLoader ok) # es) = unloaded_call (if ok then True else loaded) es"
| "unloaded_call loaded (GLFW c # es) = unloaded_call loaded es"
| "unloaded_call loaded (HOST h # es) = unloaded_call loaded es"
| "unloaded_call loaded (PROG c # es) = (if loaded then unloaded_call loaded es else True)"
| "unloaded_call loaded (GL c # es) = (if loaded then unloaded_call loaded es else True)"

text \<open>
  The process does not survive a call through a null pointer: of the statements that
  the host would go through, those up to and including the first such call happen.
\<close>
fun until_fault :: "bool \<Rightarrow> event list \<Rightarrow> event list" where
  "until_fault loaded [] = []"
| "until_fault loaded (GLFW (gladLoadGLLoader ok) # es) =
     GLFW (gladLoadGLLoader ok) # until_fault (if ok then True else loaded) es"
| "until_fault loaded (GLFW c # es) = GLFW c # until_fault loaded es"
| "until_fault loaded (HOST h # es) = HOST h # until_fault loaded es"
| "until_fault loaded (PROG c # es) = (if loaded then PROG c # until_fault loaded es else [PROG c])"
| "until_fault loaded (GL c # es) = (if loaded then GL c # until_fault loaded es else [GL c])"

text \<open>
  How a run of a program ends: \<open>main\<close> returns an exit code, the process is killed by a
  call through a null pointer, or the render loop is still running when the supplied
  frames are used up.
\<close>
datatype outcome = Exited int | Faulted | Running

text \<open>
  The end of a program, from the value that \<open>main\<close> would return (\<open>None\<close> while the
  loop is running) and the statements it would go through on the way: if one of them is
  a call through an unloaded entry point, the run ends there and \<open>main\<close> never returns.
\<close>
definition finish :: "int option \<times> world \<Rightarrow> outcome \<times> world" where
  "finish cw =
     (if unloaded_call False (trace (snd cw))
      then (Faulted, (snd cw)\<lparr>trace := until_fault False (trace (snd cw))\<rparr>)
      else (case fst cw of None \<Rightarrow> Running | Some c \<Rightarrow> Exited c, snd cw))"

section \<open>PhongTriangleRenderer (phong_triangle.cpp)\<close>

text \<open>
  The constructor initialises \<open>width\<close>, \<open>height\<close>, \<open>rotationAngle\<close>, the lighting
  vectors and the matrices. \<open>window\<close>, \<open>VAO\<close>, \<open>VBO\<close> and \<open>shaderProgram\<close> are left
  uninitialised: they keep whatever the storage \<open>u\<close> held.
\<close>
definition PhongTriangleRenderer :: "renderer \<Rightarrow> renderer" where
  "PhongTriangleRenderer u =
     (let r1 = u\<lparr>width := 800, height := 600, rotationAngle := 0\<rparr>;
          r2 = r1\<lparr>lightPos := Vec3 2 2 2, lightColor := Vec3 1 1 1,
                  objectColor := Vec3 (3/10) (7/10) (9/10), viewPos := Vec3 0 0 3\<rparr>;
          r3 = r2\<lparr>model := identity4\<rparr>;
          r4 = r3\<lparr>view := lookAt (viewPos r3) (Vec3 0 0 0) (Vec3 0 1 0)\<rparr>
      in r4\<lparr>projection := perspective (radians 45) (of_int (width r4) / of_int (height r4)) (1/10) 100\<rparr>)"

definition phong_vertices :: "real list" where
  "phong_vertices =
     [0, 1/2, 0, 0, 0, 1,
      - 1/2, - 1/2, 0, 0, 0, 1,
      1/2, - 1/2, 0, 0, 0, 1]"

definition phong_setupBuffers :: "driver \<Rightarrow> renderer \<times> world \<Rightarrow> renderer \<times> world" where
  "phong_setupBuffers d rw =
     (let r1 = (fst rw)\<lparr>VAO := vao_name d\<rparr>;
          r2 = r1\<lparr>VBO := vbo_name d\<rparr>
      in (r2, emits [GL (glGenVertexArrays (VAO r2)), GL (glGenBuffers (VBO r2)),
                     GL (glBindVertexArray (VAO r2)), GL (glBindBuffer (VBO r2)),
                     GL (glBufferData (4 * length phong_vertices) phong_vertices),
                     GL (glVertexAttribPointer 0 3 24 0), GL (glEnableVertexAttribArray 0),
                     GL (glVertexAttribPointer 1 3 24 12), GL (glEnableVertexAttribArray 1),
                     GL (glBindVertexArray 0)] (snd rw)))"

definition phong_createShaders :: "driver \<Rightarrow> renderer \<times> world \<Rightarrow> bool \<times> renderer \<times> world" where
  "phong_createShaders =
     createShaders ''Vertex shader compilation failed: '' ''Fragment shader compilation failed: ''
       ''Shader program linking failed: ''"

definition phong_init :: "driver \<Rightarrow> renderer \<times> world \<Rightarrow> bool \<times> renderer \<times> world" where
  "phong_init d rw =
     (case init_start 3 (width (fst rw)) (height (fst rw)) ''Phong Triangle Demo'' phong_createShaders d rw of
        (Some b, r, w) \<Rightarrow> (b, r, w)
      | (None, r, w) \<Rightarrow>
          (case phong_setupBuffers d (r, w) of (r5, w5) \<Rightarrow> (True, r5, emit (GL glEnableDepthTest) w5)))"

definition phong_render :: "driver \<Rightarrow> renderer \<times> world \<Rightarrow> renderer \<times> world" where
  "phong_render d rw =
     (let r = fst rw;
          w1 = emits [GL (glClearColor (1/10) (1/10) (1/10) 1), GL (glClear True True),
                      PROG (glUseProgram (shaderProgram r))] (snd rw);
          r1 = r\<lparr>rotationAngle := fl32 (rotationAngle r + rotation_step)\<rparr>;
          r2 = r1\<lparr>model := rotate4 d identity4 (rotationAngle r1) (Vec3 0 1 0)\<rparr>;
          w2 = emits [HOST (assign_rotationAngle (rotationAngle r2)), HOST (assign_model (model r2))] w1;
          p = shaderProgram r2;
          modelLoc = uniform_location d ''model'';
          viewLoc = uniform_location d ''view'';
          projLoc = uniform_location d ''projection'';
          lightPosLoc = uniform_location d ''lightPos'';
          lightColorLoc = uniform_location d ''lightColor'';
          objectColorLoc = uniform_location d ''objectColor'';
          viewPosLoc = uniform_location d ''viewPos'';
          w3 = emits [PROG (glGetUniformLocation p ''model'' modelLoc),
                      PROG (glGetUniformLocation p ''view'' viewLoc),
                      PROG (glGetUniformLocation p ''projection'' projLoc),
                      PROG (glGetUniformLocation p ''lightPos'' lightPosLoc),
                      PROG (glGetUniformLocation p ''lightColor'' lightColorLoc),
                      PROG (glGetUniformLocation p ''objectColor'' objectColorLoc),
                      PROG (glGetUniformLocation p ''viewPos'' viewPosLoc),
                      PROG (glUniformMatrix4fv modelLoc (model r2)),
                      PROG (glUniformMatrix4fv viewLoc (view r2)),
                      PROG (glUniformMatrix4fv projLoc (projection r2)),
                      PROG (glUniform3fv lightPosLoc (lightPos r2)),
                      PROG (glUniform3fv lightColorLoc (lightColor r2)),
                      PROG (glUniform3fv objectColorLoc (objectColor r2)),
                      PROG (glUniform3fv viewPosLoc (viewPos r2))] w2
      in (r2, emits [GL (glBindVertexArray (VAO r2)), GL (glDrawArrays 0 3), GL (glBindVertexArray 0)] w3))"

text \<open>The body of the \<open>while\<close> loop of \<open>run\<close>.\<close>
definition phong_iteration :: "driver \<Rightarrow> frame \<Rightarrow> renderer \<times> world \<Rightarrow> renderer \<times> world" where
  "phong_iteration d f rw =
     (let rw1 = phong_processInput (held f) rw;
          rw2 = phong_render d rw1
      in (fst rw2, poll_events f (emit (GLFW glfwSwapBuffers) (snd rw2))))"

text \<open>
  \<open>run\<close>: \<open>while (!glfwWindowShouldClose(window)) { ... }\<close>. The loop runs as long as
  the outside world supplies frames; the second component says whether the loop was
  left (\<open>True\<close>) or is still running when the supplied frames are used up (\<open>False\<close>).
\<close>
fun phong_run :: "driver \<Rightarrow> frame list \<Rightarrow> renderer \<times> world \<Rightarrow> (renderer \<times> world) \<times> bool" where
  "phong_run d [] rw =
     (if should_close (snd rw) then ((fst rw, emit (GLFW (glfwWindowShouldClose True)) (snd rw)), True)
      else ((fst rw, emit (GLFW (glfwWindowShouldClose False)) (snd rw)), False))"
| "phong_run d (f # fs) rw =
     (if should_close (snd rw) then ((fst rw, emit (GLFW (glfwWindowShouldClose True)) (snd rw)), True)
      else phong_run d fs (phong_iteration d f (fst rw, emit (GLFW (glfwWindowShouldClose False)) (snd rw))))"

definition phong_cleanup :: "renderer \<times> world \<Rightarrow> renderer \<times> world" where
  "phong_cleanup rw =
     (fst rw, emits [GL (glDeleteVertexArrays (VAO (fst rw))), GL (glDeleteBuffers (VBO (fst rw))),
                     PROG (glDeleteProgram (shaderProgram (fst rw))), GLFW glfwTerminate] (snd rw))"

text \<open>
  \<open>main\<close>: how the program ends, and the world at the end. The renderer is a local of
  \<open>main\<close>, so its destructor, which calls \<open>cleanup\<close>, runs when \<open>main\<close> returns, on
  both paths, before the process exits with the returned value. \<open>cleanup\<close> is not
  guarded: when \<open>init\<close> has failed before the GLAD loader succeeded, its first statement
  is a call through an unloaded entry point, and the run ends there.
\<close>
definition phong_main :: "renderer \<Rightarrow> driver \<Rightarrow> frame list \<Rightarrow> outcome \<times> world" where
  "phong_main u d fs =
     finish
     (case phong_init d (PhongTriangleRenderer u, world0) of (ok, r, w) \<Rightarrow>
        if \<not> ok
        then (Some (- 1), snd (phong_cleanup (r, emit (HOST (print Cerr ''Failed to initialize renderer'')) w)))
        else
          (case phong_run d fs (r, emits (map (\<lambda>l. HOST (print Cout l))
                  [''Phong Triangle Demo'', ''Controls:'', ''  R - Red color'', ''  G - Green color'',
                   ''  B - Blue color'', ''  Y - Yellow color'', ''  ESC - Exit'']) w) of
             (rw, left) \<Rightarrow> if left then (Some 0, snd (phong_cleanup rw)) else (None, snd rw)))"

section \<open>TexturedTriangleRenderer (textured_triangle.cpp)\<close>

text \<open>The constructor leaves \<open>window\<close>, \<open>VAO\<close>, \<open>VBO\<close>, \<open>shaderProgram\<close> and \<open>texture\<close>
  uninitialised.\<close>
definition TexturedTriangleRenderer :: "renderer \<Rightarrow> renderer" where
  "TexturedTriangleRenderer u =
     (let r1 = u\<lparr>width := 800, height := 600, rotationAngle := 0\<rparr>;
          r2 = r1\<lparr>objectColor := Vec3 1 1 1\<rparr>;
          r3 = r2\<lparr>model := identity4\<rparr>;
          r4 = r3\<lparr>view := lookAt (Vec3 0 0 3) (Vec3 0 0 0) (Vec3 0 1 0)\<rparr>
      in r4\<lparr>projection := perspective (radians 45) (of_int (width r4) / of_int (height r4)) (1/10) 100\<rparr>)"

definition textured_vertices :: "real list" where
  "textured_vertices =
     [0, 1/2, 0, 1/2, 1,
      - 1/2, - 1/2, 0, 0, 0,
      1/2, - 1/2, 0, 1, 0]"

definition textured_setupBuffers :: "driver \<Rightarrow> renderer \<times> world \<Rightarrow> renderer \<times> world" where
  "textured_setupBuffers d rw =
     (let r1 = (fst rw)\<lparr>VAO := vao_name d\<rparr>;
          r2 = r1\<lparr>VBO := vbo_name d\<rparr>
      in (r2, emits [GL (glGenVertexArrays (VAO r2)), GL (glGenBuffers (VBO r2)),
                     GL (glBindVertexArray (VAO r2)), GL (glBindBuffer (VBO r2)),
                     GL (glBufferData (4 * length textured_vertices) textured_vertices),
                     GL (glVertexAttribPointer 0 3 20 0), GL (glEnableVertexAttribArray 0),
                     GL (glVertexAttribPointer 1 2 20 12), GL (glEnableVertexAttribArray 1),
                     GL (glBindVertexArray 0)] (snd rw)))"

text \<open>The 64 x 64 checkerboard, three bytes per pixel, row by row.\<close>
definition textureData :: "nat list" where
  "textureData =
     concat (map (\<lambda>y. concat (map (\<lambda>x.
       if (x div 8 + y div 8) mod 2 = 0 then [255, 255, 255] else [255, 100, 100]) [0..<64])) [0..<64])"

text \<open>\<open>loadTexture\<close>: no call's outcome is inspected and the last statement is
  \<open>return true\<close>.\<close>
definition loadTexture :: "driver \<Rightarrow> renderer \<times> world \<Rightarrow> bool \<times> renderer \<times> world" where
  "loadTexture d rw =
     (let r1 = (fst rw)\<lparr>texture := texture_name d\<rparr>
      in (True, r1, emits ([GL (glGenTextures (texture r1)), GL (glBindTexture (texture r1))]
                           @ replicate 4 (GL glTexParameteri)
                           @ [GL (glTexImage2D 64 64 textureData), GL glGenerateMipmap]) (snd rw)))"

definition textured_createShaders :: "driver \<Rightarrow> renderer \<times> world \<Rightarrow> bool \<times> renderer \<times> world" where
  "textured_createShaders =
     createShaders ''Vertex shader compilation failed: '' ''Fragment shader compilation failed: ''
       ''Shader program linking failed: ''"

definition textured_init :: "driver \<Rightarrow> renderer \<times> world \<Rightarrow> bool \<times> renderer \<times> world" where
  "textured_init d rw =
     (case init_start 3 (width (fst rw)) (height (fst rw)) ''Textured Triangle Demo'' textured_createShaders d rw of
        (Some b, r, w) \<Rightarrow> (b, r, w)
      | (None, r, w) \<Rightarrow>
          (case loadTexture d (textured_setupBuffers d (r, w)) of (ok, r6, w6) \<Rightarrow>
             if \<not> ok then (False, r6, w6) else (True, r6, emit (GL glEnableDepthTest) w6)))"

definition textured_render :: "driver \<Rightarrow> renderer \<times> world \<Rightarrow> renderer \<times> world" where
  "textured_render d rw =
     (let r = fst rw;
          w1 = emits [GL (glClearColor (2/10) (3/10) (3/10) 1), GL (glClear True True),
                      PROG (glUseProgram (shaderProgram r))] (snd rw);
          r1 = r\<lparr>rotationAngle := fl32 (rotationAngle r + rotation_step)\<rparr>;
          r2 = r1\<lparr>model := rotate4 d identity4 (rotationAngle r1) (Vec3 0 1 0)\<rparr>;
          w2 = emits [HOST (assign_rotationAngle (rotationAngle r2)), HOST (assign_model (model r2))] w1;
          p = shaderProgram r2;
          modelLoc = uniform_location d ''model'';
          viewLoc = uniform_location d ''view'';
          projLoc = uniform_location d ''projection'';
          objectColorLoc = uniform_location d ''objectColor'';
          w3 = emits [PROG (glGetUniformLocation p ''model'' modelLoc),
                      PROG (glGetUniformLocation p ''view'' viewLoc),
                      PROG (glGetUniformLocation p ''projection'' projLoc),
                      PROG (glGetUniformLocation p ''objectColor'' objectColorLoc),
                      PROG (glUniformMatrix4fv modelLoc (model r2)),
                      PROG (glUniformMatrix4fv viewLoc (view r2)),
                      PROG (glUniformMatrix4fv projLoc (projection r2)),
                      PROG (glUniform3fv objectColorLoc (objectColor r2))] w2
      in (r2, emits [GL (glActiveTexture 0), GL (glBindTexture (texture r2)),
                     GL (glBindVertexArray (VAO r2)), GL (glDrawArrays 0 3), GL (glBindVertexArray 0)] w3))"

definition textured_iteration :: "driver \<Rightarrow> frame \<Rightarrow> renderer \<times> world \<Rightarrow> renderer \<times> world" where
  "textured_iteration d f rw =
     (let rw1 = textured_processInput (held f) rw;
          rw2 = textured_render d rw1
      in (fst rw2, poll_events f (emit (GLFW glfwSwapBuffers) (snd rw2))))"

fun textured_run :: "driver \<Rightarrow> frame list \<Rightarrow> renderer \<times> world \<Rightarrow> (renderer \<times> world) \<times> bool" where
  "textured_run d [] rw =
     (if should_close (snd rw) then ((fst rw, emit (GLFW (glfwWindowShouldClose True)) (snd rw)), True)
      else ((fst rw, emit (GLFW (glfwWindowShouldClose False)) (snd rw)), False))"
| "textured_run d (f # fs) rw =
     (if should_close (snd rw) then ((fst rw, emit (GLFW (glfwWindowShouldClose True)) (snd rw)), True)
      else textured_run d fs (textured_iteration d f (fst rw, emit (GLFW (glfwWindowShouldClose False)) (snd rw))))"

definition textured_cleanup :: "renderer \<times> world \<Rightarrow> renderer \<times> world" where
  "textured_cleanup rw =
     (fst rw, emits [GL (glDeleteVertexArrays (VAO (fst rw))), GL (glDeleteBuffers (VBO (fst rw))),
                     PROG (glDeleteProgram (shaderProgram (fst rw))),
                     GL (glDeleteTextures (texture (fst rw))), GLFW glfwTerminate] (snd rw))"

definition textured_main :: "renderer \<Rightarrow> driver \<Rightarrow> frame list \<Rightarrow> outcome \<times> world" where
  "textured_main u d fs =
     finish
     (case textured_init d (TexturedTriangleRenderer u, world0) of (ok, r, w) \<Rightarrow>
        if \<not> ok
        then (Some (- 1), snd (textured_cleanup (r, emit (HOST (print Cerr ''Failed to initialize renderer'')) w)))
        else
          (case textured_run d fs (r, emits (map (\<lambda>l. HOST (print Cout l))
                  [''Textured Triangle Demo'', ''Controls:'', ''  R - Red tint'', ''  G - Green tint'',
                   ''  B - Blue tint'', ''  W - White (no tint)'', ''  ESC - Exit'']) w) of
             (rw, left) \<Rightarrow> if left then (Some 0, snd (textured_cleanup rw)) else (None, snd rw)))"

section \<open>SimpleTriangleRenderer (simple_triangle.cpp)\<close>

text \<open>The constructor: \<open>window(nullptr)\<close>, \<open>VAO(0)\<close>, \<open>VBO(0)\<close>, \<open>shaderProgram(0)\<close>.\<close>
definition SimpleTriangleRenderer :: "renderer \<Rightarrow> renderer" where
  "SimpleTriangleRenderer u = u\<lparr>window := None, VAO := 0, VBO := 0, shaderProgram := 0\<rparr>"

definition simple_vertices :: "real list" where
  "simple_vertices =
     [- 1/2, - 1/2, 0,
      1/2, - 1/2, 0,
      0, 1/2, 0]"

definition simple_createShaders :: "driver \<Rightarrow> renderer \<times> world \<Rightarrow> bool \<times> renderer \<times> world" where
  "simple_createShaders =
     createShaders (''ERROR::SHADER::VERTEX::COMPILATION_FAILED'' @ [CHR 0x0A]) (''ERROR::SHADER::FRAGMENT::COMPILATION_FAILED'' @ [CHR 0x0A])
       (''ERROR::PROGRAM::LINKING_FAILED'' @ [CHR 0x0A])"

definition simple_setupBuffers :: "driver \<Rightarrow> renderer \<times> world \<Rightarrow> renderer \<times> world" where
  "simple_setupBuffers d rw =
     (let r1 = (fst rw)\<lparr>VAO := vao_name d\<rparr>;
          r2 = r1\<lparr>VBO := vbo_name d\<rparr>
      in (r2, emits [GL (glGenVertexArrays (VAO r1)), GL (glBindVertexArray (VAO r1)),
                     GL (glGenBuffers (VBO r2)), GL (glBindBuffer (VBO r2)),
                     GL (glBufferData (length simple_vertices * 4) simple_vertices),
                     GL (glVertexAttribPointer 0 3 12 0), GL (glEnableVertexAttribArray 0),
                     GL (glBindBuffer 0), GL (glBindVertexArray 0)] (snd rw)))"

definition simple_init :: "driver \<Rightarrow> renderer \<times> world \<Rightarrow> bool \<times> renderer \<times> world" where
  "simple_init d rw =
     (case init_start 4 800 600 ''Simple Triangle (C++)'' simple_createShaders d rw of
        (Some b, r, w) \<Rightarrow> (b, r, w)
      | (None, r, w) \<Rightarrow> (case simple_setupBuffers d (r, w) of (r5, w5) \<Rightarrow> (True, r5, w5)))"

text \<open>\<open>render\<close> ends with \<open>glfwSwapBuffers\<close> and \<open>glfwPollEvents\<close>.\<close>
definition simple_render :: "frame \<Rightarrow> renderer \<times> world \<Rightarrow> renderer \<times> world" where
  "simple_render f rw =
     (fst rw,
      poll_events f
        (emits [GL (glClearColor (2/10) (3/10) (3/10) 1), GL (glClear True False),
                PROG (glUseProgram (shaderProgram (fst rw))), GL (glBindVertexArray (VAO (fst rw))),
                GL (glDrawArrays 0 3), GLFW glfwSwapBuffers] (snd rw)))"

text \<open>The body of the \<open>while\<close> loop of \<open>run\<close>: \<open>render()\<close>, then the Escape check.\<close>
definition simple_iteration :: "frame \<Rightarrow> renderer \<times> world \<Rightarrow> renderer \<times> world" where
  "simple_iteration f rw = escape_key (held f) (simple_render f rw)"

fun simple_loop :: "frame list \<Rightarrow> renderer \<times> world \<Rightarrow> (renderer \<times> world) \<times> bool" where
  "simple_loop [] rw =
     (if should_close (snd rw) then ((fst rw, emit (GLFW (glfwWindowShouldClose True)) (snd rw)), True)
      else ((fst rw, emit (GLFW (glfwWindowShouldClose False)) (snd rw)), False))"
| "simple_loop (f # fs) rw =
     (if should_close (snd rw) then ((fst rw, emit (GLFW (glfwWindowShouldClose True)) (snd rw)), True)
      else simple_loop fs (simple_iteration f (fst rw, emit (GLFW (glfwWindowShouldClose False)) (snd rw))))"

definition simple_run :: "frame list \<Rightarrow> renderer \<times> world \<Rightarrow> (renderer \<times> world) \<times> bool" where
  "simple_run fs rw =
     simple_loop fs (fst rw, emits [HOST (print Cout ''Simple Triangle Demo is running!''),
                                  HOST (print Cout ''Press ESC or close window to exit'')] (snd rw))"

text \<open>\<open>cleanup\<close>: every release is guarded by its handle being non-zero.\<close>
definition simple_cleanup :: "renderer \<times> world \<Rightarrow> renderer \<times> world" where
  "simple_cleanup rw =
     (let r = fst rw;
          w1 = (if VAO r \<noteq> 0 then emit (GL (glDeleteVertexArrays (VAO r))) (snd rw) else snd rw);
          w2 = (if VBO r \<noteq> 0 then emit (GL (glDeleteBuffers (VBO r))) w1 else w1);
          w3 = (if shaderProgram r \<noteq> 0 then emit (PROG (glDeleteProgram (shaderProgram r))) w2 else w2);
          w4 = (if window r \<noteq> None then emit (GLFW glfwTerminate) w3 else w3)
      in (r, w4))"

definition simple_main :: "renderer \<Rightarrow> driver \<Rightarrow> frame list \<Rightarrow> outcome \<times> world" where
  "simple_main u d fs =
     finish
     (case simple_init d (SimpleTriangleRenderer u, world0) of (ok, r, w) \<Rightarrow>
        if \<not> ok
        then (Some (- 1), snd (simple_cleanup (r, emit (HOST (print Cerr ''Failed to initialize renderer'')) w)))
        else
          (case simple_run fs (r, w) of
             (rw, left) \<Rightarrow> if left then (Some 0, snd (simple_cleanup rw)) else (None, snd rw)))"

section \<open>TriangleRenderer (triangle_demo.cpp)\<close>

text \<open>The constructor: \<open>window(nullptr)\<close>, \<open>VAO(0)\<close>, \<open>VBO(0)\<close>, \<open>shaderProgram(0)\<close>.\<close>
definition TriangleRenderer :: "renderer \<Rightarrow> renderer" where
  "TriangleRenderer u = u\<lparr>window := None, VAO := 0, VBO := 0, shaderProgram := 0\<rparr>"

definition triangle_vertices :: "real list" where
  "triangle_vertices =
     [- 1/2, - 1/2, 0, 1, 0, 0,
      1/2, - 1/2, 0, 0, 1, 0,
      0, 1/2, 0, 0, 0, 1]"

definition triangle_createShaders :: "driver \<Rightarrow> renderer \<times> world \<Rightarrow> bool \<times> renderer \<times> world" where
  "triangle_createShaders =
     createShaders (''ERROR::SHADER::Vertex::COMPILATION_FAILED'' @ [CHR 0x0A]) (''ERROR::SHADER::Fragment::COMPILATION_FAILED'' @ [CHR 0x0A])
       (''ERROR::PROGRAM::LINKING_FAILED'' @ [CHR 0x0A])"

definition triangle_setupBuffers :: "driver \<Rightarrow> renderer \<times> world \<Rightarrow> renderer \<times> world" where
  "triangle_setupBuffers d rw =
     (let r1 = (fst rw)\<lparr>VAO := vao_name d\<rparr>;
          r2 = r1\<lparr>VBO := vbo_name d\<rparr>
      in (r2, emits [GL (glGenVertexArrays (VAO r1)), GL (glBindVertexArray (VAO r1)),
                     GL (glGenBuffers (VBO r2)), GL (glBindBuffer (VBO r2)),
                     GL (glBufferData (length triangle_vertices * 4) triangle_vertices),
                     GL (glVertexAttribPointer 0 3 24 0), GL (glEnableVertexAttribArray 0),
                     GL (glVertexAttribPointer 1 3 24 12), GL (glEnableVertexAttribArray 1),
                     GL (glBindBuffer 0), GL (glBindVertexArray 0)] (snd rw)))"

definition triangle_init :: "driver \<Rightarrow> renderer \<times> world \<Rightarrow> bool \<times> renderer \<times> world" where
  "triangle_init d rw =
     (case init_start 4 800 600 ''Triangle Demo - Computer Graphics (C++)'' triangle_createShaders d rw of
        (Some b, r, w) \<Rightarrow> (b, r, w)
      | (None, r, w) \<Rightarrow> (case triangle_setupBuffers d (r, w) of (r5, w5) \<Rightarrow> (True, r5, w5)))"

text \<open>\<open>render\<close> ends with \<open>glfwSwapBuffers\<close> and \<open>glfwPollEvents\<close>.\<close>
definition triangle_render :: "frame \<Rightarrow> renderer \<times> world \<Rightarrow> renderer \<times> world" where
  "triangle_render f rw =
     (fst rw,
      poll_events f
        (emits [GL (glClearColor (2/10) (3/10) (3/10) 1), GL (glClear True False),
                PROG (glUseProgram (shaderProgram (fst rw))), GL (glBindVertexArray (VAO (fst rw))),
                GL (glDrawArrays 0 3), GLFW glfwSwapBuffers] (snd rw)))"

text \<open>The body of the \<open>while\<close> loop of \<open>run\<close>: \<open>render()\<close>, then the Escape check.\<close>
definition triangle_iteration :: "frame \<Rightarrow> renderer \<times> world \<Rightarrow> renderer \<times> world" where
  "triangle_iteration f rw = escape_key (held f) (triangle_render f rw)"

fun triangle_loop :: "frame list \<Rightarrow> renderer \<times> world \<Rightarrow> (renderer \<times> world) \<times> bool" where
  "triangle_loop [] rw =
     (if should_close (snd rw) then ((fst rw, emit (GLFW (glfwWindowShouldClose True)) (snd rw)), True)
      else ((fst rw, emit (GLFW (glfwWindowShouldClose False)) (snd rw)), False))"
| "triangle_loop (f # fs) rw =
     (if should_close (snd rw) then ((fst rw, emit (GLFW (glfwWindowShouldClose True)) (snd rw)), True)
      else triangle_loop fs (triangle_iteration f (fst rw, emit (GLFW (glfwWindowShouldClose False)) (snd rw))))"

definition triangle_run :: "frame list \<Rightarrow> renderer \<times> world \<Rightarrow> (renderer \<times> world) \<times> bool" where
  "triangle_run fs rw =
     triangle_loop fs (fst rw, emits [HOST (print Cout ''Triangle Demo is running!''),
                                  HOST (print Cout ''Press ESC or close window to exit'')] (snd rw))"

text \<open>\<open>cleanup\<close>: every release is guarded by its handle being non-zero.\<close>
definition triangle_cleanup :: "renderer \<times> world \<Rightarrow> renderer \<times> world" where
  "triangle_cleanup rw =
     (let r = fst rw;
          w1 = (if VAO r \<noteq> 0 then emit (GL (glDeleteVertexArrays (VAO r))) (snd rw) else snd rw);
          w2 = (if VBO r \<noteq> 0 then emit (GL (glDeleteBuffers (VBO r))) w1 else w1);
          w3 = (if shaderProgram r \<noteq> 0 then emit (PROG (glDeleteProgram (shaderProgram r))) w2 else w2);
          w4 = (if window r \<noteq> None then emit (GLFW glfwTerminate) w3 else w3)
      in (r, w4))"

definition triangle_main :: "renderer \<Rightarrow> driver \<Rightarrow> frame list \<Rightarrow> outcome \<times> world" where
  "triangle_main u d fs =
     finish
     (case triangle_init d (TriangleRenderer u, world0) of (ok, r, w) \<Rightarrow>
        if \<not> ok
        then (Some (- 1), snd (triangle_cleanup (r, emit (HOST (print Cerr ''Failed to initialize renderer'')) w)))
        else
          (case triangle_run fs (r, w) of
             (rw, left) \<Rightarrow> if left then (Some 0, snd (triangle_cleanup rw)) else (None, snd rw)))"

section \<open>The Phong fragment shader (phong_triangle.cpp, \<open>fragmentShaderSource\<close>)\<close>

text \<open>GLSL's \<open>reflect(I, N) = I - 2 * dot(N, I) * N\<close>.\<close>
definition reflect :: "vec3 \<Rightarrow> vec3 \<Rightarrow> vec3" where
  "reflect i n = vsub i (scale (2 * dot n i) n)"

text \<open>The inputs of the fragment stage: the two varyings and the four uniforms.\<close>
record fragment_input =
  FragPos :: vec3
  Normal :: vec3
  u_lightPos :: vec3
  u_viewPos :: vec3
  u_lightColor :: vec3
  u_objectColor :: vec3

definition norm_frag :: "fragment_input \<Rightarrow> vec3" where
  "norm_frag i = normalize (Normal i)"

definition lightDir :: "fragment_input \<Rightarrow> vec3" where
  "lightDir i = normalize (vsub (u_lightPos i) (FragPos i))"

definition viewDir :: "fragment_input \<Rightarrow> vec3" where
  "viewDir i = normalize (vsub (u_viewPos i) (FragPos i))"

definition ambient :: "fragment_input \<Rightarrow> vec3" where
  "ambient i = scale (1/10) (u_lightColor i)"

definition diffuse :: "fragment_input \<Rightarrow> vec3" where
  "diffuse i = scale (max (dot (norm_frag i) (lightDir i)) 0) (u_lightColor i)"

definition reflectDir :: "fragment_input \<Rightarrow> vec3" where
  "reflectDir i = reflect (neg (lightDir i)) (norm_frag i)"

text \<open>\<open>pow(x, 32)\<close> with \<open>x \<ge> 0\<close> is the 32nd power.\<close>
definition spec :: "fragment_input \<Rightarrow> real" where
  "spec i = (max (dot (viewDir i) (reflectDir i)) 0) ^ 32"

definition specular :: "fragment_input \<Rightarrow> vec3" where
  "specular i = scale ((1/2) * spec i) (u_lightColor i)"

text \<open>\<open>main\<close> of the fragment shader: the value written to \<open>FragColor\<close>.\<close>
definition FragColor :: "fragment_input \<Rightarrow> vec4" where
  "FragColor i =
     (case vmul (vadd (vadd (ambient i) (diffuse i)) (specular i)) (u_objectColor i) of
        Vec3 r g b \<Rightarrow> Vec4 r g b 1)"

section \<open>Vocabulary of the properties\<close>

subsection \<open>Colour keys\<close>

text \<open>The colour keys of each variant, in the order in which \<open>processInput\<close> checks them.\<close>
definition phong_color_keys :: "key list" where
  "phong_color_keys = [GLFW_KEY_R, GLFW_KEY_G, GLFW_KEY_B, GLFW_KEY_Y]"

definition textured_color_keys :: "key list" where
  "textured_color_keys = [GLFW_KEY_R, GLFW_KEY_G, GLFW_KEY_B, GLFW_KEY_W]"

text \<open>The held key that comes last in a given order, if any key of the order is held.\<close>
definition last_held :: "keys \<Rightarrow> key list \<Rightarrow> key option" where
  "last_held ks order = (case filter ks order of [] \<Rightarrow> None | k # rest \<Rightarrow> Some (last (k # rest)))"

text \<open>The fixed colour of each colour key (the last equation is only met by \<open>Y\<close>,
  respectively \<open>W\<close>, among the colour keys of the variant).\<close>
fun phong_key_color :: "key \<Rightarrow> vec3" where
  "phong_key_color GLFW_KEY_R = phong_red"
| "phong_key_color GLFW_KEY_G = phong_green"
| "phong_key_color GLFW_KEY_B = phong_blue"
| "phong_key_color k = phong_yellow"

fun textured_key_color :: "key \<Rightarrow> vec3" where
  "textured_key_color GLFW_KEY_R = tex_red"
| "textured_key_color GLFW_KEY_G = tex_green"
| "textured_key_color GLFW_KEY_B = tex_blue"
| "textured_key_color k = tex_white"

text \<open>The keys queried by \<open>glfwGetKey\<close> in a trace, in order.\<close>
fun key_reads :: "event list \<Rightarrow> key list" where
  "key_reads [] = []"
| "key_reads (GLFW (glfwGetKey k b) # es) = k # key_reads es"
| "key_reads (e # es) = key_reads es"

subsection \<open>Concrete inputs\<close>

definition no_keys :: keys where
  "no_keys = (\<lambda>k. False)"

definition only :: "key \<Rightarrow> keys" where
  "only k = (\<lambda>k'. k' = k)"

definition quiet_frame :: frame where
  "quiet_frame = \<lparr>held = no_keys, close_request = False, resizes = []\<rparr>"

definition key_frame :: "key \<Rightarrow> frame" where
  "key_frame k = \<lparr>held = only k, close_request = False, resizes = []\<rparr>"

text \<open>A frame in which the keys R and Y are both held.\<close>
definition red_and_yellow_frame :: frame where
  "red_and_yellow_frame =
     \<lparr>held = (\<lambda>k. k = GLFW_KEY_R \<or> k = GLFW_KEY_Y), close_request = False, resizes = []\<rparr>"

definition close_frame :: frame where
  "close_frame = \<lparr>held = no_keys, close_request = True, resizes = []\<rparr>"

definition resize_frame :: "int \<Rightarrow> int \<Rightarrow> frame" where
  "resize_frame w h = \<lparr>held = no_keys, close_request = False, resizes = [(w, h)]\<rparr>"

text \<open>A driver on which every step of initialisation succeeds, with the uniforms of
  the Phong program active and a correctly rounded math library.\<close>
definition good_driver :: driver where
  "good_driver =
     \<lparr>glfwInit_ok = True, created_window = Some 1, gladLoad_ok = True,
      vertex_shader_name = 1, vertex_compile_ok = True,
      fragment_shader_name = 2, fragment_compile_ok = True,
      program_name = 3, link_ok = True,
      vao_name = 1, vbo_name = 1, texture_name = 1,
      bufferData_accepted = True, texImage_accepted = True,
      active_uniforms = [''model'', ''view'', ''projection'', ''lightPos'', ''lightColor'',
                         ''objectColor'', ''viewPos''],
      libm_cos = cos, libm_sin = sin\<rparr>"

text \<open>Some content of the storage in which a renderer object is constructed.\<close>
definition storage :: renderer where
  "storage =
     \<lparr>window = Some 7, VAO = 7, VBO = 7, shaderProgram = 7, texture = 7, width = 7, height = 7,
      lightPos = Vec3 7 7 7, lightColor = Vec3 7 7 7, objectColor = Vec3 7 7 7, viewPos = Vec3 7 7 7,
      model = identity4, view = identity4, projection = identity4, rotationAngle = 7\<rparr>"

subsection \<open>Start-up and the render loop\<close>

text \<open>Every check that \<open>init\<close> and \<open>createShaders\<close> make passes.\<close>
definition startup_ok :: "driver \<Rightarrow> bool" where
  "startup_ok d \<longleftrightarrow>
     glfwInit_ok d \<and> created_window d \<noteq> None \<and> gladLoad_ok d \<and>
     vertex_compile_ok d \<and> fragment_compile_ok d \<and> link_ok d"

text \<open>The events that only the render loop produces: the loop test, clearing, drawing
  and presenting.\<close>
fun loop_event :: "event \<Rightarrow> bool" where
  "loop_event (GLFW (glfwWindowShouldClose b)) = True"
| "loop_event (GLFW glfwSwapBuffers) = True"
| "loop_event (GLFW glfwPollEvents) = True"
| "loop_event (GL (glClear c z)) = True"
| "loop_event (GL (glDrawArrays first n)) = True"
| "loop_event e = False"

text \<open>Some supplied frame asks the loop to end: a close request, or Escape held.\<close>
definition closes :: "frame \<Rightarrow> bool" where
  "closes f \<longleftrightarrow> close_request f \<or> held f GLFW_KEY_ESCAPE"

text \<open>A driver that rejects the texture upload while every check of \<open>init\<close> passes.\<close>
definition texture_rejecting_driver :: driver where
  "texture_rejecting_driver = good_driver\<lparr>texImage_accepted := False\<rparr>"

text \<open>A driver on which \<open>glfwInit\<close> fails.\<close>
definition no_glfw_driver :: driver where
  "no_glfw_driver = good_driver\<lparr>glfwInit_ok := False\<rparr>"

text \<open>A driver whose compiler rejects the vertex shader.\<close>
definition no_vertex_shader_driver :: driver where
  "no_vertex_shader_driver = good_driver\<lparr>vertex_compile_ok := False\<rparr>"

subsection \<open>The steps of one pass of the render loop\<close>

text \<open>
  The steps a pass of the loop is made of. \<open>Unbind\<close> is the \<open>glBindVertexArray(0)\<close> that
  follows the draw call in the Phong and textured variants.
\<close>
datatype step =
    PollInput | ClearFrame | ActivateProgram | AdvanceRotation | PushUniforms
  | BindResources | SubmitDraw | Unbind | Present

text \<open>The step an event belongs to. The framebuffer-size callback runs inside
  \<open>glfwPollEvents\<close>, so its \<open>glViewport\<close> belongs to presenting and yielding.\<close>
fun step_of :: "event \<Rightarrow> step option" where
  "step_of (GLFW (glfwGetKey k b)) = Some PollInput"
| "step_of (GLFW (glfwSetWindowShouldClose b)) = Some PollInput"
| "step_of (HOST (assign_objectColor c)) = Some PollInput"
| "step_of (GL (glClearColor r g b a)) = Some ClearFrame"
| "step_of (GL (glClear c z)) = Some ClearFrame"
| "step_of (PROG (glUseProgram p)) = Some ActivateProgram"
| "step_of (HOST (assign_rotationAngle a)) = Some AdvanceRotation"
| "step_of (HOST (assign_model m)) = Some AdvanceRotation"
| "step_of (PROG (glGetUniformLocation p n l)) = Some PushUniforms"
| "step_of (PROG (glUniformMatrix4fv l m)) = Some PushUniforms"
| "step_of (PROG (glUniform3fv l v)) = Some PushUniforms"
| "step_of (GL (glActiveTexture u)) = Some BindResources"
| "step_of (GL (glBindTexture t)) = Some BindResources"
| "step_of (GL (glBindVertexArray v)) = (if v = 0 then Some Unbind else Some BindResources)"
| "step_of (GL (glDrawArrays first n)) = Some SubmitDraw"
| "step_of (GLFW glfwSwapBuffers) = Some Present"
| "step_of (GLFW glfwPollEvents) = Some Present"
| "step_of (GL (glViewport x y w h)) = Some Present"
| "step_of e = None"

text \<open>The steps of a trace in order, a run of events of one step counted once.\<close>
fun steps_of :: "event list \<Rightarrow> step list" where
  "steps_of [] = []"
| "steps_of (e # es) =
     (case step_of e of
        None \<Rightarrow> steps_of es
      | Some s \<Rightarrow> (case steps_of es of [] \<Rightarrow> [s] | t # ts \<Rightarrow> if s = t then t # ts else s # t # ts))"

text \<open>The events that were added to the trace between two worlds.\<close>
definition added :: "world \<Rightarrow> world \<Rightarrow> event list" where
  "added w w' = drop (length (trace w)) (trace w')"

text \<open>A non-empty run of events of one step.\<close>
definition block :: "step \<Rightarrow> event list \<Rightarrow> bool" where
  "block s es \<longleftrightarrow> es \<noteq> [] \<and> list_all (\<lambda>e. step_of e = Some s) es"

text \<open>The renderers and the world right after a successful \<open>init\<close> on \<open>good_driver\<close>.\<close>
definition phong_ready :: "renderer \<times> world" where
  "phong_ready = snd (phong_init good_driver (PhongTriangleRenderer storage, world0))"

definition textured_ready :: "renderer \<times> world" where
  "textured_ready = snd (textured_init good_driver (TexturedTriangleRenderer storage, world0))"

definition simple_ready :: "renderer \<times> world" where
  "simple_ready = snd (simple_init good_driver (SimpleTriangleRenderer storage, world0))"

definition triangle_ready :: "renderer \<times> world" where
  "triangle_ready = snd (triangle_init good_driver (TriangleRenderer storage, world0))"

subsection \<open>Viewport and projection\<close>

text \<open>The projection matrix for a framebuffer of \<open>w\<close> by \<open>h\<close> pixels, with the camera
  parameters of the constructors (45 degrees, near 0.1, far 100).\<close>
definition projection_for :: "int \<Rightarrow> int \<Rightarrow> mat4" where
  "projection_for w h = perspective (radians 45) (of_int w / of_int h) (1/10) 100"

text \<open>The sizes passed to \<open>glViewport\<close> in a trace, in order.\<close>
fun viewports :: "event list \<Rightarrow> (int \<times> int) list" where
  "viewports [] = []"
| "viewports (GL (glViewport x y w h) # es) = (w, h) # viewports es"
| "viewports (e # es) = viewports es"

subsection \<open>The uniform state of the program\<close>

text \<open>
  The values of the program's uniforms, by location. GL's rule for \<open>glUniform*\<close>: a call
  with location \<open>-1\<close> is silently ignored and changes nothing; any other call stores the
  value at the location.
\<close>
type_synonym uniform_store = "int \<Rightarrow> uniform_value option"

fun gl_uniform :: "event \<Rightarrow> uniform_store \<Rightarrow> uniform_store" where
  "gl_uniform (PROG (glUniformMatrix4fv l m)) st = (if l = - 1 then st else st(l \<mapsto> UMat4 m))"
| "gl_uniform (PROG (glUniform3fv l v)) st = (if l = - 1 then st else st(l \<mapsto> UVec3 v))"
| "gl_uniform e st = st"

definition uniforms_after :: "event list \<Rightarrow> uniform_store \<Rightarrow> uniform_store" where
  "uniforms_after es st = foldl (\<lambda>st' e. gl_uniform e st') st es"

text \<open>The lines written to \<open>std::cerr\<close> in a trace.\<close>
fun cerr_lines :: "event list \<Rightarrow> string list" where
  "cerr_lines [] = []"
| "cerr_lines (HOST (print Cerr l) # es) = l # cerr_lines es"
| "cerr_lines (e # es) = cerr_lines es"

text \<open>The uniforms the host offers in a frame, with the values it passes: those of the
  Phong variant and those of the textured variant.\<close>
definition phong_uniforms :: "renderer \<Rightarrow> (string \<times> uniform_value) list" where
  "phong_uniforms r =
     [(''model'', UMat4 (model r)), (''view'', UMat4 (view r)), (''projection'', UMat4 (projection r)),
      (''lightPos'', UVec3 (lightPos r)), (''lightColor'', UVec3 (lightColor r)),
      (''objectColor'', UVec3 (objectColor r)), (''viewPos'', UVec3 (viewPos r))]"

definition textured_uniforms :: "renderer \<Rightarrow> (string \<times> uniform_value) list" where
  "textured_uniforms r =
     [(''model'', UMat4 (model r)), (''view'', UMat4 (view r)), (''projection'', UMat4 (projection r)),
      (''objectColor'', UVec3 (objectColor r))]"

text \<open>Storing the value of one active uniform; nothing for a name that is not active.\<close>
definition store_active :: "driver \<Rightarrow> string \<times> uniform_value \<Rightarrow> uniform_store \<Rightarrow> uniform_store" where
  "store_active d nv st =
     (if fst nv \<in> set (active_uniforms d) then st(uniform_location d (fst nv) \<mapsto> snd nv) else st)"

text \<open>A driver whose linker removed \<open>lightPos\<close> from the program.\<close>
definition lightPos_free_driver :: driver where
  "lightPos_free_driver =
     good_driver\<lparr>active_uniforms := [''model'', ''view'', ''projection'', ''lightColor'',
                                       ''objectColor'', ''viewPos'']\<rparr>"

subsection \<open>Releasing handles\<close>

text \<open>The releases of GPU handles in a trace, in order.\<close>
fun releases :: "event list \<Rightarrow> event list" where
  "releases [] = []"
| "releases (GL (glDeleteVertexArrays n) # es) = GL (glDeleteVertexArrays n) # releases es"
| "releases (GL (glDeleteBuffers n) # es) = GL (glDeleteBuffers n) # releases es"
| "releases (GL (glDeleteTextures n) # es) = GL (glDeleteTextures n) # releases es"
| "releases (PROG (glDeleteProgram n) # es) = PROG (glDeleteProgram n) # releases es"
| "releases (e # es) = releases es"

subsection \<open>Fragments at grazing incidence\<close>

text \<open>A fragment lit at grazing incidence (the light lies in the surface plane) and seen
  from the side opposite to the light.\<close>
definition grazing_fragment :: fragment_input where
  "grazing_fragment =
     \<lparr>FragPos = Vec3 0 0 0, Normal = Vec3 0 0 1, u_lightPos = Vec3 1 0 0, u_viewPos = Vec3 (- 1) 0 0,
      u_lightColor = Vec3 1 1 1, u_objectColor = Vec3 1 1 1\<rparr>"

text \<open>The same fragment seen from straight above the surface.\<close>
definition grazing_fragment_from_above :: fragment_input where
  "grazing_fragment_from_above = grazing_fragment\<lparr>u_viewPos := Vec3 0 0 1\<rparr>"

text \<open>The colour that ambient light alone gives: \<open>0.1 * lightColor * objectColor\<close>, alpha 1.\<close>
definition ambient_only :: "fragment_input \<Rightarrow> vec4" where
  "ambient_only i = (case vmul (scale (1/10) (u_lightColor i)) (u_objectColor i) of Vec3 r g b \<Rightarrow> Vec4 r g b 1)"

subsection \<open>Rotation\<close>

text \<open>The rotation matrix for an angle about the vertical axis (column-major).\<close>
definition rotation_about_y :: "real \<Rightarrow> mat4" where
  "rotation_about_y a =
     Mat4 (Vec4 (cos a) 0 (- sin a) 0) (Vec4 0 1 0 0) (Vec4 (sin a) 0 (cos a) 0) (Vec4 0 0 0 1)"

text \<open>
  The rotation matrix about the vertical axis as binary32 arithmetic gives it: \<open>c\<close> and
  \<open>s\<close> are the cosine and the sine of the platform for the angle, as \<open>float\<close>s, and the
  middle entry is \<open>c + (1 - c)\<close> with both operations rounded, which need not be \<open>1\<close>.
\<close>
definition rounded_rotation_about_y :: "driver \<Rightarrow> real \<Rightarrow> mat4" where
  "rounded_rotation_about_y d a =
     (let c = cosf d a; s = sinf d a
      in Mat4 (Vec4 c 0 (- s) 0) (Vec4 0 (fl32 (c + fl32 (1 - c))) 0 0) (Vec4 s 0 c 0) (Vec4 0 0 0 1))"

text \<open>One per-frame advance of the angle, as \<open>render\<close> does it.\<close>
definition advance :: "real \<Rightarrow> real" where
  "advance a = fl32 (a + rotation_step)"

text \<open>
  The same accumulation on integers, for angles that are a multiple of \<open>2^-30\<close> (all
  values of \<open>rotationAngle\<close> are): the angle \<open>k / 2^30\<close> is represented by \<open>k\<close>.
  \<open>shift24 n\<close> is the number of low bits that must go for \<open>n\<close> to fit into 24 bits,
  \<open>rne_int n j\<close> is \<open>n / 2^j\<close> rounded to the nearest integer, ties to even, and
  \<open>10737418 / 2^30\<close> is the value of \<open>0.01f\<close>.
\<close>
function shift24 :: "int \<Rightarrow> nat" where
  "shift24 n = (if n < 2 ^ 24 then 0 else Suc (shift24 (n div 2)))"
  by pat_completeness auto
termination
  by (relation "measure nat") auto

definition rne_int :: "int \<Rightarrow> nat \<Rightarrow> int" where
  "rne_int n j =
     (let q = n div 2 ^ j; r = n mod 2 ^ j
      in if 2 * r < 2 ^ j then q else if 2 ^ j < 2 * r then q + 1 else if even q then q else q + 1)"

definition next30 :: "int \<Rightarrow> int" where
  "next30 k = (let n = k + 10737418; j = shift24 n in rne_int n j * 2 ^ j)"

fun angle30 :: "nat \<Rightarrow> int \<Rightarrow> int" where
  "angle30 0 k = k"
| "angle30 (Suc n) k = angle30 n (next30 k)"

text \<open>The renderer and the world after the loop body has run once for each of the
  given frames.\<close>
definition phong_frames :: "driver \<Rightarrow> frame list \<Rightarrow> renderer \<times> world \<Rightarrow> renderer \<times> world" where
  "phong_frames d fs rw = foldl (\<lambda>rw' f. phong_iteration d f rw') rw fs"

definition textured_frames :: "driver \<Rightarrow> frame list \<Rightarrow> renderer \<times> world \<Rightarrow> renderer \<times> world" where
  "textured_frames d fs rw = foldl (\<lambda>rw' f. textured_iteration d f rw') rw fs"

section \<open>Proofs\<close>

subsection \<open>Traces and start-up\<close>

lemma trace_emit: "trace (emit e w) = trace w @ [e]" by (simp add: emit_def)
lemma trace_emits: "trace (emits es w) = trace w @ es" by (simp add: emits_def)
lemma close_emit: "should_close (emit e w) = should_close w" by (simp add: emit_def)
lemma close_emits: "should_close (emits es w) = should_close w" by (simp add: emits_def)

lemma poll_events_trace:
  "trace (poll_events f w) =
     trace w @ GLFW glfwPollEvents # map (\<lambda>wh. GL (glViewport 0 0 (fst wh) (snd wh))) (resizes f)"
proof -
  have "trace (foldl (\<lambda>w' wh. framebufferSizeCallback (fst wh) (snd wh) w') w0 xs)
        = trace w0 @ map (\<lambda>wh. GL (glViewport 0 0 (fst wh) (snd wh))) xs" for w0 xs
    by (induction xs arbitrary: w0) (simp_all add: framebufferSizeCallback_def trace_emit)
  then show ?thesis by (simp add: poll_events_def Let_def trace_emit)
qed

lemma color_key_trace:
  "trace (snd (color_key ks k c rw)) =
     trace (snd rw) @ GLFW (glfwGetKey k (ks k)) # (if ks k then [HOST (assign_objectColor c)] else [])"
  by (simp add: color_key_def set_objectColor_def Let_def trace_emit)

lemma escape_key_trace:
  "trace (snd (escape_key ks rw)) =
     trace (snd rw) @ GLFW (glfwGetKey GLFW_KEY_ESCAPE (ks GLFW_KEY_ESCAPE))
       # (if ks GLFW_KEY_ESCAPE then [GLFW (glfwSetWindowShouldClose True)] else [])"
  by (simp add: escape_key_def Let_def trace_emit)

lemma createShaders_ok:
  "fst (createShaders a b c d rw) = (vertex_compile_ok d \<and> fragment_compile_ok d \<and> link_ok d)"
  by (simp add: createShaders_def Let_def)

lemma createShaders_okD:
  "createShaders a b c d rw = (ok, r', w') \<Longrightarrow> ok = (vertex_compile_ok d \<and> fragment_compile_ok d \<and> link_ok d)"
  using createShaders_ok [of a b c d rw] by simp

lemma createShaders_loop:
  "filter loop_event (trace (snd (snd (createShaders a b c d rw)))) = filter loop_event (trace (snd rw))"
  by (simp add: createShaders_def Let_def trace_emits)

lemma createShaders_loopD:
  "createShaders a b c d rw = (ok, r', w') \<Longrightarrow> filter loop_event (trace w') = filter loop_event (trace (snd rw))"
  using createShaders_loop [of a b c d rw] by simp

lemma init_start_result:
  "fst (init_start n w h t (createShaders a b c) d rw) = (if startup_ok d then None else Some False)"
  by (auto simp add: init_start_def Let_def startup_ok_def split: prod.splits dest!: createShaders_okD)

lemma init_start_loop:
  "filter loop_event (trace (snd (snd (init_start n w h t (createShaders a b c) d rw)))) = filter loop_event (trace (snd rw))"
  by (auto simp add: init_start_def Let_def trace_emit trace_emits split: prod.splits dest!: createShaders_loopD)

lemma init_startD:
  "init_start n w h t (createShaders a b c) d rw = (res, r', w') \<Longrightarrow>
   res = (if startup_ok d then None else Some False) \<and>
   filter loop_event (trace w') = filter loop_event (trace (snd rw))"
  using init_start_result [of n w h t a b c d rw] init_start_loop [of n w h t a b c d rw] by simp

lemma phong_init_ok: "fst (phong_init d rw) = startup_ok d"
  by (auto simp add: phong_init_def phong_createShaders_def phong_setupBuffers_def Let_def
      split: prod.splits option.splits if_splits dest!: init_startD)

lemma phong_init_loop:
  "filter loop_event (trace (snd (snd (phong_init d rw)))) = filter loop_event (trace (snd rw))"
  by (auto simp add: phong_init_def phong_createShaders_def phong_setupBuffers_def Let_def trace_emit trace_emits
      split: prod.splits option.splits if_splits dest!: init_startD)

lemma textured_init_ok: "fst (textured_init d rw) = startup_ok d"
  by (auto simp add: textured_init_def textured_createShaders_def textured_setupBuffers_def loadTexture_def Let_def
      split: prod.splits option.splits if_splits dest!: init_startD)

lemma textured_init_loop:
  "filter loop_event (trace (snd (snd (textured_init d rw)))) = filter loop_event (trace (snd rw))"
  by (auto simp add: textured_init_def textured_createShaders_def textured_setupBuffers_def loadTexture_def Let_def trace_emit trace_emits
      split: prod.splits option.splits if_splits dest!: init_startD)

lemma simple_init_ok: "fst (simple_init d rw) = startup_ok d"
  by (auto simp add: simple_init_def simple_createShaders_def simple_setupBuffers_def Let_def
      split: prod.splits option.splits if_splits dest!: init_startD)

lemma simple_init_loop:
  "filter loop_event (trace (snd (snd (simple_init d rw)))) = filter loop_event (trace (snd rw))"
  by (auto simp add: simple_init_def simple_createShaders_def simple_setupBuffers_def Let_def trace_emit trace_emits
      split: prod.splits option.splits if_splits dest!: init_startD)

lemma triangle_init_ok: "fst (triangle_init d rw) = startup_ok d"
  by (auto simp add: triangle_init_def triangle_createShaders_def triangle_setupBuffers_def Let_def
      split: prod.splits option.splits if_splits dest!: init_startD)

lemma triangle_init_loop:
  "filter loop_event (trace (snd (snd (triangle_init d rw)))) = filter loop_event (trace (snd rw))"
  by (auto simp add: triangle_init_def triangle_createShaders_def triangle_setupBuffers_def Let_def trace_emit trace_emits
      split: prod.splits option.splits if_splits dest!: init_startD)

subsection \<open>Input handling\<close>

lemma key_reads_append: "key_reads (xs @ ys) = key_reads xs @ key_reads ys"
  by (induction xs rule: key_reads.induct) auto

lemma color_key_fst: "objectColor (fst (color_key ks k c rw)) = (if ks k then c else objectColor (fst rw))"
  by (simp add: color_key_def set_objectColor_def Let_def)

lemma escape_key_fst: "fst (escape_key ks rw) = fst rw"
  by (simp add: escape_key_def Let_def)

lemma color_key_reads: "key_reads (trace (snd (color_key ks k c rw))) = key_reads (trace (snd rw)) @ [k]"
  by (simp add: color_key_def set_objectColor_def Let_def emit_def key_reads_append)

lemma escape_key_reads: "key_reads (trace (snd (escape_key ks rw))) = key_reads (trace (snd rw)) @ [GLFW_KEY_ESCAPE]"
  by (simp add: escape_key_def Let_def emit_def key_reads_append)

lemma color_key_close: "should_close (snd (color_key ks k c rw)) = should_close (snd rw)"
  by (simp add: color_key_def set_objectColor_def Let_def emit_def)

lemma escape_key_close: "should_close (snd (escape_key ks rw)) = (should_close (snd rw) \<or> ks GLFW_KEY_ESCAPE)"
  by (simp add: escape_key_def Let_def emit_def)

lemma phong_processInput_color:
  "objectColor (fst (phong_processInput ks rw)) =
     (case last_held ks phong_color_keys of None \<Rightarrow> objectColor (fst rw) | Some k \<Rightarrow> phong_key_color k)"
  by (simp add: phong_processInput_def color_key_fst escape_key_fst last_held_def phong_color_keys_def)

lemma textured_processInput_color:
  "objectColor (fst (textured_processInput ks rw)) =
     (case last_held ks textured_color_keys of None \<Rightarrow> objectColor (fst rw) | Some k \<Rightarrow> textured_key_color k)"
  by (simp add: textured_processInput_def color_key_fst escape_key_fst last_held_def textured_color_keys_def)

lemma phong_processInput_close:
  "should_close (snd (phong_processInput ks rw)) = (should_close (snd rw) \<or> ks GLFW_KEY_ESCAPE)"
  by (simp add: phong_processInput_def color_key_close escape_key_close)

lemma textured_processInput_close:
  "should_close (snd (textured_processInput ks rw)) = (should_close (snd rw) \<or> ks GLFW_KEY_ESCAPE)"
  by (simp add: textured_processInput_def color_key_close escape_key_close)

text \<open>
  C10. \<open>processInput\<close> is a function of the key snapshot: it queries Escape, then R, G, B
  and then Y (Phong variant) or W (textured variant), always in this order; every held
  colour key overwrites \<open>objectColor\<close>, so afterwards \<open>objectColor\<close> is the colour of the
  held colour key that comes last in that order, and it is unchanged when no colour key
  is held. Escape sets the close flag.
\<close>
theorem processInput_fixed_order_last_held_wins:
  "key_reads (trace (snd (phong_processInput ks rw)))
     = key_reads (trace (snd rw)) @ GLFW_KEY_ESCAPE # phong_color_keys
   \<and> objectColor (fst (phong_processInput ks rw))
     = (case last_held ks phong_color_keys of None \<Rightarrow> objectColor (fst rw) | Some k \<Rightarrow> phong_key_color k)
   \<and> should_close (snd (phong_processInput ks rw)) = (should_close (snd rw) \<or> ks GLFW_KEY_ESCAPE)
   \<and> key_reads (trace (snd (textured_processInput ks rw)))
     = key_reads (trace (snd rw)) @ GLFW_KEY_ESCAPE # textured_color_keys
   \<and> objectColor (fst (textured_processInput ks rw))
     = (case last_held ks textured_color_keys of None \<Rightarrow> objectColor (fst rw) | Some k \<Rightarrow> textured_key_color k)
   \<and> should_close (snd (textured_processInput ks rw)) = (should_close (snd rw) \<or> ks GLFW_KEY_ESCAPE)"
  by (simp add: phong_processInput_color textured_processInput_color
        phong_processInput_close textured_processInput_close)
     (simp add: phong_processInput_def textured_processInput_def color_key_reads escape_key_reads
        phong_color_keys_def textured_color_keys_def)

theorem processInput_fixed_order_last_held_wins_witness:
  "objectColor (fst (phong_processInput (\<lambda>k. k = GLFW_KEY_R \<or> k = GLFW_KEY_B) (PhongTriangleRenderer storage, world0)))
     = phong_blue
   \<and> objectColor (fst (textured_processInput (\<lambda>k. k = GLFW_KEY_G \<or> k = GLFW_KEY_W) (TexturedTriangleRenderer storage, world0)))
     = tex_white
   \<and> key_reads (trace (snd (phong_processInput (\<lambda>k. k = GLFW_KEY_R \<or> k = GLFW_KEY_B) (PhongTriangleRenderer storage, world0))))
     = [GLFW_KEY_ESCAPE, GLFW_KEY_R, GLFW_KEY_G, GLFW_KEY_B, GLFW_KEY_Y]"
  using processInput_fixed_order_last_held_wins
          [of "\<lambda>k. k = GLFW_KEY_R \<or> k = GLFW_KEY_B" "(PhongTriangleRenderer storage, world0)"]
        processInput_fixed_order_last_held_wins
          [of "\<lambda>k. k = GLFW_KEY_G \<or> k = GLFW_KEY_W" "(TexturedTriangleRenderer storage, world0)"]
  by (simp add: last_held_def phong_color_keys_def textured_color_keys_def world0_def)

subsection \<open>The render loop: colour and close flag\<close>

lemma poll_events_close: "should_close (poll_events f w) = (should_close w \<or> close_request f)"
proof -
  have "should_close (foldl (\<lambda>w' wh. framebufferSizeCallback (fst wh) (snd wh) w') w0 xs) = should_close w0" for w0 xs
    by (induction xs arbitrary: w0) (simp_all add: framebufferSizeCallback_def close_emit)
  then show ?thesis by (simp add: poll_events_def Let_def close_emit)
qed

lemma phong_render_color: "objectColor (fst (phong_render d rw)) = objectColor (fst rw)"
  by (simp add: phong_render_def Let_def)

lemma textured_render_color: "objectColor (fst (textured_render d rw)) = objectColor (fst rw)"
  by (simp add: textured_render_def Let_def)

lemma phong_render_close: "should_close (snd (phong_render d rw)) = should_close (snd rw)"
  by (simp add: phong_render_def Let_def close_emits)

lemma textured_render_close: "should_close (snd (textured_render d rw)) = should_close (snd rw)"
  by (simp add: textured_render_def Let_def close_emits)

lemma phong_iteration_color:
  "objectColor (fst (phong_iteration d f rw)) =
     (case last_held (held f) phong_color_keys of None \<Rightarrow> objectColor (fst rw) | Some k \<Rightarrow> phong_key_color k)"
  by (simp add: phong_iteration_def Let_def phong_render_color phong_processInput_color)

lemma textured_iteration_color:
  "objectColor (fst (textured_iteration d f rw)) =
     (case last_held (held f) textured_color_keys of None \<Rightarrow> objectColor (fst rw) | Some k \<Rightarrow> textured_key_color k)"
  by (simp add: textured_iteration_def Let_def textured_render_color textured_processInput_color)

lemma phong_iteration_close:
  "should_close (snd (phong_iteration d f rw)) = (should_close (snd rw) \<or> closes f)"
  by (auto simp add: phong_iteration_def Let_def poll_events_close close_emit phong_render_close
        phong_processInput_close closes_def)

lemma textured_iteration_close:
  "should_close (snd (textured_iteration d f rw)) = (should_close (snd rw) \<or> closes f)"
  by (auto simp add: textured_iteration_def Let_def poll_events_close close_emit textured_render_close
        textured_processInput_close closes_def)

lemma simple_iteration_close:
  "should_close (snd (simple_iteration f rw)) = (should_close (snd rw) \<or> closes f)"
  by (auto simp add: simple_iteration_def simple_render_def escape_key_close poll_events_close close_emits closes_def)

lemma triangle_iteration_close:
  "should_close (snd (triangle_iteration f rw)) = (should_close (snd rw) \<or> closes f)"
  by (auto simp add: triangle_iteration_def triangle_render_def escape_key_close poll_events_close close_emits closes_def)

lemma phong_left: "should_close (snd rw) \<or> (\<exists>f\<in>set fs. closes f) \<Longrightarrow> snd (phong_run d fs rw)"
proof (induction fs arbitrary: rw)
  case Nil
  then show ?case by simp
next
  case (Cons f fs)
  show ?case
  proof (cases "should_close (snd rw)")
    case True
    then show ?thesis by simp
  next
    case False
    let ?rw1 = "phong_iteration d f (fst rw, emit (GLFW (glfwWindowShouldClose False)) (snd rw))"
    have "should_close (snd ?rw1) \<or> (\<exists>f\<in>set fs. closes f)"
      using Cons.prems False by (auto simp add: phong_iteration_close close_emit)
    then have "snd (phong_run d fs ?rw1)" by (rule Cons.IH)
    then show ?thesis using False by simp
  qed
qed

lemma textured_left: "should_close (snd rw) \<or> (\<exists>f\<in>set fs. closes f) \<Longrightarrow> snd (textured_run d fs rw)"
proof (induction fs arbitrary: rw)
  case Nil
  then show ?case by simp
next
  case (Cons f fs)
  show ?case
  proof (cases "should_close (snd rw)")
    case True
    then show ?thesis by simp
  next
    case False
    let ?rw1 = "textured_iteration d f (fst rw, emit (GLFW (glfwWindowShouldClose False)) (snd rw))"
    have "should_close (snd ?rw1) \<or> (\<exists>f\<in>set fs. closes f)"
      using Cons.prems False by (auto simp add: textured_iteration_close close_emit)
    then have "snd (textured_run d fs ?rw1)" by (rule Cons.IH)
    then show ?thesis using False by simp
  qed
qed

lemma simple_left: "should_close (snd rw) \<or> (\<exists>f\<in>set fs. closes f) \<Longrightarrow> snd (simple_loop fs rw)"
proof (induction fs arbitrary: rw)
  case Nil
  then show ?case by simp
next
  case (Cons f fs)
  show ?case
  proof (cases "should_close (snd rw)")
    case True
    then show ?thesis by simp
  next
    case False
    let ?rw1 = "simple_iteration f (fst rw, emit (GLFW (glfwWindowShouldClose False)) (snd rw))"
    have "should_close (snd ?rw1) \<or> (\<exists>f\<in>set fs. closes f)"
      using Cons.prems False by (auto simp add: simple_iteration_close close_emit)
    then have "snd (simple_loop fs ?rw1)" by (rule Cons.IH)
    then show ?thesis using False by simp
  qed
qed

lemma triangle_left: "should_close (snd rw) \<or> (\<exists>f\<in>set fs. closes f) \<Longrightarrow> snd (triangle_loop fs rw)"
proof (induction fs arbitrary: rw)
  case Nil
  then show ?case by simp
next
  case (Cons f fs)
  show ?case
  proof (cases "should_close (snd rw)")
    case True
    then show ?thesis by simp
  next
    case False
    let ?rw1 = "triangle_iteration f (fst rw, emit (GLFW (glfwWindowShouldClose False)) (snd rw))"
    have "should_close (snd ?rw1) \<or> (\<exists>f\<in>set fs. closes f)"
      using Cons.prems False by (auto simp add: triangle_iteration_close close_emit)
    then have "snd (triangle_loop fs ?rw1)" by (rule Cons.IH)
    then show ?thesis using False by simp
  qed
qed

lemma phong_run_released:
  "\<forall>g\<in>set gs. last_held (held g) phong_color_keys = None \<Longrightarrow>
   objectColor (fst (fst (phong_run d gs rw))) = objectColor (fst rw)"
  by (induction gs arbitrary: rw) (simp_all add: phong_iteration_color)

lemma phong_run_stays:
  "\<forall>f\<in>set fs. last_held (held f) phong_color_keys = Some k \<Longrightarrow>
   \<forall>g\<in>set gs. last_held (held g) phong_color_keys = None \<Longrightarrow>
   objectColor (fst rw) = phong_key_color k \<Longrightarrow>
   objectColor (fst (fst (phong_run d (fs @ gs) rw))) = phong_key_color k"
  by (induction fs arbitrary: rw) (simp_all add: phong_iteration_color phong_run_released)

lemma phong_run_held:
  assumes "\<not> should_close (snd rw)" "fs \<noteq> []"
    and "\<forall>f\<in>set fs. last_held (held f) phong_color_keys = Some k"
    and "\<forall>g\<in>set gs. last_held (held g) phong_color_keys = None"
  shows "objectColor (fst (fst (phong_run d (fs @ gs) rw))) = phong_key_color k"
proof (cases fs)
  case Nil
  with assms(2) show ?thesis by simp
next
  case (Cons f fs')
  let ?rw1 = "phong_iteration d f (fst rw, emit (GLFW (glfwWindowShouldClose False)) (snd rw))"
  have "objectColor (fst ?rw1) = phong_key_color k"
    using assms(3) Cons by (simp add: phong_iteration_color)
  moreover have "\<forall>f\<in>set fs'. last_held (held f) phong_color_keys = Some k"
    using assms(3) Cons by simp
  ultimately have "objectColor (fst (fst (phong_run d (fs' @ gs) ?rw1))) = phong_key_color k"
    using assms(4) by (rule_tac phong_run_stays) auto
  then show ?thesis using Cons assms(1) by simp
qed

lemma textured_run_released:
  "\<forall>g\<in>set gs. last_held (held g) textured_color_keys = None \<Longrightarrow>
   objectColor (fst (fst (textured_run d gs rw))) = objectColor (fst rw)"
  by (induction gs arbitrary: rw) (simp_all add: textured_iteration_color)

lemma textured_run_stays:
  "\<forall>f\<in>set fs. last_held (held f) textured_color_keys = Some k \<Longrightarrow>
   \<forall>g\<in>set gs. last_held (held g) textured_color_keys = None \<Longrightarrow>
   objectColor (fst rw) = textured_key_color k \<Longrightarrow>
   objectColor (fst (fst (textured_run d (fs @ gs) rw))) = textured_key_color k"
  by (induction fs arbitrary: rw) (simp_all add: textured_iteration_color textured_run_released)

lemma textured_run_held:
  assumes "\<not> should_close (snd rw)" "fs \<noteq> []"
    and "\<forall>f\<in>set fs. last_held (held f) textured_color_keys = Some k"
    and "\<forall>g\<in>set gs. last_held (held g) textured_color_keys = None"
  shows "objectColor (fst (fst (textured_run d (fs @ gs) rw))) = textured_key_color k"
proof (cases fs)
  case Nil
  with assms(2) show ?thesis by simp
next
  case (Cons f fs')
  let ?rw1 = "textured_iteration d f (fst rw, emit (GLFW (glfwWindowShouldClose False)) (snd rw))"
  have "objectColor (fst ?rw1) = textured_key_color k"
    using assms(3) Cons by (simp add: textured_iteration_color)
  moreover have "\<forall>f\<in>set fs'. last_held (held f) textured_color_keys = Some k"
    using assms(3) Cons by simp
  ultimately have "objectColor (fst (fst (textured_run d (fs' @ gs) ?rw1))) = textured_key_color k"
    using assms(4) by (rule_tac textured_run_stays) auto
  then show ?thesis using Cons assms(1) by simp
qed

text \<open>
  C3, as the claim states it, fails when a colour key that is checked later is held at
  the same time: with R and Y both held for three consecutive passes, R is held in each
  of them, yet \<open>objectColor\<close> is yellow, not the colour of R, after the first, the second
  and the third pass.
\<close>
theorem red_held_together_with_yellow_counterexample:
  "held red_and_yellow_frame GLFW_KEY_R
   \<and> objectColor (fst (fst (phong_run good_driver [red_and_yellow_frame]
        (PhongTriangleRenderer storage, world0)))) = phong_yellow
   \<and> objectColor (fst (fst (phong_run good_driver [red_and_yellow_frame, red_and_yellow_frame]
        (PhongTriangleRenderer storage, world0)))) = phong_yellow
   \<and> objectColor (fst (fst (phong_run good_driver
        [red_and_yellow_frame, red_and_yellow_frame, red_and_yellow_frame]
        (PhongTriangleRenderer storage, world0)))) = phong_yellow
   \<and> phong_key_color GLFW_KEY_R = phong_red
   \<and> phong_yellow \<noteq> phong_red"
proof -
  have l: "last_held (held red_and_yellow_frame) phong_color_keys = Some GLFW_KEY_Y"
    by (simp add: last_held_def phong_color_keys_def red_and_yellow_frame_def)
  have c: "\<not> should_close (snd (PhongTriangleRenderer storage, world0))"
    by (simp add: world0_def)
  have 1: "objectColor (fst (fst (phong_run good_driver ([red_and_yellow_frame] @ [])
        (PhongTriangleRenderer storage, world0)))) = phong_key_color GLFW_KEY_Y"
    by (rule phong_run_held [OF c]) (simp_all add: l)
  have 2: "objectColor (fst (fst (phong_run good_driver ([red_and_yellow_frame, red_and_yellow_frame] @ [])
        (PhongTriangleRenderer storage, world0)))) = phong_key_color GLFW_KEY_Y"
    by (rule phong_run_held [OF c]) (simp_all add: l)
  have 3: "objectColor (fst (fst (phong_run good_driver
        ([red_and_yellow_frame, red_and_yellow_frame, red_and_yellow_frame] @ [])
        (PhongTriangleRenderer storage, world0)))) = phong_key_color GLFW_KEY_Y"
    by (rule phong_run_held [OF c]) (simp_all add: l)
  have h: "held red_and_yellow_frame GLFW_KEY_R" by (simp add: red_and_yellow_frame_def)
  have n: "phong_yellow \<noteq> phong_red" by (simp add: phong_yellow_def phong_red_def)
  show ?thesis using 1 2 3 h n by simp
qed

text \<open>
  C3, amended. Let a colour key \<open>k\<close> be held in each of \<open>K \<ge> 1\<close> consecutive passes of the
  render loop (the frames \<open>fs\<close>), with no colour key that is checked after \<open>k\<close> held at the
  same time (so in particular when \<open>k\<close> is the only colour key held), and let it be followed by
  any number of passes in which no colour key is held (\<open>gs\<close>). Then \<open>objectColor\<close> is the
  fixed colour of \<open>k\<close> afterwards. With \<open>gs = []\<close> and \<open>fs\<close> ranging over the prefixes this
  is the value after each of the \<open>K\<close> passes; with \<open>gs \<noteq> []\<close> it says that releasing the
  key does not revert the colour. Phong variant (R, G, B, Y) and textured variant
  (R, G, B, W).
\<close>
theorem held_color_key_sets_color_and_release_keeps_it:
  assumes "fs \<noteq> []"
  shows "(\<not> should_close (snd rw) \<and>
          (\<forall>f\<in>set fs. last_held (held f) phong_color_keys = Some k) \<and>
          (\<forall>g\<in>set gs. last_held (held g) phong_color_keys = None)
          \<longrightarrow> objectColor (fst (fst (phong_run d (fs @ gs) rw))) = phong_key_color k)
       \<and> (\<not> should_close (snd rw') \<and>
          (\<forall>f\<in>set fs. last_held (held f) textured_color_keys = Some k) \<and>
          (\<forall>g\<in>set gs. last_held (held g) textured_color_keys = None)
          \<longrightarrow> objectColor (fst (fst (textured_run d (fs @ gs) rw'))) = textured_key_color k)"
  using assms phong_run_held [of rw fs k gs d] textured_run_held [of rw' fs k gs d] by blast

theorem held_color_key_sets_color_and_release_keeps_it_witness:
  "[key_frame GLFW_KEY_G, key_frame GLFW_KEY_G, key_frame GLFW_KEY_G] \<noteq> []
   \<and> \<not> should_close (snd (PhongTriangleRenderer storage, world0))
   \<and> \<not> should_close (snd (TexturedTriangleRenderer storage, world0))
   \<and> last_held (held (key_frame GLFW_KEY_G)) phong_color_keys = Some GLFW_KEY_G
   \<and> last_held (held quiet_frame) phong_color_keys = None
   \<and> last_held (held (key_frame GLFW_KEY_G)) textured_color_keys = Some GLFW_KEY_G
   \<and> last_held (held quiet_frame) textured_color_keys = None
   \<and> objectColor (fst (fst (phong_run good_driver
         ([key_frame GLFW_KEY_G, key_frame GLFW_KEY_G, key_frame GLFW_KEY_G] @ [quiet_frame, quiet_frame])
         (PhongTriangleRenderer storage, world0)))) = phong_green
   \<and> objectColor (fst (fst (textured_run good_driver
         ([key_frame GLFW_KEY_G, key_frame GLFW_KEY_G, key_frame GLFW_KEY_G] @ [quiet_frame, quiet_frame])
         (TexturedTriangleRenderer storage, world0)))) = tex_green"
proof -
  have n: "[key_frame GLFW_KEY_G, key_frame GLFW_KEY_G, key_frame GLFW_KEY_G] \<noteq> []" by simp
  show ?thesis
    using held_color_key_sets_color_and_release_keeps_it
            [OF n, of "(PhongTriangleRenderer storage, world0)" GLFW_KEY_G "[quiet_frame, quiet_frame]"
               good_driver "(TexturedTriangleRenderer storage, world0)"]
    by (simp add: last_held_def phong_color_keys_def textured_color_keys_def key_frame_def
          quiet_frame_def only_def no_keys_def world0_def)
qed

subsection \<open>The main programs\<close>

lemma phong_initD:
  "phong_init d rw = (ok, r', w') \<Longrightarrow>
   ok = startup_ok d \<and> filter loop_event (trace w') = filter loop_event (trace (snd rw))"
  using phong_init_ok [of d rw] phong_init_loop [of d rw] by simp

lemma textured_initD:
  "textured_init d rw = (ok, r', w') \<Longrightarrow>
   ok = startup_ok d \<and> filter loop_event (trace w') = filter loop_event (trace (snd rw))"
  using textured_init_ok [of d rw] textured_init_loop [of d rw] by simp

lemma simple_initD:
  "simple_init d rw = (ok, r', w') \<Longrightarrow>
   ok = startup_ok d \<and> filter loop_event (trace w') = filter loop_event (trace (snd rw))"
  using simple_init_ok [of d rw] simple_init_loop [of d rw] by simp

lemma triangle_initD:
  "triangle_init d rw = (ok, r', w') \<Longrightarrow>
   ok = startup_ok d \<and> filter loop_event (trace w') = filter loop_event (trace (snd rw))"
  using triangle_init_ok [of d rw] triangle_init_loop [of d rw] by simp

lemma unloaded_call_loaded: "\<not> unloaded_call True es"
  by (induction True es rule: unloaded_call.induct) simp_all

lemma loaded_extends:
  "GLFW (gladLoadGLLoader True) \<in> set xs \<Longrightarrow> \<not> unloaded_call b xs \<Longrightarrow> \<not> unloaded_call b (xs @ ys)"
  by (induction b xs rule: unloaded_call.induct) (auto simp add: unloaded_call_loaded split: if_splits)

lemma unloaded_call_hints:
  "unloaded_call b (replicate n (GLFW glfwWindowHint) @ es) = unloaded_call b es"
  by (induction n) simp_all

lemma until_fault_subset: "set (until_fault b es) \<subseteq> set es"
  by (induction b es rule: until_fault.induct) auto

lemma until_fault_filter: "filter P es = [] \<Longrightarrow> filter P (until_fault b es) = []"
  using until_fault_subset [of b es] by (auto simp add: filter_empty_conv)

lemma finish_loop:
  "filter loop_event (trace (snd cw)) = [] \<Longrightarrow> filter loop_event (trace (snd (finish cw))) = []"
  by (simp add: finish_def until_fault_filter)

lemma finish_safe:
  "\<not> unloaded_call False (trace (snd cw)) \<Longrightarrow>
   finish cw = (case fst cw of None \<Rightarrow> Running | Some c \<Rightarrow> Exited c, snd cw)"
  by (simp add: finish_def)

lemma finish_loaded:
  assumes "GLFW (gladLoadGLLoader True) \<in> set t" "\<not> unloaded_call False t" "trace w = t @ es"
  shows "finish (c, w) = (case c of None \<Rightarrow> Running | Some c \<Rightarrow> Exited c, w)"
  using loaded_extends [OF assms(1,2), of es] assms(3) by (simp add: finish_safe)

lemma createShaders_loaded:
  "createShaders a b c d (r, w) = (ok, r', w') \<Longrightarrow>
   GLFW (gladLoadGLLoader True) \<in> set (trace w) \<Longrightarrow> \<not> unloaded_call False (trace w) \<Longrightarrow>
   GLFW (gladLoadGLLoader True) \<in> set (trace w') \<and> \<not> unloaded_call False (trace w')"
  by (auto simp add: createShaders_def Let_def trace_emits loaded_extends split: if_splits)

lemma init_start_loaded:
  assumes "glfwInit_ok d" "created_window d \<noteq> None" "gladLoad_ok d"
    and "init_start n x y t (createShaders a b c) d (r, world0) = (res, r', w')"
  shows "GLFW (gladLoadGLLoader True) \<in> set (trace w') \<and> \<not> unloaded_call False (trace w')"
proof -
  let ?w3 = "emits [GLFW (glfwMakeContextCurrent (created_window d)),
                    GLFW (glfwSetFramebufferSizeCallback (created_window d)),
                    GLFW (gladLoadGLLoader True)]
               (emits (replicate n (GLFW glfwWindowHint) @ [GLFW (glfwCreateWindow x y t (created_window d))])
                  (emit (GLFW (glfwInit True)) world0))"
  have l: "GLFW (gladLoadGLLoader True) \<in> set (trace ?w3)" "\<not> unloaded_call False (trace ?w3)"
    by (simp_all add: trace_emit trace_emits world0_def unloaded_call_hints)
  obtain ok r4 w4 where cs: "createShaders a b c d (r\<lparr>window := created_window d\<rparr>, ?w3) = (ok, r4, w4)"
    by (cases "createShaders a b c d (r\<lparr>window := created_window d\<rparr>, ?w3)") auto
  have "w' = w4" using assms cs by (auto simp add: init_start_def Let_def split: if_splits)
  then show ?thesis using createShaders_loaded [OF cs l] by simp
qed

lemma init_start_early:
  assumes "\<not> (glfwInit_ok d \<and> created_window d \<noteq> None \<and> gladLoad_ok d)"
    and "init_start n x y t cs d (r, world0) = (res, r', w')"
  shows "VAO r' = VAO r \<and> VBO r' = VBO r \<and> shaderProgram r' = shaderProgram r
       \<and> \<not> unloaded_call False (trace w' @ [HOST h, GLFW c])
       \<and> \<not> unloaded_call False (trace w' @ [HOST h])"
proof -
  have "VAO r' = VAO r \<and> VBO r' = VBO r \<and> shaderProgram r' = shaderProgram r
       \<and> \<not> unloaded_call False (trace w' @ [HOST h, GLFW c])"
    using assms
    by (cases c) (auto simp add: init_start_def Let_def trace_emit trace_emits world0_def unloaded_call_hints
        split: if_splits)
  moreover have "\<not> unloaded_call False (trace w' @ [HOST h])"
    using assms
    by (auto simp add: init_start_def Let_def trace_emit trace_emits world0_def unloaded_call_hints
        split: if_splits)
  ultimately show ?thesis by simp
qed

lemma phong_iteration_extends:
  "\<exists>es. trace (snd (phong_iteration d f rw)) = trace (snd rw) @ es"
  by (simp add: phong_iteration_def phong_render_def phong_processInput_def Let_def poll_events_trace
        color_key_trace escape_key_trace trace_emit trace_emits)

lemma textured_iteration_extends:
  "\<exists>es. trace (snd (textured_iteration d f rw)) = trace (snd rw) @ es"
  by (simp add: textured_iteration_def textured_render_def textured_processInput_def Let_def poll_events_trace
        color_key_trace escape_key_trace trace_emit trace_emits)

lemma simple_iteration_extends:
  "\<exists>es. trace (snd (simple_iteration f rw)) = trace (snd rw) @ es"
  by (simp add: simple_iteration_def simple_render_def poll_events_trace escape_key_trace trace_emits)

lemma triangle_iteration_extends:
  "\<exists>es. trace (snd (triangle_iteration f rw)) = trace (snd rw) @ es"
  by (simp add: triangle_iteration_def triangle_render_def poll_events_trace escape_key_trace trace_emits)

lemma phong_run_extends: "\<exists>es. trace (snd (fst (phong_run d fs rw))) = trace (snd rw) @ es"
proof (induction fs arbitrary: rw)
  case Nil
  then show ?case by (simp add: trace_emit)
next
  case (Cons f fs)
  let ?rw0 = "(fst rw, emit (GLFW (glfwWindowShouldClose False)) (snd rw))"
  obtain es where 1: "trace (snd (phong_iteration d f ?rw0)) = trace (snd ?rw0) @ es"
    using phong_iteration_extends by blast
  obtain es' where 2: "trace (snd (fst (phong_run d fs (phong_iteration d f ?rw0))))
                        = trace (snd (phong_iteration d f ?rw0)) @ es'"
    using Cons.IH by blast
  show ?case using 1 2 by (simp add: trace_emit)
qed

lemma textured_run_extends: "\<exists>es. trace (snd (fst (textured_run d fs rw))) = trace (snd rw) @ es"
proof (induction fs arbitrary: rw)
  case Nil
  then show ?case by (simp add: trace_emit)
next
  case (Cons f fs)
  let ?rw0 = "(fst rw, emit (GLFW (glfwWindowShouldClose False)) (snd rw))"
  obtain es where 1: "trace (snd (textured_iteration d f ?rw0)) = trace (snd ?rw0) @ es"
    using textured_iteration_extends by blast
  obtain es' where 2: "trace (snd (fst (textured_run d fs (textured_iteration d f ?rw0))))
                        = trace (snd (textured_iteration d f ?rw0)) @ es'"
    using Cons.IH by blast
  show ?case using 1 2 by (simp add: trace_emit)
qed

lemma simple_loop_extends: "\<exists>es. trace (snd (fst (simple_loop fs rw))) = trace (snd rw) @ es"
proof (induction fs arbitrary: rw)
  case Nil
  then show ?case by (simp add: trace_emit)
next
  case (Cons f fs)
  let ?rw0 = "(fst rw, emit (GLFW (glfwWindowShouldClose False)) (snd rw))"
  obtain es where 1: "trace (snd (simple_iteration f ?rw0)) = trace (snd ?rw0) @ es"
    using simple_iteration_extends by blast
  obtain es' where 2: "trace (snd (fst (simple_loop fs (simple_iteration f ?rw0))))
                        = trace (snd (simple_iteration f ?rw0)) @ es'"
    using Cons.IH by blast
  show ?case using 1 2 by (simp add: trace_emit)
qed

lemma triangle_loop_extends: "\<exists>es. trace (snd (fst (triangle_loop fs rw))) = trace (snd rw) @ es"
proof (induction fs arbitrary: rw)
  case Nil
  then show ?case by (simp add: trace_emit)
next
  case (Cons f fs)
  let ?rw0 = "(fst rw, emit (GLFW (glfwWindowShouldClose False)) (snd rw))"
  obtain es where 1: "trace (snd (triangle_iteration f ?rw0)) = trace (snd ?rw0) @ es"
    using triangle_iteration_extends by blast
  obtain es' where 2: "trace (snd (fst (triangle_loop fs (triangle_iteration f ?rw0))))
                        = trace (snd (triangle_iteration f ?rw0)) @ es'"
    using Cons.IH by blast
  show ?case using 1 2 by (simp add: trace_emit)
qed

lemma phong_cleanup_loop:
  "filter loop_event (trace (snd (phong_cleanup rw))) = filter loop_event (trace (snd rw))"
  by (simp add: phong_cleanup_def Let_def trace_emit trace_emits)

lemma phong_cleanup_extends: "\<exists>es. trace (snd (phong_cleanup rw)) = trace (snd rw) @ es"
  by (simp add: phong_cleanup_def trace_emits)

lemma textured_cleanup_loop:
  "filter loop_event (trace (snd (textured_cleanup rw))) = filter loop_event (trace (snd rw))"
  by (simp add: textured_cleanup_def Let_def trace_emit trace_emits)

lemma textured_cleanup_extends: "\<exists>es. trace (snd (textured_cleanup rw)) = trace (snd rw) @ es"
  by (simp add: textured_cleanup_def trace_emits)

lemma simple_cleanup_loop:
  "filter loop_event (trace (snd (simple_cleanup rw))) = filter loop_event (trace (snd rw))"
  by (simp add: simple_cleanup_def Let_def trace_emit trace_emits)

lemma simple_cleanup_extends: "\<exists>es. trace (snd (simple_cleanup rw)) = trace (snd rw) @ es"
  by (simp add: simple_cleanup_def Let_def trace_emit)

lemma triangle_cleanup_loop:
  "filter loop_event (trace (snd (triangle_cleanup rw))) = filter loop_event (trace (snd rw))"
  by (simp add: triangle_cleanup_def Let_def trace_emit trace_emits)

lemma triangle_cleanup_extends: "\<exists>es. trace (snd (triangle_cleanup rw)) = trace (snd rw) @ es"
  by (simp add: triangle_cleanup_def Let_def trace_emit)

lemma phong_leftD: "phong_run d fs rw = (rw', l) \<Longrightarrow> \<exists>f\<in>set fs. closes f \<Longrightarrow> l"
  using phong_left [of rw fs d] by simp

lemma textured_leftD: "textured_run d fs rw = (rw', l) \<Longrightarrow> \<exists>f\<in>set fs. closes f \<Longrightarrow> l"
  using textured_left [of rw fs d] by simp

lemma simple_leftD: "simple_loop fs rw = (rw', l) \<Longrightarrow> \<exists>f\<in>set fs. closes f \<Longrightarrow> l"
  using simple_left [of rw fs] by simp

lemma triangle_leftD: "triangle_loop fs rw = (rw', l) \<Longrightarrow> \<exists>f\<in>set fs. closes f \<Longrightarrow> l"
  using triangle_left [of rw fs] by simp

lemma phong_main_fails:
  assumes "\<not> startup_ok d"
  shows "filter loop_event (trace (snd (phong_main u d fs))) = []
       \<and> (glfwInit_ok d \<and> created_window d \<noteq> None \<and> gladLoad_ok d \<longrightarrow> fst (phong_main u d fs) = Exited (- 1))"
proof -
  obtain ok r w where i: "phong_init d (PhongTriangleRenderer u, world0) = (ok, r, w)"
    by (cases "phong_init d (PhongTriangleRenderer u, world0)") auto
  have ok: "\<not> ok" and l: "filter loop_event (trace w) = []"
    using phong_initD [OF i] assms by (simp_all add: world0_def)
  let ?w = "snd (phong_cleanup (r, emit (HOST (print Cerr ''Failed to initialize renderer'')) w))"
  have m: "phong_main u d fs = finish (Some (- 1), ?w)"
    using ok by (simp add: phong_main_def i)
  have 1: "filter loop_event (trace (snd (phong_main u d fs))) = []"
    by (simp add: m finish_loop phong_cleanup_loop trace_emit l)
  have 2: "fst (phong_main u d fs) = Exited (- 1)"
    if g: "glfwInit_ok d" "created_window d \<noteq> None" "gladLoad_ok d"
  proof -
    obtain res where s: "init_start 3 (width (PhongTriangleRenderer u)) (height (PhongTriangleRenderer u))
          ''Phong Triangle Demo'' phong_createShaders d (PhongTriangleRenderer u, world0) = (res, r, w)"
      using i ok by (auto simp add: phong_init_def split: prod.splits option.splits)
    have t: "GLFW (gladLoadGLLoader True) \<in> set (trace w) \<and> \<not> unloaded_call False (trace w)"
      using init_start_loaded [OF g s [unfolded phong_createShaders_def]] .
    obtain es where e: "trace ?w = trace w @ es"
      using phong_cleanup_extends [of "(r, emit (HOST (print Cerr ''Failed to initialize renderer'')) w)"]
      by (auto simp add: trace_emit)
    show ?thesis using finish_loaded [OF conjunct1 [OF t] conjunct2 [OF t] e] by (simp add: m)
  qed
  show ?thesis using 1 2 by blast
qed

lemma phong_main_closed:
  assumes "startup_ok d" "\<exists>f\<in>set fs. closes f"
  shows "fst (phong_main u d fs) = Exited 0"
proof -
  obtain ok r w where i: "phong_init d (PhongTriangleRenderer u, world0) = (ok, r, w)"
    by (cases "phong_init d (PhongTriangleRenderer u, world0)") auto
  have ok: "ok" using phong_initD [OF i] assms(1) by simp
  have g: "glfwInit_ok d" "created_window d \<noteq> None" "gladLoad_ok d"
    using assms(1) by (simp_all add: startup_ok_def)
  obtain res r0 w0 where s: "init_start 3 (width (PhongTriangleRenderer u)) (height (PhongTriangleRenderer u))
        ''Phong Triangle Demo'' phong_createShaders d (PhongTriangleRenderer u, world0) = (res, r0, w0)"
    by (metis prod_cases3)
  have t: "GLFW (gladLoadGLLoader True) \<in> set (trace w0) \<and> \<not> unloaded_call False (trace w0)"
    using init_start_loaded [OF g s [unfolded phong_createShaders_def]] .
  have "\<exists>es. trace w = trace w0 @ es"
    using i s by (auto simp add: phong_init_def phong_setupBuffers_def Let_def trace_emit trace_emits
        split: option.splits)
  then obtain es0 where e0: "trace w = trace w0 @ es0" by blast
  let ?lines = "map (\<lambda>l. HOST (print Cout l))
                  [''Phong Triangle Demo'', ''Controls:'', ''  R - Red color'', ''  G - Green color'',
                   ''  B - Blue color'', ''  Y - Yellow color'', ''  ESC - Exit'']"
  obtain rw left where run: "phong_run d fs (r, emits ?lines w) = (rw, left)"
    by (cases "phong_run d fs (r, emits ?lines w)") auto
  have left using phong_leftD [OF run assms(2)] .
  then have m: "phong_main u d fs = finish (Some 0, snd (phong_cleanup rw))"
    using ok run by (simp add: phong_main_def i)
  obtain es1 where e1: "trace (snd rw) = trace (emits ?lines w) @ es1"
    using phong_run_extends [of d fs "(r, emits ?lines w)"] run by auto
  obtain es2 where e2: "trace (snd (phong_cleanup rw)) = trace (snd rw) @ es2"
    using phong_cleanup_extends by blast
  have e: "trace (snd (phong_cleanup rw)) = trace w0 @ (es0 @ ?lines @ es1 @ es2)"
    by (simp only: e2 e1 e0 trace_emits append_assoc)
  show ?thesis using finish_loaded [OF conjunct1 [OF t] conjunct2 [OF t] e] by (simp add: m)
qed

lemma textured_main_fails:
  assumes "\<not> startup_ok d"
  shows "filter loop_event (trace (snd (textured_main u d fs))) = []
       \<and> (glfwInit_ok d \<and> created_window d \<noteq> None \<and> gladLoad_ok d \<longrightarrow> fst (textured_main u d fs) = Exited (- 1))"
proof -
  obtain ok r w where i: "textured_init d (TexturedTriangleRenderer u, world0) = (ok, r, w)"
    by (cases "textured_init d (TexturedTriangleRenderer u, world0)") auto
  have ok: "\<not> ok" and l: "filter loop_event (trace w) = []"
    using textured_initD [OF i] assms by (simp_all add: world0_def)
  let ?w = "snd (textured_cleanup (r, emit (HOST (print Cerr ''Failed to initialize renderer'')) w))"
  have m: "textured_main u d fs = finish (Some (- 1), ?w)"
    using ok by (simp add: textured_main_def i)
  have 1: "filter loop_event (trace (snd (textured_main u d fs))) = []"
    by (simp add: m finish_loop textured_cleanup_loop trace_emit l)
  have 2: "fst (textured_main u d fs) = Exited (- 1)"
    if g: "glfwInit_ok d" "created_window d \<noteq> None" "gladLoad_ok d"
  proof -
    obtain res where s: "init_start 3 (width (TexturedTriangleRenderer u)) (height (TexturedTriangleRenderer u))
          ''Textured Triangle Demo'' textured_createShaders d (TexturedTriangleRenderer u, world0) = (res, r, w)"
      using i ok by (auto simp add: textured_init_def loadTexture_def Let_def split: prod.splits option.splits)
    have t: "GLFW (gladLoadGLLoader True) \<in> set (trace w) \<and> \<not> unloaded_call False (trace w)"
      using init_start_loaded [OF g s [unfolded textured_createShaders_def]] .
    obtain es where e: "trace ?w = trace w @ es"
      using textured_cleanup_extends [of "(r, emit (HOST (print Cerr ''Failed to initialize renderer'')) w)"]
      by (auto simp add: trace_emit)
    show ?thesis using finish_loaded [OF conjunct1 [OF t] conjunct2 [OF t] e] by (simp add: m)
  qed
  show ?thesis using 1 2 by blast
qed

lemma textured_main_closed:
  assumes "startup_ok d" "\<exists>f\<in>set fs. closes f"
  shows "fst (textured_main u d fs) = Exited 0"
proof -
  obtain ok r w where i: "textured_init d (TexturedTriangleRenderer u, world0) = (ok, r, w)"
    by (cases "textured_init d (TexturedTriangleRenderer u, world0)") auto
  have ok: "ok" using textured_initD [OF i] assms(1) by simp
  have g: "glfwInit_ok d" "created_window d \<noteq> None" "gladLoad_ok d"
    using assms(1) by (simp_all add: startup_ok_def)
  obtain res r0 w0 where s: "init_start 3 (width (TexturedTriangleRenderer u)) (height (TexturedTriangleRenderer u))
        ''Textured Triangle Demo'' textured_createShaders d (TexturedTriangleRenderer u, world0) = (res, r0, w0)"
    by (metis prod_cases3)
  have t: "GLFW (gladLoadGLLoader True) \<in> set (trace w0) \<and> \<not> unloaded_call False (trace w0)"
    using init_start_loaded [OF g s [unfolded textured_createShaders_def]] .
  have "\<exists>es. trace w = trace w0 @ es"
    using i s by (auto simp add: textured_init_def textured_setupBuffers_def loadTexture_def Let_def trace_emit trace_emits
        split: option.splits)
  then obtain es0 where e0: "trace w = trace w0 @ es0" by blast
  let ?lines = "map (\<lambda>l. HOST (print Cout l))
                  [''Textured Triangle Demo'', ''Controls:'', ''  R - Red tint'', ''  G - Green tint'',
                   ''  B - Blue tint'', ''  W - White (no tint)'', ''  ESC - Exit'']"
  obtain rw left where run: "textured_run d fs (r, emits ?lines w) = (rw, left)"
    by (cases "textured_run d fs (r, emits ?lines w)") auto
  have left using textured_leftD [OF run assms(2)] .
  then have m: "textured_main u d fs = finish (Some 0, snd (textured_cleanup rw))"
    using ok run by (simp add: textured_main_def i)
  obtain es1 where e1: "trace (snd rw) = trace (emits ?lines w) @ es1"
    using textured_run_extends [of d fs "(r, emits ?lines w)"] run by auto
  obtain es2 where e2: "trace (snd (textured_cleanup rw)) = trace (snd rw) @ es2"
    using textured_cleanup_extends by blast
  have e: "trace (snd (textured_cleanup rw)) = trace w0 @ (es0 @ ?lines @ es1 @ es2)"
    by (simp only: e2 e1 e0 trace_emits append_assoc)
  show ?thesis using finish_loaded [OF conjunct1 [OF t] conjunct2 [OF t] e] by (simp add: m)
qed

lemma simple_main_fails:
  assumes "\<not> startup_ok d"
  shows "filter loop_event (trace (snd (simple_main u d fs))) = [] \<and> fst (simple_main u d fs) = Exited (- 1)"
proof -
  obtain ok r w where i: "simple_init d (SimpleTriangleRenderer u, world0) = (ok, r, w)"
    by (cases "simple_init d (SimpleTriangleRenderer u, world0)") auto
  have ok: "\<not> ok" and l: "filter loop_event (trace w) = []"
    using simple_initD [OF i] assms by (simp_all add: world0_def)
  let ?w = "snd (simple_cleanup (r, emit (HOST (print Cerr ''Failed to initialize renderer'')) w))"
  have m: "simple_main u d fs = finish (Some (- 1), ?w)"
    using ok by (simp add: simple_main_def i)
  have 1: "filter loop_event (trace (snd (simple_main u d fs))) = []"
    by (simp add: m finish_loop simple_cleanup_loop trace_emit l)
  obtain res where s: "init_start 4 800 600 ''Simple Triangle (C++)'' simple_createShaders d (SimpleTriangleRenderer u, world0)
                        = (res, r, w)"
    using i ok by (auto simp add: simple_init_def split: prod.splits option.splits)
  have 2: "fst (simple_main u d fs) = Exited (- 1)"
  proof (cases "glfwInit_ok d \<and> created_window d \<noteq> None \<and> gladLoad_ok d")
    case True
    then have g: "glfwInit_ok d" "created_window d \<noteq> None" "gladLoad_ok d" by simp_all
    have t: "GLFW (gladLoadGLLoader True) \<in> set (trace w) \<and> \<not> unloaded_call False (trace w)"
      using init_start_loaded [OF g s [unfolded simple_createShaders_def]] .
    obtain es where e: "trace ?w = trace w @ es"
      using simple_cleanup_extends [of "(r, emit (HOST (print Cerr ''Failed to initialize renderer'')) w)"]
      by (auto simp add: trace_emit)
    show ?thesis using finish_loaded [OF conjunct1 [OF t] conjunct2 [OF t] e] by (simp add: m)
  next
    case False
    note e = init_start_early [OF False s, of "print Cerr ''Failed to initialize renderer''" glfwTerminate]
    have "\<not> unloaded_call False (trace ?w)"
      using e by (simp add: simple_cleanup_def Let_def trace_emit SimpleTriangleRenderer_def)
    then show ?thesis by (simp add: m finish_safe)
  qed
  show ?thesis using 1 2 by blast
qed

lemma simple_main_closed:
  assumes "startup_ok d" "\<exists>f\<in>set fs. closes f"
  shows "fst (simple_main u d fs) = Exited 0"
proof -
  obtain ok r w where i: "simple_init d (SimpleTriangleRenderer u, world0) = (ok, r, w)"
    by (cases "simple_init d (SimpleTriangleRenderer u, world0)") auto
  have ok: "ok" using simple_initD [OF i] assms(1) by simp
  have g: "glfwInit_ok d" "created_window d \<noteq> None" "gladLoad_ok d"
    using assms(1) by (simp_all add: startup_ok_def)
  obtain res r0 w0 where s: "init_start 4 800 600 ''Simple Triangle (C++)'' simple_createShaders d (SimpleTriangleRenderer u, world0)
                              = (res, r0, w0)"
    by (metis prod_cases3)
  have t: "GLFW (gladLoadGLLoader True) \<in> set (trace w0) \<and> \<not> unloaded_call False (trace w0)"
    using init_start_loaded [OF g s [unfolded simple_createShaders_def]] .
  have "\<exists>es. trace w = trace w0 @ es"
    using i s by (auto simp add: simple_init_def simple_setupBuffers_def Let_def trace_emit trace_emits
        split: option.splits)
  then obtain es0 where e0: "trace w = trace w0 @ es0" by blast
  obtain rw left where run: "simple_run fs (r, w) = (rw, left)"
    by (cases "simple_run fs (r, w)") auto
  have left using simple_leftD [OF run [unfolded simple_run_def] assms(2)] .
  then have m: "simple_main u d fs = finish (Some 0, snd (simple_cleanup rw))"
    using ok by (simp add: simple_main_def i run)
  obtain es1 where e1: "trace (snd rw) = trace w @ es1"
    using simple_loop_extends [of fs "(r, emits [HOST (print Cout ''Simple Triangle Demo is running!''),
                                  HOST (print Cout ''Press ESC or close window to exit'')] w)"] run
    by (auto simp add: simple_run_def trace_emits)
  obtain es2 where e2: "trace (snd (simple_cleanup rw)) = trace (snd rw) @ es2"
    using simple_cleanup_extends by blast
  have e: "trace (snd (simple_cleanup rw)) = trace w0 @ (es0 @ es1 @ es2)"
    by (simp only: e2 e1 e0 append_assoc)
  show ?thesis using finish_loaded [OF conjunct1 [OF t] conjunct2 [OF t] e] by (simp add: m)
qed

lemma triangle_main_fails:
  assumes "\<not> startup_ok d"
  shows "filter loop_event (trace (snd (triangle_main u d fs))) = [] \<and> fst (triangle_main u d fs) = Exited (- 1)"
proof -
  obtain ok r w where i: "triangle_init d (TriangleRenderer u, world0) = (ok, r, w)"
    by (cases "triangle_init d (TriangleRenderer u, world0)") auto
  have ok: "\<not> ok" and l: "filter loop_event (trace w) = []"
    using triangle_initD [OF i] assms by (simp_all add: world0_def)
  let ?w = "snd (triangle_cleanup (r, emit (HOST (print Cerr ''Failed to initialize renderer'')) w))"
  have m: "triangle_main u d fs = finish (Some (- 1), ?w)"
    using ok by (simp add: triangle_main_def i)
  have 1: "filter loop_event (trace (snd (triangle_main u d fs))) = []"
    by (simp add: m finish_loop triangle_cleanup_loop trace_emit l)
  obtain res where s: "init_start 4 800 600 ''Triangle Demo - Computer Graphics (C++)'' triangle_createShaders d (TriangleRenderer u, world0)
                        = (res, r, w)"
    using i ok by (auto simp add: triangle_init_def split: prod.splits option.splits)
  have 2: "fst (triangle_main u d fs) = Exited (- 1)"
  proof (cases "glfwInit_ok d \<and> created_window d \<noteq> None \<and> gladLoad_ok d")
    case True
    then have g: "glfwInit_ok d" "created_window d \<noteq> None" "gladLoad_ok d" by simp_all
    have t: "GLFW (gladLoadGLLoader True) \<in> set (trace w) \<and> \<not> unloaded_call False (trace w)"
      using init_start_loaded [OF g s [unfolded triangle_createShaders_def]] .
    obtain es where e: "trace ?w = trace w @ es"
      using triangle_cleanup_extends [of "(r, emit (HOST (print Cerr ''Failed to initialize renderer'')) w)"]
      by (auto simp add: trace_emit)
    show ?thesis using finish_loaded [OF conjunct1 [OF t] conjunct2 [OF t] e] by (simp add: m)
  next
    case False
    note e = init_start_early [OF False s, of "print Cerr ''Failed to initialize renderer''" glfwTerminate]
    have "\<not> unloaded_call False (trace ?w)"
      using e by (simp add: triangle_cleanup_def Let_def trace_emit TriangleRenderer_def)
    then show ?thesis by (simp add: m finish_safe)
  qed
  show ?thesis using 1 2 by blast
qed

lemma triangle_main_closed:
  assumes "startup_ok d" "\<exists>f\<in>set fs. closes f"
  shows "fst (triangle_main u d fs) = Exited 0"
proof -
  obtain ok r w where i: "triangle_init d (TriangleRenderer u, world0) = (ok, r, w)"
    by (cases "triangle_init d (TriangleRenderer u, world0)") auto
  have ok: "ok" using triangle_initD [OF i] assms(1) by simp
  have g: "glfwInit_ok d" "created_window d \<noteq> None" "gladLoad_ok d"
    using assms(1) by (simp_all add: startup_ok_def)
  obtain res r0 w0 where s: "init_start 4 800 600 ''Triangle Demo - Computer Graphics (C++)'' triangle_createShaders d (TriangleRenderer u, world0)
                              = (res, r0, w0)"
    by (metis prod_cases3)
  have t: "GLFW (gladLoadGLLoader True) \<in> set (trace w0) \<and> \<not> unloaded_call False (trace w0)"
    using init_start_loaded [OF g s [unfolded triangle_createShaders_def]] .
  have "\<exists>es. trace w = trace w0 @ es"
    using i s by (auto simp add: triangle_init_def triangle_setupBuffers_def Let_def trace_emit trace_emits
        split: option.splits)
  then obtain es0 where e0: "trace w = trace w0 @ es0" by blast
  obtain rw left where run: "triangle_run fs (r, w) = (rw, left)"
    by (cases "triangle_run fs (r, w)") auto
  have left using triangle_leftD [OF run [unfolded triangle_run_def] assms(2)] .
  then have m: "triangle_main u d fs = finish (Some 0, snd (triangle_cleanup rw))"
    using ok by (simp add: triangle_main_def i run)
  obtain es1 where e1: "trace (snd rw) = trace w @ es1"
    using triangle_loop_extends [of fs "(r, emits [HOST (print Cout ''Triangle Demo is running!''),
                                  HOST (print Cout ''Press ESC or close window to exit'')] w)"] run
    by (auto simp add: triangle_run_def trace_emits)
  obtain es2 where e2: "trace (snd (triangle_cleanup rw)) = trace (snd rw) @ es2"
    using triangle_cleanup_extends by blast
  have e: "trace (snd (triangle_cleanup rw)) = trace w0 @ (es0 @ es1 @ es2)"
    by (simp only: e2 e1 e0 append_assoc)
  show ?thesis using finish_loaded [OF conjunct1 [OF t] conjunct2 [OF t] e] by (simp add: m)
qed

lemma loadTexture_true: "fst (loadTexture d rw) = True"
  by (simp add: loadTexture_def Let_def)

lemma textured_init_ignores_uploads:
  "textured_init (d\<lparr>bufferData_accepted := b, texImage_accepted := t\<rparr>) rw = textured_init d rw"
  by (simp add: textured_init_def init_start_def textured_createShaders_def createShaders_def
        textured_setupBuffers_def loadTexture_def Let_def)

subsection \<open>Start-up failures and exit codes\<close>

lemma startup_ok_good: "startup_ok good_driver"
  by (simp add: startup_ok_def good_driver_def)

lemma startup_ok_rejecting: "startup_ok texture_rejecting_driver"
  by (simp add: startup_ok_def texture_rejecting_driver_def good_driver_def)

lemma not_startup_ok_no_glfw: "\<not> startup_ok no_glfw_driver"
  by (simp add: startup_ok_def no_glfw_driver_def good_driver_def)

lemma closes_close_frame: "closes close_frame"
  by (simp add: closes_def close_frame_def)

lemma phong_init_ignores_uploads:
  "phong_init (d\<lparr>bufferData_accepted := b, texImage_accepted := t\<rparr>) rw = phong_init d rw"
  by (simp add: phong_init_def init_start_def phong_createShaders_def createShaders_def
        phong_setupBuffers_def Let_def)

lemma simple_init_ignores_uploads:
  "simple_init (d\<lparr>bufferData_accepted := b, texImage_accepted := t\<rparr>) rw = simple_init d rw"
  by (simp add: simple_init_def init_start_def simple_createShaders_def createShaders_def
        simple_setupBuffers_def Let_def)

lemma triangle_init_ignores_uploads:
  "triangle_init (d\<lparr>bufferData_accepted := b, texImage_accepted := t\<rparr>) rw = triangle_init d rw"
  by (simp add: triangle_init_def init_start_def triangle_createShaders_def createShaders_def
        triangle_setupBuffers_def Let_def)

text \<open>
  C9. Geometry-buffer setup and texture upload have no failure path: \<open>setupBuffers\<close>
  returns no status (its model returns the renderer and the world only) and
  \<open>loadTexture\<close> returns \<open>true\<close> whatever the driver does. In every variant \<open>init\<close>
  returns \<open>true\<close> exactly when \<open>glfwInit\<close>, window creation, the GLAD loader, both shader
  compilations and the program link succeed, and its whole outcome is the same whether
  or not the driver accepts the vertex-buffer and texture uploads.
\<close>
theorem init_fails_only_on_glfw_window_glad_or_shaders:
  "fst (loadTexture d rw) = True
   \<and> fst (phong_init d rw) = startup_ok d
   \<and> fst (textured_init d rw) = startup_ok d
   \<and> fst (simple_init d rw) = startup_ok d
   \<and> fst (triangle_init d rw) = startup_ok d
   \<and> phong_init (d\<lparr>bufferData_accepted := b, texImage_accepted := t\<rparr>) rw = phong_init d rw
   \<and> textured_init (d\<lparr>bufferData_accepted := b, texImage_accepted := t\<rparr>) rw = textured_init d rw
   \<and> simple_init (d\<lparr>bufferData_accepted := b, texImage_accepted := t\<rparr>) rw = simple_init d rw
   \<and> triangle_init (d\<lparr>bufferData_accepted := b, texImage_accepted := t\<rparr>) rw = triangle_init d rw"
  by (simp add: loadTexture_true phong_init_ok textured_init_ok simple_init_ok triangle_init_ok
        phong_init_ignores_uploads textured_init_ignores_uploads simple_init_ignores_uploads
        triangle_init_ignores_uploads)

theorem init_fails_only_on_glfw_window_glad_or_shaders_witness:
  "fst (loadTexture texture_rejecting_driver (TexturedTriangleRenderer storage, world0)) = True
   \<and> fst (textured_init texture_rejecting_driver (TexturedTriangleRenderer storage, world0)) = True
   \<and> fst (textured_init no_glfw_driver (TexturedTriangleRenderer storage, world0)) = False
   \<and> textured_init (good_driver\<lparr>bufferData_accepted := False, texImage_accepted := False\<rparr>)
        (TexturedTriangleRenderer storage, world0)
      = textured_init good_driver (TexturedTriangleRenderer storage, world0)"
  using init_fails_only_on_glfw_window_glad_or_shaders
          [of texture_rejecting_driver "(TexturedTriangleRenderer storage, world0)"]
        init_fails_only_on_glfw_window_glad_or_shaders
          [of no_glfw_driver "(TexturedTriangleRenderer storage, world0)"]
        init_fails_only_on_glfw_window_glad_or_shaders
          [of good_driver "(TexturedTriangleRenderer storage, world0)" False False]
  by (simp add: startup_ok_rejecting not_startup_ok_no_glfw)

lemma not_startup_ok_no_vertex_shader:
  "\<not> startup_ok no_vertex_shader_driver \<and> glfwInit_ok no_vertex_shader_driver
   \<and> created_window no_vertex_shader_driver \<noteq> None \<and> gladLoad_ok no_vertex_shader_driver"
  by (simp add: startup_ok_def no_vertex_shader_driver_def good_driver_def)

text \<open>
  C4, as the claim states it, fails in the textured variant: a driver that rejects the
  texture upload while every check of \<open>init\<close> passes. \<open>init\<close> returns \<open>true\<close>, the loop is
  entered, a frame is drawn and \<open>main\<close> returns 0.
\<close>
theorem rejected_texture_upload_still_runs_counterexample:
  "\<not> texImage_accepted texture_rejecting_driver
   \<and> fst (textured_init texture_rejecting_driver (TexturedTriangleRenderer storage, world0)) = True
   \<and> GL (glDrawArrays 0 3)
       \<in> set (trace (snd (textured_main storage texture_rejecting_driver [quiet_frame, close_frame])))
   \<and> fst (textured_main storage texture_rejecting_driver [quiet_frame, close_frame]) = Exited 0"
proof -
  have "GL (glDrawArrays 0 3)
       \<in> set (trace (snd (textured_main storage texture_rejecting_driver [quiet_frame, close_frame])))"
    by (simp add: textured_main_def finish_def textured_init_def init_start_def textured_createShaders_def
        createShaders_def
        textured_setupBuffers_def loadTexture_def Let_def textured_iteration_def textured_render_def
        textured_processInput_def color_key_def escape_key_def set_objectColor_def poll_events_def
        textured_cleanup_def emit_def emits_def world0_def quiet_frame_def close_frame_def no_keys_def
        texture_rejecting_driver_def good_driver_def TexturedTriangleRenderer_def storage_def
        unloaded_call_hints unloaded_call_loaded)
  moreover have "fst (textured_main storage texture_rejecting_driver [quiet_frame, close_frame]) = Exited 0"
    by (rule textured_main_closed) (simp_all add: startup_ok_rejecting closes_close_frame)
  moreover have "\<not> texImage_accepted texture_rejecting_driver"
    by (simp add: texture_rejecting_driver_def)
  ultimately show ?thesis
    by (simp add: textured_init_ok startup_ok_rejecting)
qed

text \<open>
  C4, amended. In each of the four variants: if \<open>glfwInit\<close>, window creation, the GLAD
  loader, a shader compilation or the program link fails, then \<open>init\<close> returns \<open>false\<close>
  and the trace of the whole program holds no loop test, no clear, no draw and no
  present: the render loop is never entered. \<open>main\<close> then returns \<open>-1\<close> (a non-zero exit
  code) in the two plain variants, and in the Phong and textured variants when the
  failure is a shader compilation or the program link, that is, when the GLAD loader had
  succeeded. If all the checks succeed and some supplied frame brings a close request or
  a held Escape key, \<open>main\<close> returns \<open>0\<close>. (The exit of the Phong and textured variants
  after a failure of \<open>glfwInit\<close>, of window creation or of the GLAD loader is not part of
  this statement: it is the subject of C5.)
\<close>
theorem failed_startup_exits_nonzero_without_loop_and_close_exits_zero:
  "(\<not> startup_ok d \<longrightarrow>
      \<not> fst (phong_init d (PhongTriangleRenderer u, world0))
      \<and> filter loop_event (trace (snd (phong_main u d fs))) = []
      \<and> \<not> fst (textured_init d (TexturedTriangleRenderer u, world0))
      \<and> filter loop_event (trace (snd (textured_main u d fs))) = []
      \<and> \<not> fst (simple_init d (SimpleTriangleRenderer u, world0))
      \<and> fst (simple_main u d fs) = Exited (- 1)
      \<and> filter loop_event (trace (snd (simple_main u d fs))) = []
      \<and> \<not> fst (triangle_init d (TriangleRenderer u, world0))
      \<and> fst (triangle_main u d fs) = Exited (- 1)
      \<and> filter loop_event (trace (snd (triangle_main u d fs))) = [])
   \<and> (\<not> startup_ok d \<and> glfwInit_ok d \<and> created_window d \<noteq> None \<and> gladLoad_ok d \<longrightarrow>
      fst (phong_main u d fs) = Exited (- 1) \<and> fst (textured_main u d fs) = Exited (- 1))
   \<and> (startup_ok d \<and> (\<exists>f\<in>set fs. closes f) \<longrightarrow>
      fst (phong_main u d fs) = Exited 0 \<and> fst (textured_main u d fs) = Exited 0
      \<and> fst (simple_main u d fs) = Exited 0 \<and> fst (triangle_main u d fs) = Exited 0)"
  using phong_main_fails [of d u fs] textured_main_fails [of d u fs]
        simple_main_fails [of d u fs] triangle_main_fails [of d u fs]
        phong_main_closed [of d fs u] textured_main_closed [of d fs u]
        simple_main_closed [of d fs u] triangle_main_closed [of d fs u]
  by (simp add: phong_init_ok textured_init_ok simple_init_ok triangle_init_ok)

theorem failed_startup_exits_nonzero_without_loop_and_close_exits_zero_witness:
  "\<not> startup_ok no_glfw_driver
   \<and> \<not> fst (phong_init no_glfw_driver (PhongTriangleRenderer storage, world0))
   \<and> filter loop_event (trace (snd (phong_main storage no_glfw_driver [quiet_frame, close_frame]))) = []
   \<and> fst (simple_main storage no_glfw_driver [quiet_frame, close_frame]) = Exited (- 1)
   \<and> \<not> startup_ok no_vertex_shader_driver
   \<and> glfwInit_ok no_vertex_shader_driver
   \<and> created_window no_vertex_shader_driver \<noteq> None
   \<and> gladLoad_ok no_vertex_shader_driver
   \<and> fst (phong_main storage no_vertex_shader_driver [quiet_frame, close_frame]) = Exited (- 1)
   \<and> fst (textured_main storage no_vertex_shader_driver [quiet_frame, close_frame]) = Exited (- 1)
   \<and> startup_ok good_driver
   \<and> closes close_frame
   \<and> fst (phong_main storage good_driver [quiet_frame, close_frame]) = Exited 0
   \<and> fst (simple_main storage good_driver [quiet_frame, close_frame]) = Exited 0"
  using failed_startup_exits_nonzero_without_loop_and_close_exits_zero
          [of no_glfw_driver storage "[quiet_frame, close_frame]"]
        failed_startup_exits_nonzero_without_loop_and_close_exits_zero
          [of no_vertex_shader_driver storage "[quiet_frame, close_frame]"]
        failed_startup_exits_nonzero_without_loop_and_close_exits_zero
          [of good_driver storage "[quiet_frame, close_frame]"]
  by (simp add: startup_ok_good not_startup_ok_no_glfw not_startup_ok_no_vertex_shader closes_close_frame)

subsection \<open>The order of the steps in one pass of the loop\<close>

lemma steps_of_block: "block s es \<Longrightarrow> steps_of es = [s]"
proof (induction es)
  case Nil
  then show ?case by (simp add: block_def)
next
  case (Cons e es)
  then show ?case by (cases es) (auto simp add: block_def)
qed

lemma steps_of_block_append:
  "block s es \<Longrightarrow> steps_of ys = t # ts \<Longrightarrow> s \<noteq> t \<Longrightarrow> steps_of (es @ ys) = s # t # ts"
proof (induction es)
  case Nil
  then show ?case by (simp add: block_def)
next
  case (Cons e es)
  then show ?case by (cases es) (auto simp add: block_def)
qed

lemma added_append: "trace w' = trace w @ es \<Longrightarrow> added w w' = es"
  by (simp add: added_def)

lemma block_present:
  "block Present (GLFW glfwSwapBuffers # GLFW glfwPollEvents # map (\<lambda>wh. GL (glViewport 0 0 (fst wh) (snd wh))) rs)"
  by (simp add: block_def list_all_iff)

lemma phong_processInput_block:
  "\<exists>es. trace (snd (phong_processInput ks rw)) = trace (snd rw) @ es \<and> block PollInput es"
  by (simp add: phong_processInput_def color_key_trace escape_key_trace block_def)

lemma textured_processInput_block:
  "\<exists>es. trace (snd (textured_processInput ks rw)) = trace (snd rw) @ es \<and> block PollInput es"
  by (simp add: textured_processInput_def color_key_trace escape_key_trace block_def)

lemma escape_key_block:
  "\<exists>es. trace (snd (escape_key ks rw)) = trace (snd rw) @ es \<and> block PollInput es"
  by (simp add: escape_key_trace block_def)

lemma color_key_VAO: "VAO (fst (color_key ks k c rw)) = VAO (fst rw)"
  by (simp add: color_key_def set_objectColor_def Let_def)

lemma phong_processInput_VAO: "VAO (fst (phong_processInput ks rw)) = VAO (fst rw)"
  by (simp add: phong_processInput_def color_key_VAO escape_key_fst)

lemma textured_processInput_VAO: "VAO (fst (textured_processInput ks rw)) = VAO (fst rw)"
  by (simp add: textured_processInput_def color_key_VAO escape_key_fst)

lemma phong_render_steps:
  assumes "VAO (fst rw) \<noteq> 0" and "steps_of ys = [Present]"
  shows "\<exists>es. trace (snd (phong_render d rw)) = trace (snd rw) @ es \<and>
           steps_of (es @ ys) =
             [ClearFrame, ActivateProgram, AdvanceRotation, PushUniforms, BindResources, SubmitDraw,
              Unbind, Present]"
  using assms by (simp add: phong_render_def Let_def trace_emits)

lemma textured_render_steps:
  assumes "VAO (fst rw) \<noteq> 0" and "steps_of ys = [Present]"
  shows "\<exists>es. trace (snd (textured_render d rw)) = trace (snd rw) @ es \<and>
           steps_of (es @ ys) =
             [ClearFrame, ActivateProgram, AdvanceRotation, PushUniforms, BindResources, SubmitDraw,
              Unbind, Present]"
  using assms by (simp add: textured_render_def Let_def trace_emits)

lemma phong_iteration_steps:
  assumes "VAO r \<noteq> 0"
  shows "steps_of (added w (snd (phong_iteration d f (r, w)))) =
     [PollInput, ClearFrame, ActivateProgram, AdvanceRotation, PushUniforms, BindResources,
      SubmitDraw, Unbind, Present]"
proof -
  let ?P = "GLFW glfwSwapBuffers # GLFW glfwPollEvents # map (\<lambda>wh. GL (glViewport 0 0 (fst wh) (snd wh))) (resizes f)"
  let ?rw1 = "phong_processInput (held f) (r, w)"
  obtain es1 where 1: "trace (snd ?rw1) = trace w @ es1" "block PollInput es1"
    using phong_processInput_block [of "held f" "(r, w)"] by auto
  have p: "steps_of ?P = [Present]" by (rule steps_of_block) (rule block_present)
  have v: "VAO (fst ?rw1) \<noteq> 0" using assms by (simp add: phong_processInput_VAO)
  obtain es2 where 2: "trace (snd (phong_render d ?rw1)) = trace (snd ?rw1) @ es2"
     "steps_of (es2 @ ?P) = [ClearFrame, ActivateProgram, AdvanceRotation, PushUniforms, BindResources,
         SubmitDraw, Unbind, Present]"
    using phong_render_steps [OF v p, of d] by auto
  have "trace (snd (phong_iteration d f (r, w))) = trace w @ es1 @ es2 @ ?P"
    using 1(1) 2(1) by (simp add: phong_iteration_def Let_def poll_events_trace trace_emit)
  then have "added w (snd (phong_iteration d f (r, w))) = es1 @ es2 @ ?P"
    by (rule added_append)
  then show ?thesis
    using steps_of_block_append [OF 1(2) 2(2)] by simp
qed

lemma textured_iteration_steps:
  assumes "VAO r \<noteq> 0"
  shows "steps_of (added w (snd (textured_iteration d f (r, w)))) =
     [PollInput, ClearFrame, ActivateProgram, AdvanceRotation, PushUniforms, BindResources,
      SubmitDraw, Unbind, Present]"
proof -
  let ?P = "GLFW glfwSwapBuffers # GLFW glfwPollEvents # map (\<lambda>wh. GL (glViewport 0 0 (fst wh) (snd wh))) (resizes f)"
  let ?rw1 = "textured_processInput (held f) (r, w)"
  obtain es1 where 1: "trace (snd ?rw1) = trace w @ es1" "block PollInput es1"
    using textured_processInput_block [of "held f" "(r, w)"] by auto
  have p: "steps_of ?P = [Present]" by (rule steps_of_block) (rule block_present)
  have v: "VAO (fst ?rw1) \<noteq> 0" using assms by (simp add: textured_processInput_VAO)
  obtain es2 where 2: "trace (snd (textured_render d ?rw1)) = trace (snd ?rw1) @ es2"
     "steps_of (es2 @ ?P) = [ClearFrame, ActivateProgram, AdvanceRotation, PushUniforms, BindResources,
         SubmitDraw, Unbind, Present]"
    using textured_render_steps [OF v p, of d] by auto
  have "trace (snd (textured_iteration d f (r, w))) = trace w @ es1 @ es2 @ ?P"
    using 1(1) 2(1) by (simp add: textured_iteration_def Let_def poll_events_trace trace_emit)
  then have "added w (snd (textured_iteration d f (r, w))) = es1 @ es2 @ ?P"
    by (rule added_append)
  then show ?thesis
    using steps_of_block_append [OF 1(2) 2(2)] by simp
qed

lemma simple_iteration_steps:
  assumes "VAO r \<noteq> 0"
  shows "steps_of (added w (snd (simple_iteration f (r, w)))) =
     [ClearFrame, ActivateProgram, BindResources, SubmitDraw, Present, PollInput]"
proof -
  let ?P = "GLFW glfwSwapBuffers # GLFW glfwPollEvents # map (\<lambda>wh. GL (glViewport 0 0 (fst wh) (snd wh))) (resizes f)"
  let ?rw1 = "simple_render f (r, w)"
  obtain es where 1: "trace (snd (escape_key (held f) ?rw1)) = trace (snd ?rw1) @ es" "block PollInput es"
    using escape_key_block [of "held f" ?rw1] by auto
  have i: "steps_of es = [PollInput]" using 1(2) by (rule steps_of_block)
  have p: "steps_of (?P @ es) = [Present, PollInput]"
    using steps_of_block_append [OF block_present i] by simp
  have "trace (snd (simple_iteration f (r, w))) =
          trace w @ [GL (glClearColor (2/10) (3/10) (3/10) 1), GL (glClear True False),
                PROG (glUseProgram (shaderProgram r)), GL (glBindVertexArray (VAO r)),
                GL (glDrawArrays 0 3)] @ ?P @ es"
    using 1(1) by (simp add: simple_iteration_def simple_render_def poll_events_trace trace_emits)
  then have "added w (snd (simple_iteration f (r, w))) =
          [GL (glClearColor (2/10) (3/10) (3/10) 1), GL (glClear True False),
                PROG (glUseProgram (shaderProgram r)), GL (glBindVertexArray (VAO r)),
                GL (glDrawArrays 0 3)] @ ?P @ es"
    by (rule added_append)
  then show ?thesis using p assms by simp
qed

lemma triangle_iteration_steps:
  assumes "VAO r \<noteq> 0"
  shows "steps_of (added w (snd (triangle_iteration f (r, w)))) =
     [ClearFrame, ActivateProgram, BindResources, SubmitDraw, Present, PollInput]"
proof -
  let ?P = "GLFW glfwSwapBuffers # GLFW glfwPollEvents # map (\<lambda>wh. GL (glViewport 0 0 (fst wh) (snd wh))) (resizes f)"
  let ?rw1 = "triangle_render f (r, w)"
  obtain es where 1: "trace (snd (escape_key (held f) ?rw1)) = trace (snd ?rw1) @ es" "block PollInput es"
    using escape_key_block [of "held f" ?rw1] by auto
  have i: "steps_of es = [PollInput]" using 1(2) by (rule steps_of_block)
  have p: "steps_of (?P @ es) = [Present, PollInput]"
    using steps_of_block_append [OF block_present i] by simp
  have "trace (snd (triangle_iteration f (r, w))) =
          trace w @ [GL (glClearColor (2/10) (3/10) (3/10) 1), GL (glClear True False),
                PROG (glUseProgram (shaderProgram r)), GL (glBindVertexArray (VAO r)),
                GL (glDrawArrays 0 3)] @ ?P @ es"
    using 1(1) by (simp add: triangle_iteration_def triangle_render_def poll_events_trace trace_emits)
  then have "added w (snd (triangle_iteration f (r, w))) =
          [GL (glClearColor (2/10) (3/10) (3/10) 1), GL (glClear True False),
                PROG (glUseProgram (shaderProgram r)), GL (glBindVertexArray (VAO r)),
                GL (glDrawArrays 0 3)] @ ?P @ es"
    by (rule added_append)
  then show ?thesis using p assms by simp
qed

lemma phong_ready_handles:
  "VAO (fst phong_ready) = 1 \<and> VBO (fst phong_ready) = 1 \<and> shaderProgram (fst phong_ready) = 3
   \<and> window (fst phong_ready) = Some 1 \<and> \<not> should_close (snd phong_ready)"
  by (simp add: phong_ready_def phong_init_def init_start_def phong_createShaders_def createShaders_def
        phong_setupBuffers_def Let_def good_driver_def PhongTriangleRenderer_def world0_def
        close_emit close_emits)

lemma textured_ready_handles:
  "VAO (fst textured_ready) = 1 \<and> VBO (fst textured_ready) = 1 \<and> shaderProgram (fst textured_ready) = 3
   \<and> texture (fst textured_ready) = 1 \<and> window (fst textured_ready) = Some 1 \<and> \<not> should_close (snd textured_ready)"
  by (simp add: textured_ready_def textured_init_def init_start_def textured_createShaders_def createShaders_def
        textured_setupBuffers_def loadTexture_def Let_def good_driver_def TexturedTriangleRenderer_def world0_def
        close_emit close_emits)

lemma simple_ready_handles:
  "VAO (fst simple_ready) = 1 \<and> VBO (fst simple_ready) = 1 \<and> shaderProgram (fst simple_ready) = 3
   \<and> window (fst simple_ready) = Some 1 \<and> \<not> should_close (snd simple_ready)"
  by (simp add: simple_ready_def simple_init_def init_start_def simple_createShaders_def createShaders_def
        simple_setupBuffers_def Let_def good_driver_def SimpleTriangleRenderer_def world0_def
        close_emit close_emits)

lemma triangle_ready_handles:
  "VAO (fst triangle_ready) = 1 \<and> VBO (fst triangle_ready) = 1 \<and> shaderProgram (fst triangle_ready) = 3
   \<and> window (fst triangle_ready) = Some 1 \<and> \<not> should_close (snd triangle_ready)"
  by (simp add: triangle_ready_def triangle_init_def init_start_def triangle_createShaders_def createShaders_def
        triangle_setupBuffers_def Let_def good_driver_def TriangleRenderer_def world0_def
        close_emit close_emits)

text \<open>
  C8, as the claim states it, fails in the two plain variants: in \<open>SimpleTriangleRenderer\<close>
  (and likewise in \<open>TriangleRenderer\<close>) a pass of the loop, taken right after a successful
  \<open>init\<close>, clears, activates the program, binds, draws and presents, and only then
  queries the Escape key. Input polling comes last, not first.
\<close>
theorem simple_variant_polls_input_after_present_counterexample:
  "steps_of (added (snd simple_ready) (snd (simple_iteration quiet_frame (fst simple_ready, snd simple_ready))))
     = [ClearFrame, ActivateProgram, BindResources, SubmitDraw, Present, PollInput]
   \<and> steps_of (added (snd triangle_ready) (snd (triangle_iteration quiet_frame (fst triangle_ready, snd triangle_ready))))
     = [ClearFrame, ActivateProgram, BindResources, SubmitDraw, Present, PollInput]"
  using simple_iteration_steps [of "fst simple_ready" "snd simple_ready" quiet_frame]
        triangle_iteration_steps [of "fst triangle_ready" "snd triangle_ready" quiet_frame]
  by (simp add: simple_ready_handles triangle_ready_handles)

text \<open>
  C8, amended. A pass of the render loop consists of these steps, in this order, whatever
  keys are held and whatever \<open>glfwPollEvents\<close> delivers (for a vertex array that was
  created, i.e. a non-zero \<open>VAO\<close>):
  \<^item> Phong and textured variants: poll input and apply the key effects, clear (colour and
    depth), activate the program, advance the rotation, push the uniforms, bind (the
    texture in the textured variant, then the vertex array), draw, release the
    vertex-array binding, present and poll events. Input polling precedes clear, draw and
    present of the same pass.
  \<^item> \<open>SimpleTriangleRenderer\<close> and \<open>TriangleRenderer\<close>: clear (colour only), activate the
    program, bind the vertex array, draw, present and poll events, and then the Escape
    check; there is no rotation and no uniform. Input polling follows the present of the
    same pass.
\<close>
theorem loop_pass_step_order:
  assumes "VAO r \<noteq> 0"
  shows "steps_of (added w (snd (phong_iteration d f (r, w)))) =
           [PollInput, ClearFrame, ActivateProgram, AdvanceRotation, PushUniforms, BindResources,
            SubmitDraw, Unbind, Present]
       \<and> steps_of (added w (snd (textured_iteration d f (r, w)))) =
           [PollInput, ClearFrame, ActivateProgram, AdvanceRotation, PushUniforms, BindResources,
            SubmitDraw, Unbind, Present]
       \<and> steps_of (added w (snd (simple_iteration f (r, w)))) =
           [ClearFrame, ActivateProgram, BindResources, SubmitDraw, Present, PollInput]
       \<and> steps_of (added w (snd (triangle_iteration f (r, w)))) =
           [ClearFrame, ActivateProgram, BindResources, SubmitDraw, Present, PollInput]"
  using assms
  by (simp add: phong_iteration_steps textured_iteration_steps simple_iteration_steps
        triangle_iteration_steps)

theorem loop_pass_step_order_witness:
  "VAO (fst phong_ready) \<noteq> 0
   \<and> steps_of (added (snd phong_ready)
        (snd (phong_iteration good_driver (key_frame GLFW_KEY_R) (fst phong_ready, snd phong_ready)))) =
           [PollInput, ClearFrame, ActivateProgram, AdvanceRotation, PushUniforms, BindResources,
            SubmitDraw, Unbind, Present]
   \<and> steps_of (added (snd phong_ready)
        (snd (simple_iteration (key_frame GLFW_KEY_R) (fst phong_ready, snd phong_ready)))) =
           [ClearFrame, ActivateProgram, BindResources, SubmitDraw, Present, PollInput]"
proof -
  have h: "VAO (fst phong_ready) \<noteq> 0" by (simp add: phong_ready_handles)
  show ?thesis
    using h loop_pass_step_order [OF h, of "snd phong_ready" good_driver "key_frame GLFW_KEY_R"]
    by simp
qed

subsection \<open>Viewport and projection\<close>

lemma color_key_projection: "projection (fst (color_key ks k c rw)) = projection (fst rw)"
  by (simp add: color_key_def set_objectColor_def Let_def)

lemma phong_iteration_projection: "projection (fst (phong_iteration d f rw)) = projection (fst rw)"
  by (simp add: phong_iteration_def phong_render_def phong_processInput_def Let_def
        color_key_projection escape_key_fst)

lemma textured_iteration_projection: "projection (fst (textured_iteration d f rw)) = projection (fst rw)"
  by (simp add: textured_iteration_def textured_render_def textured_processInput_def Let_def
        color_key_projection escape_key_fst)

lemma phong_run_projection: "projection (fst (fst (phong_run d fs rw))) = projection (fst rw)"
  by (induction fs arbitrary: rw) (simp_all add: phong_iteration_projection)

lemma textured_run_projection: "projection (fst (fst (textured_run d fs rw))) = projection (fst rw)"
  by (induction fs arbitrary: rw) (simp_all add: textured_iteration_projection)

lemma phong_constructor_projection: "projection (PhongTriangleRenderer u) = projection_for 800 600"
  by (simp add: PhongTriangleRenderer_def projection_for_def Let_def)

lemma textured_constructor_projection: "projection (TexturedTriangleRenderer u) = projection_for 800 600"
  by (simp add: TexturedTriangleRenderer_def projection_for_def Let_def)

lemma viewports_append: "viewports (xs @ ys) = viewports xs @ viewports ys"
  by (induction xs rule: viewports.induct) auto

lemma callback_viewport: "added w (framebufferSizeCallback x y w) = [GL (glViewport 0 0 x y)]"
  by (simp add: added_def framebufferSizeCallback_def trace_emit)

lemma viewports_map: "viewports (map (\<lambda>wh. GL (glViewport 0 0 (fst wh) (snd wh))) rs) = rs"
  by (induction rs) auto

lemma color_key_viewports: "viewports (trace (snd (color_key ks k c rw))) = viewports (trace (snd rw))"
  by (simp add: color_key_trace viewports_append)

lemma escape_key_viewports: "viewports (trace (snd (escape_key ks rw))) = viewports (trace (snd rw))"
  by (simp add: escape_key_trace viewports_append)

lemma phong_iteration_viewports:
  "viewports (trace (snd (phong_iteration d f rw))) = viewports (trace (snd rw)) @ resizes f"
  by (simp add: phong_iteration_def phong_render_def phong_processInput_def Let_def poll_events_trace
        trace_emit trace_emits viewports_append viewports_map color_key_viewports escape_key_viewports)

lemma textured_iteration_viewports:
  "viewports (trace (snd (textured_iteration d f rw))) = viewports (trace (snd rw)) @ resizes f"
  by (simp add: textured_iteration_def textured_render_def textured_processInput_def Let_def poll_events_trace
        trace_emit trace_emits viewports_append viewports_map color_key_viewports escape_key_viewports)

lemma phong_iteration_uploads_projection:
  "PROG (glUniformMatrix4fv (uniform_location d ''projection'') (projection r))
     \<in> set (added w (snd (phong_iteration d f (r, w))))"
proof -
  let ?rw1 = "phong_processInput (held f) (r, w)"
  obtain es1 where 1: "trace (snd ?rw1) = trace w @ es1"
    using phong_processInput_block [of "held f" "(r, w)"] by auto
  have 2: "projection (fst ?rw1) = projection r"
    by (simp add: phong_processInput_def color_key_projection escape_key_fst)
  have "\<exists>es. trace (snd (phong_iteration d f (r, w))) = trace w @ es \<and>
          PROG (glUniformMatrix4fv (uniform_location d ''projection'') (projection r)) \<in> set es"
    using 1 2 by (simp add: phong_iteration_def phong_render_def Let_def poll_events_trace trace_emit trace_emits)
  then show ?thesis by (auto simp add: added_def)
qed

lemma textured_iteration_uploads_projection:
  "PROG (glUniformMatrix4fv (uniform_location d ''projection'') (projection r))
     \<in> set (added w (snd (textured_iteration d f (r, w))))"
proof -
  let ?rw1 = "textured_processInput (held f) (r, w)"
  obtain es1 where 1: "trace (snd ?rw1) = trace w @ es1"
    using textured_processInput_block [of "held f" "(r, w)"] by auto
  have 2: "projection (fst ?rw1) = projection r"
    by (simp add: textured_processInput_def color_key_projection escape_key_fst)
  have "\<exists>es. trace (snd (textured_iteration d f (r, w))) = trace w @ es \<and>
          PROG (glUniformMatrix4fv (uniform_location d ''projection'') (projection r)) \<in> set es"
    using 1 2 by (simp add: textured_iteration_def textured_render_def Let_def poll_events_trace trace_emit trace_emits)
  then show ?thesis by (auto simp add: added_def)
qed

lemma tan_half_fovy_pos: "0 < tan (radians 45 / 2)"
proof -
  have e: "radians 45 / 2 = pi / 8" by (simp add: radians_def)
  have "0 < pi / 8" "pi / 8 < pi / 2" by simp_all
  then have "0 < tan (pi / 8)" by (rule tan_gt_zero)
  then show ?thesis by (simp only: e)
qed

lemma projection_for_differs: "projection_for 1000 500 \<noteq> projection_for 800 600"
proof -
  let ?t = "tan (radians 45 / 2)"
  have t: "0 < ?t" by (rule tan_half_fovy_pos)
  have "1 / (2 * ?t) \<noteq> 1 / ((4 / 3) * ?t)"
    using t by (simp add: field_simps)
  then show ?thesis
    by (simp add: projection_for_def perspective_def Let_def)
qed

lemma phong_ready_projection: "projection (fst phong_ready) = projection_for 800 600"
  by (simp add: phong_ready_def phong_init_def init_start_def phong_createShaders_def createShaders_def
        phong_setupBuffers_def Let_def good_driver_def PhongTriangleRenderer_def projection_for_def)

lemma good_driver_projection_location: "uniform_location good_driver ''projection'' = 2"
  by (simp add: uniform_location_def good_driver_def)

text \<open>
  C7, as the claim states it, fails: after a successful \<open>init\<close> of the Phong variant a
  pass of the loop delivers a resize to 1000 x 500. The callback sets the viewport, but the
  \<open>projection\<close> member is still the matrix for 800 x 600, which differs from the matrix for
  1000 x 500, and the next pass uploads that unchanged matrix as the \<open>projection\<close> uniform.
\<close>
theorem resize_leaves_projection_counterexample:
  "viewports (trace (snd (phong_iteration good_driver (resize_frame 1000 500) phong_ready)))
     = viewports (trace (snd phong_ready)) @ [(1000, 500)]
   \<and> projection (fst (phong_iteration good_driver (resize_frame 1000 500) phong_ready))
     = projection_for 800 600
   \<and> projection_for 1000 500 \<noteq> projection_for 800 600
   \<and> PROG (glUniformMatrix4fv 2 (projection_for 800 600))
       \<in> set (added (snd (phong_iteration good_driver (resize_frame 1000 500) phong_ready))
                (snd (phong_iteration good_driver quiet_frame
                       (phong_iteration good_driver (resize_frame 1000 500) phong_ready))))"
proof -
  let ?rw1 = "phong_iteration good_driver (resize_frame 1000 500) phong_ready"
  have p: "projection (fst ?rw1) = projection_for 800 600"
    by (simp add: phong_iteration_projection phong_ready_projection)
  have "PROG (glUniformMatrix4fv (uniform_location good_driver ''projection'') (projection (fst ?rw1)))
       \<in> set (added (snd ?rw1) (snd (phong_iteration good_driver quiet_frame (fst ?rw1, snd ?rw1))))"
    by (rule phong_iteration_uploads_projection)
  then have u: "PROG (glUniformMatrix4fv 2 (projection_for 800 600))
       \<in> set (added (snd ?rw1) (snd (phong_iteration good_driver quiet_frame ?rw1)))"
    by (simp add: p good_driver_projection_location)
  have v: "viewports (trace (snd ?rw1)) = viewports (trace (snd phong_ready)) @ [(1000, 500)]"
    by (simp add: phong_iteration_viewports resize_frame_def)
  show ?thesis using p u v projection_for_differs by simp
qed

text \<open>
  C7, amended. A framebuffer-resize notification is forwarded to the viewport only: the
  callback calls \<open>glViewport(0, 0, w, h)\<close>, so the viewports set during a pass are the
  resizes delivered in it. The projection matrix is computed once, in the constructor,
  for 800 x 600; no pass of the loop changes it, whatever resizes arrive, and every pass
  uploads that unchanged matrix as the \<open>projection\<close> uniform. Phong and textured variants.
\<close>
theorem resize_sets_viewport_and_projection_stays:
  "added w (framebufferSizeCallback x y w) = [GL (glViewport 0 0 x y)]
   \<and> viewports (trace (snd (phong_iteration d f rw))) = viewports (trace (snd rw)) @ resizes f
   \<and> viewports (trace (snd (textured_iteration d f rw))) = viewports (trace (snd rw)) @ resizes f
   \<and> projection (PhongTriangleRenderer u) = projection_for 800 600
   \<and> projection (TexturedTriangleRenderer u) = projection_for 800 600
   \<and> projection (fst (fst (phong_run d fs rw))) = projection (fst rw)
   \<and> projection (fst (fst (textured_run d fs rw))) = projection (fst rw)
   \<and> PROG (glUniformMatrix4fv (uniform_location d ''projection'') (projection r))
        \<in> set (added w (snd (phong_iteration d f (r, w))))
   \<and> PROG (glUniformMatrix4fv (uniform_location d ''projection'') (projection r))
        \<in> set (added w (snd (textured_iteration d f (r, w))))"
  by (simp add: callback_viewport phong_iteration_viewports textured_iteration_viewports
        phong_constructor_projection textured_constructor_projection phong_run_projection
        textured_run_projection phong_iteration_uploads_projection textured_iteration_uploads_projection)

theorem resize_sets_viewport_and_projection_stays_witness:
  "added (snd phong_ready) (framebufferSizeCallback 1000 500 (snd phong_ready)) = [GL (glViewport 0 0 1000 500)]
   \<and> projection (fst (fst (phong_run good_driver [resize_frame 1000 500, quiet_frame, close_frame] phong_ready)))
       = projection_for 800 600
   \<and> PROG (glUniformMatrix4fv 2 (projection_for 800 600))
        \<in> set (added (snd phong_ready)
                 (snd (phong_iteration good_driver (resize_frame 1000 500) (fst phong_ready, snd phong_ready))))"
  using resize_sets_viewport_and_projection_stays
          [of "snd phong_ready" 1000 500 good_driver "resize_frame 1000 500" phong_ready storage
              "[resize_frame 1000 500, quiet_frame, close_frame]" "fst phong_ready"]
  by (simp del: phong_run.simps textured_run.simps
        add: phong_ready_projection good_driver_projection_location)

subsection \<open>Uniform upload\<close>

lemma index_of_None: "index_of x xs = None \<longleftrightarrow> x \<notin> set xs"
  by (induction xs) auto

lemma index_of_Some: "index_of x xs = Some i \<Longrightarrow> i < length xs \<and> xs ! i = x"
  by (induction xs arbitrary: i) (auto split: if_splits)

lemma uniform_location_absent: "uniform_location d n = - 1 \<longleftrightarrow> n \<notin> set (active_uniforms d)"
proof (cases "index_of n (active_uniforms d)")
  case None
  then have "n \<notin> set (active_uniforms d)"
    using index_of_None [of n "active_uniforms d"] by blast
  with None show ?thesis by (simp add: uniform_location_def)
next
  case (Some i)
  then have "n \<in> set (active_uniforms d)"
    using index_of_None [of n "active_uniforms d"] by auto
  with Some show ?thesis by (simp add: uniform_location_def)
qed

lemma uniform_location_inj:
  assumes "n \<in> set (active_uniforms d)" "uniform_location d n = uniform_location d n'"
  shows "n = n'"
proof -
  obtain i where i: "index_of n (active_uniforms d) = Some i"
    using assms(1) index_of_None [of n "active_uniforms d"] by (cases "index_of n (active_uniforms d)") auto
  then have l: "uniform_location d n = int i" by (simp add: uniform_location_def)
  then have "uniform_location d n' \<noteq> - 1" using assms(2) by simp
  then obtain j where j: "index_of n' (active_uniforms d) = Some j"
    by (cases "index_of n' (active_uniforms d)") (auto simp add: uniform_location_def)
  then have "i = j" using l assms(2) by (simp add: uniform_location_def)
  then show ?thesis using index_of_Some [OF i] index_of_Some [OF j] by simp
qed

lemma phong_render_added:
  "added w (snd (phong_render d (r, w))) =
     (let r' = fst (phong_render d (r, w)); p = shaderProgram r in
      [GL (glClearColor (1/10) (1/10) (1/10) 1), GL (glClear True True), PROG (glUseProgram p),
       HOST (assign_rotationAngle (rotationAngle r')), HOST (assign_model (model r'))]
      @ map (\<lambda>nv. PROG (glGetUniformLocation p (fst nv) (uniform_location d (fst nv)))) (phong_uniforms r')
      @ [PROG (glUniformMatrix4fv (uniform_location d ''model'') (model r')),
         PROG (glUniformMatrix4fv (uniform_location d ''view'') (view r')),
         PROG (glUniformMatrix4fv (uniform_location d ''projection'') (projection r')),
         PROG (glUniform3fv (uniform_location d ''lightPos'') (lightPos r')),
         PROG (glUniform3fv (uniform_location d ''lightColor'') (lightColor r')),
         PROG (glUniform3fv (uniform_location d ''objectColor'') (objectColor r')),
         PROG (glUniform3fv (uniform_location d ''viewPos'') (viewPos r'))]
      @ [GL (glBindVertexArray (VAO r)), GL (glDrawArrays 0 3), GL (glBindVertexArray 0)])"
  by (simp add: added_def phong_render_def Let_def trace_emits phong_uniforms_def)

lemma phong_render_no_cerr: "cerr_lines (added w (snd (phong_render d (r, w)))) = []"
  by (simp add: phong_render_added Let_def phong_uniforms_def)

lemma phong_render_uniforms:
  "uniforms_after (added w (snd (phong_render d (r, w)))) st =
     foldl (\<lambda>st' nv. store_active d nv st') st (phong_uniforms (fst (phong_render d (r, w))))"
  by (simp add: phong_render_added Let_def phong_uniforms_def uniforms_after_def store_active_def
        uniform_location_absent)

lemma textured_render_added:
  "added w (snd (textured_render d (r, w))) =
     (let r' = fst (textured_render d (r, w)); p = shaderProgram r in
      [GL (glClearColor (2/10) (3/10) (3/10) 1), GL (glClear True True), PROG (glUseProgram p),
       HOST (assign_rotationAngle (rotationAngle r')), HOST (assign_model (model r'))]
      @ map (\<lambda>nv. PROG (glGetUniformLocation p (fst nv) (uniform_location d (fst nv)))) (textured_uniforms r')
      @ [PROG (glUniformMatrix4fv (uniform_location d ''model'') (model r')),
         PROG (glUniformMatrix4fv (uniform_location d ''view'') (view r')),
         PROG (glUniformMatrix4fv (uniform_location d ''projection'') (projection r')),
         PROG (glUniform3fv (uniform_location d ''objectColor'') (objectColor r'))]
      @ [GL (glActiveTexture 0), GL (glBindTexture (texture r)),
         GL (glBindVertexArray (VAO r)), GL (glDrawArrays 0 3), GL (glBindVertexArray 0)])"
  by (simp add: added_def textured_render_def Let_def trace_emits textured_uniforms_def)

lemma textured_render_no_cerr: "cerr_lines (added w (snd (textured_render d (r, w)))) = []"
  by (simp add: textured_render_added Let_def textured_uniforms_def)

lemma textured_render_uniforms:
  "uniforms_after (added w (snd (textured_render d (r, w)))) st =
     foldl (\<lambda>st' nv. store_active d nv st') st (textured_uniforms (fst (textured_render d (r, w))))"
  by (simp add: textured_render_added Let_def textured_uniforms_def uniforms_after_def store_active_def
        uniform_location_absent)

lemma store_active_other:
  assumes "fst nv \<noteq> n" "n \<in> set (active_uniforms d)"
  shows "store_active d nv st (uniform_location d n) = st (uniform_location d n)"
proof -
  have "uniform_location d (fst nv) \<noteq> uniform_location d n"
    using uniform_location_inj [OF assms(2), of "fst nv"] assms(1) by auto
  then show ?thesis by (simp add: store_active_def)
qed

lemma foldl_store_untouched:
  "n \<in> set (active_uniforms d) \<Longrightarrow> n \<notin> fst ` set nvs \<Longrightarrow>
   foldl (\<lambda>st' nv. store_active d nv st') st nvs (uniform_location d n) = st (uniform_location d n)"
proof (induction nvs arbitrary: st)
  case Nil
  then show ?case by simp
next
  case (Cons nv nvs)
  then have "fst nv \<noteq> n" "n \<notin> fst ` set nvs" by auto
  then show ?case using Cons.IH [of "store_active d nv st"] Cons.prems(1)
    by (simp add: store_active_other)
qed

lemma foldl_store_lookup:
  "distinct (map fst nvs) \<Longrightarrow> (n, v) \<in> set nvs \<Longrightarrow> n \<in> set (active_uniforms d) \<Longrightarrow>
   foldl (\<lambda>st' nv. store_active d nv st') st nvs (uniform_location d n) = Some v"
proof (induction nvs arbitrary: st)
  case Nil
  then show ?case by simp
next
  case (Cons nv nvs)
  show ?case
  proof (cases "nv = (n, v)")
    case True
    then have "n \<notin> fst ` set nvs" using Cons.prems(1) by auto
    then have "foldl (\<lambda>st' nv. store_active d nv st') (store_active d nv st) nvs (uniform_location d n)
                 = store_active d nv st (uniform_location d n)"
      using Cons.prems(3) by (rule_tac foldl_store_untouched)
    then show ?thesis using True Cons.prems(3) by (simp add: store_active_def)
  next
    case False
    then have "(n, v) \<in> set nvs" "distinct (map fst nvs)" using Cons.prems by auto
    then show ?thesis using Cons.IH [of "store_active d nv st"] Cons.prems(3) by simp
  qed
qed

lemma phong_uniforms_distinct: "distinct (map fst (phong_uniforms r))"
  by (simp add: phong_uniforms_def)

lemma textured_uniforms_distinct: "distinct (map fst (textured_uniforms r))"
  by (simp add: textured_uniforms_def)

text \<open>
  C6. A uniform whose name is not active in the linked program has location \<open>-1\<close>, and
  uploading to it changes nothing in the program's uniform state. A frame's \<open>render\<close>
  writes nothing to \<open>std::cerr\<close> whichever names are missing, and its effect on the
  uniform state is exactly that of storing the active ones among the uniforms the host
  offers: every offered uniform that is active ends the frame with the host's value.
  Phong and textured variants.
\<close>
theorem absent_uniform_is_silent_noop:
  "(n \<notin> set (active_uniforms d) \<longrightarrow>
      uniform_location d n = - 1
      \<and> gl_uniform (PROG (glUniformMatrix4fv (uniform_location d n) m)) st = st
      \<and> gl_uniform (PROG (glUniform3fv (uniform_location d n) v)) st = st)
   \<and> cerr_lines (added w (snd (phong_render d (r, w)))) = []
   \<and> uniforms_after (added w (snd (phong_render d (r, w)))) st
       = foldl (\<lambda>st' nv. store_active d nv st') st (phong_uniforms (fst (phong_render d (r, w))))
   \<and> (n' \<in> set (active_uniforms d) \<and> (n', v') \<in> set (phong_uniforms (fst (phong_render d (r, w)))) \<longrightarrow>
        uniforms_after (added w (snd (phong_render d (r, w)))) st (uniform_location d n') = Some v')
   \<and> cerr_lines (added w (snd (textured_render d (r, w)))) = []
   \<and> uniforms_after (added w (snd (textured_render d (r, w)))) st
       = foldl (\<lambda>st' nv. store_active d nv st') st (textured_uniforms (fst (textured_render d (r, w))))
   \<and> (n' \<in> set (active_uniforms d) \<and> (n', v') \<in> set (textured_uniforms (fst (textured_render d (r, w)))) \<longrightarrow>
        uniforms_after (added w (snd (textured_render d (r, w)))) st (uniform_location d n') = Some v')"
proof -
  have a: "n \<notin> set (active_uniforms d) \<Longrightarrow> uniform_location d n = - 1"
    by (simp add: uniform_location_absent)
  show ?thesis
    using a
    by (simp add: phong_render_no_cerr textured_render_no_cerr phong_render_uniforms
          textured_render_uniforms foldl_store_lookup phong_uniforms_distinct textured_uniforms_distinct)
qed

lemma lightPos_free_locations:
  "''lightPos'' \<notin> set (active_uniforms lightPos_free_driver)
   \<and> ''objectColor'' \<in> set (active_uniforms lightPos_free_driver)
   \<and> uniform_location lightPos_free_driver ''objectColor'' = 4"
  by (simp add: lightPos_free_driver_def good_driver_def uniform_location_def)

theorem absent_uniform_is_silent_noop_witness:
  "''lightPos'' \<notin> set (active_uniforms lightPos_free_driver)
   \<and> uniform_location lightPos_free_driver ''lightPos'' = - 1
   \<and> gl_uniform (PROG (glUniform3fv (uniform_location lightPos_free_driver ''lightPos'') (Vec3 2 2 2)))
        Map.empty = Map.empty
   \<and> cerr_lines (added (snd phong_ready) (snd (phong_render lightPos_free_driver (fst phong_ready, snd phong_ready)))) = []
   \<and> ''objectColor'' \<in> set (active_uniforms lightPos_free_driver)
   \<and> uniform_location lightPos_free_driver ''objectColor'' = 4
   \<and> uniforms_after (added (snd phong_ready) (snd (phong_render lightPos_free_driver (fst phong_ready, snd phong_ready))))
        Map.empty (uniform_location lightPos_free_driver ''objectColor'')
       = Some (UVec3 (objectColor (fst (phong_render lightPos_free_driver (fst phong_ready, snd phong_ready)))))"
proof -
  let ?r' = "fst (phong_render lightPos_free_driver (fst phong_ready, snd phong_ready))"
  note t = absent_uniform_is_silent_noop
          [of "''lightPos''" lightPos_free_driver identity4 Map.empty "Vec3 2 2 2" "snd phong_ready"
              "fst phong_ready" "''objectColor''" "UVec3 (objectColor ?r')"]
  have m: "(''objectColor'', UVec3 (objectColor ?r')) \<in> set (phong_uniforms ?r')"
    by (simp add: phong_uniforms_def)
  show ?thesis
    using t m lightPos_free_locations by blast
qed

subsection \<open>Releasing handles\<close>

lemma releases_append: "releases (xs @ ys) = releases xs @ releases ys"
  by (induction xs rule: releases.induct) auto

lemma releases_hints: "releases (replicate n (GLFW glfwWindowHint)) = []"
  by (induction n) auto

text \<open>
  C5 holds for the plain variants and fails in \<open>PhongTriangleRenderer\<close> (and in the same
  way in \<open>TexturedTriangleRenderer\<close>). On a driver on which \<open>glfwInit\<close> fails no handle is
  ever created. \<open>SimpleTriangleRenderer\<close> then releases nothing: its handles are zero and
  every release is guarded, and \<open>main\<close> returns \<open>-1\<close>. \<open>PhongTriangleRenderer\<close> leaves
  its handles uninitialised and its \<open>cleanup\<close>, called by the destructor when \<open>main\<close>
  returns, releases them unguarded: the first release, \<open>glDeleteVertexArrays\<close>, is a
  call through an entry point that GLAD never loaded, and the run ends there instead of
  returning \<open>-1\<close>. After a successful start and a close, each handle is released
  exactly once.
\<close>
theorem phong_cleanup_after_failed_init_calls_unloaded_gl:
  "trace (snd (phong_main storage no_glfw_driver [quiet_frame])) =
     [GLFW (glfwInit False), HOST (print Cerr ''Failed to initialize GLFW''),
      HOST (print Cerr ''Failed to initialize renderer''),
      GL (glDeleteVertexArrays (VAO storage))]
   \<and> fst (phong_main storage no_glfw_driver [quiet_frame]) = Faulted
   \<and> unloaded_call False (trace (snd (phong_main storage no_glfw_driver [quiet_frame])))
   \<and> fst (textured_main storage no_glfw_driver [quiet_frame]) = Faulted
   \<and> unloaded_call False (trace (snd (textured_main storage no_glfw_driver [quiet_frame])))
   \<and> trace (snd (simple_main storage no_glfw_driver [quiet_frame])) =
     [GLFW (glfwInit False), HOST (print Cerr ''Failed to initialize GLFW''),
      HOST (print Cerr ''Failed to initialize renderer'')]
   \<and> fst (simple_main storage no_glfw_driver [quiet_frame]) = Exited (- 1)
   \<and> \<not> unloaded_call False (trace (snd (simple_main storage no_glfw_driver [quiet_frame])))
   \<and> fst (triangle_main storage no_glfw_driver [quiet_frame]) = Exited (- 1)
   \<and> \<not> unloaded_call False (trace (snd (triangle_main storage no_glfw_driver [quiet_frame])))
   \<and> releases (trace (snd (phong_main storage good_driver [close_frame]))) =
     [GL (glDeleteVertexArrays 1), GL (glDeleteBuffers 1), PROG (glDeleteProgram 3)]
   \<and> releases (trace (snd (simple_main storage good_driver [close_frame]))) =
     [GL (glDeleteVertexArrays 1), GL (glDeleteBuffers 1), PROG (glDeleteProgram 3)]"
proof -
  have p: "phong_main storage no_glfw_driver [quiet_frame] =
     (Faulted, world0\<lparr>trace := [GLFW (glfwInit False), HOST (print Cerr ''Failed to initialize GLFW''),
      HOST (print Cerr ''Failed to initialize renderer''),
      GL (glDeleteVertexArrays (VAO storage))]\<rparr>)"
    by (simp add: phong_main_def finish_def phong_init_def init_start_def Let_def phong_cleanup_def
          no_glfw_driver_def good_driver_def PhongTriangleRenderer_def world0_def emit_def emits_def)
  have t: "textured_main storage no_glfw_driver [quiet_frame] =
     (Faulted, world0\<lparr>trace := [GLFW (glfwInit False), HOST (print Cerr ''Failed to initialize GLFW''),
      HOST (print Cerr ''Failed to initialize renderer''),
      GL (glDeleteVertexArrays (VAO storage))]\<rparr>)"
    by (simp add: textured_main_def finish_def textured_init_def init_start_def Let_def textured_cleanup_def
          no_glfw_driver_def good_driver_def TexturedTriangleRenderer_def world0_def emit_def emits_def)
  have s: "simple_main storage no_glfw_driver [quiet_frame] =
     (Exited (- 1), world0\<lparr>trace := [GLFW (glfwInit False), HOST (print Cerr ''Failed to initialize GLFW''),
      HOST (print Cerr ''Failed to initialize renderer'')]\<rparr>)"
    by (simp add: simple_main_def finish_def simple_init_def init_start_def Let_def simple_cleanup_def
          no_glfw_driver_def good_driver_def SimpleTriangleRenderer_def world0_def emit_def emits_def)
  have d: "triangle_main storage no_glfw_driver [quiet_frame] =
     (Exited (- 1), world0\<lparr>trace := [GLFW (glfwInit False), HOST (print Cerr ''Failed to initialize GLFW''),
      HOST (print Cerr ''Failed to initialize renderer'')]\<rparr>)"
    by (simp add: triangle_main_def finish_def triangle_init_def init_start_def Let_def triangle_cleanup_def
          no_glfw_driver_def good_driver_def TriangleRenderer_def world0_def emit_def emits_def)
  have rp: "releases (trace (snd (phong_main storage good_driver [close_frame]))) =
     [GL (glDeleteVertexArrays 1), GL (glDeleteBuffers 1), PROG (glDeleteProgram 3)]"
    by (simp add: phong_main_def finish_def phong_init_def init_start_def phong_createShaders_def
        createShaders_def
        phong_setupBuffers_def Let_def phong_iteration_def phong_render_def
        phong_processInput_def color_key_def escape_key_def set_objectColor_def poll_events_def
        phong_cleanup_def emit_def emits_def world0_def close_frame_def no_keys_def
        good_driver_def PhongTriangleRenderer_def storage_def releases_append releases_hints
        unloaded_call_hints unloaded_call_loaded)
  have rs: "releases (trace (snd (simple_main storage good_driver [close_frame]))) =
     [GL (glDeleteVertexArrays 1), GL (glDeleteBuffers 1), PROG (glDeleteProgram 3)]"
    by (simp add: simple_main_def finish_def simple_init_def init_start_def simple_createShaders_def
        createShaders_def
        simple_setupBuffers_def Let_def simple_iteration_def simple_render_def simple_run_def
        escape_key_def poll_events_def
        simple_cleanup_def emit_def emits_def world0_def close_frame_def no_keys_def
        good_driver_def SimpleTriangleRenderer_def storage_def releases_append releases_hints
        unloaded_call_hints unloaded_call_loaded)
  show ?thesis
    by (simp add: p t s d rp rs world0_def)
qed

subsection \<open>The Phong fragment shader at grazing incidence\<close>

lemma reflect_perpendicular: "dot n l = 0 \<Longrightarrow> reflect (neg l) n = neg l"
  by (cases n; cases l) (simp add: reflect_def neg_def dot_def vsub_def scale_def)

lemma dot_neg_right: "dot v (neg l) = - dot v l"
  by (cases v; cases l) (simp add: dot_def neg_def)

lemma scale_zero: "scale 0 v = Vec3 0 0 0"
  by (cases v) (simp add: scale_def)

lemma vadd_zero: "vadd v (Vec3 0 0 0) = v"
  by (cases v) (simp add: vadd_def)

text \<open>
  C1, as the claim states it, fails: a fragment at the origin with normal \<open>(0, 0, 1)\<close>, the
  light at \<open>(1, 0, 0)\<close> and the viewer at \<open>(-1, 0, 0)\<close>, white light on a white object. The
  normal is perpendicular to the light direction and the diffuse term is zero, but the
  reflected direction points at the viewer, the specular term is \<open>0.5 * lightColor\<close>, and
  the colour is \<open>0.6\<close> per channel instead of the ambient \<open>0.1\<close>.
\<close>
theorem grazing_light_specular_counterexample:
  "dot (norm_frag grazing_fragment) (lightDir grazing_fragment) = 0
   \<and> diffuse grazing_fragment = Vec3 0 0 0
   \<and> specular grazing_fragment = Vec3 (1/2) (1/2) (1/2)
   \<and> FragColor grazing_fragment = Vec4 (6/10) (6/10) (6/10) 1
   \<and> ambient_only grazing_fragment = Vec4 (1/10) (1/10) (1/10) 1
   \<and> FragColor grazing_fragment \<noteq> ambient_only grazing_fragment"
  by (simp add: grazing_fragment_def norm_frag_def lightDir_def viewDir_def normalize_def diffuse_def
        specular_def spec_def reflectDir_def reflect_def ambient_def FragColor_def ambient_only_def
        dot_def vsub_def vadd_def vmul_def scale_def neg_def)

text \<open>
  C1, amended. At a fragment where the normal is not the zero vector, the light and the
  viewer are not at the fragment itself (so that the three \<open>normalize\<close> calls are
  defined) and the normalised normal is perpendicular to the normalised light direction,
  the diffuse term is exactly zero and the reflected direction is the reversed light
  direction, so the specular factor is
  \<open>max(-dot(viewDir, lightDir), 0)\<close> to the power 32. For the viewer positions with
  \<open>dot(viewDir, lightDir) \<ge> 0\<close> the specular term is exactly zero as well and the final
  colour is ambient alone, \<open>0.1 * lightColor * objectColor\<close> with alpha 1.
\<close>
theorem grazing_light_diffuse_zero_specular_by_viewer:
  assumes "Normal i \<noteq> Vec3 0 0 0" and "u_lightPos i \<noteq> FragPos i" and "u_viewPos i \<noteq> FragPos i"
    and "dot (norm_frag i) (lightDir i) = 0"
  shows "diffuse i = Vec3 0 0 0
       \<and> reflectDir i = neg (lightDir i)
       \<and> spec i = (max (- dot (viewDir i) (lightDir i)) 0) ^ 32
       \<and> (0 \<le> dot (viewDir i) (lightDir i) \<longrightarrow>
            specular i = Vec3 0 0 0 \<and> FragColor i = ambient_only i)"
proof -
  have d: "diffuse i = Vec3 0 0 0"
    using assms(4) by (simp add: diffuse_def scale_zero)
  have r: "reflectDir i = neg (lightDir i)"
    using assms(4) by (simp add: reflectDir_def reflect_perpendicular)
  have s: "spec i = (max (- dot (viewDir i) (lightDir i)) 0) ^ 32"
    by (simp add: spec_def r dot_neg_right)
  have z: "specular i = Vec3 0 0 0" if "0 \<le> dot (viewDir i) (lightDir i)"
    using that by (simp add: specular_def s max_def scale_zero)
  have c: "FragColor i = ambient_only i" if "0 \<le> dot (viewDir i) (lightDir i)"
    using z [OF that] by (simp add: FragColor_def ambient_only_def d vadd_zero ambient_def)
  show ?thesis using d r s z c by simp
qed

theorem grazing_light_diffuse_zero_specular_by_viewer_witness:
  "Normal grazing_fragment_from_above \<noteq> Vec3 0 0 0
   \<and> u_lightPos grazing_fragment_from_above \<noteq> FragPos grazing_fragment_from_above
   \<and> u_viewPos grazing_fragment_from_above \<noteq> FragPos grazing_fragment_from_above
   \<and> dot (norm_frag grazing_fragment_from_above) (lightDir grazing_fragment_from_above) = 0
   \<and> 0 \<le> dot (viewDir grazing_fragment_from_above) (lightDir grazing_fragment_from_above)
   \<and> diffuse grazing_fragment_from_above = Vec3 0 0 0
   \<and> specular grazing_fragment_from_above = Vec3 0 0 0
   \<and> FragColor grazing_fragment_from_above = ambient_only grazing_fragment_from_above"
proof -
  have h: "dot (norm_frag grazing_fragment_from_above) (lightDir grazing_fragment_from_above) = 0"
    by (simp add: grazing_fragment_from_above_def grazing_fragment_def norm_frag_def lightDir_def
          normalize_def dot_def vsub_def scale_def)
  have v: "0 \<le> dot (viewDir grazing_fragment_from_above) (lightDir grazing_fragment_from_above)"
    by (simp add: grazing_fragment_from_above_def grazing_fragment_def viewDir_def lightDir_def
          normalize_def dot_def vsub_def scale_def)
  have n: "Normal grazing_fragment_from_above \<noteq> Vec3 0 0 0"
    and l: "u_lightPos grazing_fragment_from_above \<noteq> FragPos grazing_fragment_from_above"
    and e: "u_viewPos grazing_fragment_from_above \<noteq> FragPos grazing_fragment_from_above"
    by (simp_all add: grazing_fragment_from_above_def grazing_fragment_def)
  show ?thesis
    using n l e h v grazing_light_diffuse_zero_specular_by_viewer [OF n l e h] by simp
qed

subsection \<open>Rotation: rounding to binary32\<close>

lemma round_half_even_of_int: "round_half_even (of_int m) = m"
  by (simp add: round_half_even_def)

lemma round_half_even_lower: "of_int a \<le> q \<Longrightarrow> a \<le> round_half_even q"
proof -
  assume "of_int a \<le> q"
  then have "a \<le> \<lfloor>q\<rfloor>" by (simp add: le_floor_iff)
  then show ?thesis by (simp add: round_half_even_def Let_def)
qed

lemma round_half_even_upper: "q \<le> of_int b \<Longrightarrow> round_half_even q \<le> b"
proof -
  assume b: "q \<le> of_int b"
  have f: "\<lfloor>q\<rfloor> \<le> b" using b by (simp add: floor_le_iff) 
  show ?thesis
  proof (cases "q = of_int \<lfloor>q\<rfloor>")
    case True
    then have "q - of_int \<lfloor>q\<rfloor> < 1 / 2" by simp
    then show ?thesis using f by (simp add: round_half_even_def Let_def)
  next
    case False
    then have "of_int \<lfloor>q\<rfloor> < q" by (metis of_int_floor_le order_less_le)
    then have "of_int \<lfloor>q\<rfloor> < (of_int b :: real)" using b by linarith
    then have "\<lfloor>q\<rfloor> < b" by simp
    then show ?thesis by (simp add: round_half_even_def Let_def)
  qed
qed

lemma round_half_even_minus: "round_half_even (- q) = - round_half_even q"
proof (cases "q = of_int \<lfloor>q\<rfloor>")
  case True
  then obtain m :: int where "q = of_int m" by metis
  then have "round_half_even (- q) = round_half_even (of_int (- m))" by simp
  also have "\<dots> = - m" by (rule round_half_even_of_int)
  finally show ?thesis using \<open>q = of_int m\<close> by (simp add: round_half_even_of_int)
next
  case False
  let ?f = "\<lfloor>q\<rfloor>"
  have lt: "of_int ?f < q" using False by (metis of_int_floor_le order_less_le)
  have ub: "q < of_int ?f + 1" by linarith
  have "real_of_int (- ?f - 1) \<le> - q"
    using lt by (simp; linarith)
  moreover have "- q < real_of_int (- ?f - 1) + 1"
    using lt by (simp; linarith?)
  ultimately have fl: "\<lfloor>- q\<rfloor> = - ?f - 1"
    by (rule floor_unique)
  have ev: "even (- ?f - 1) \<longleftrightarrow> odd ?f" by simp
  show ?thesis
    using lt ub unfolding round_half_even_def Let_def fl ev
    by (auto simp add: field_simps)
qed

lemma fl32_zero: "fl32 0 = 0"
  by (simp add: fl32_def)

lemma fl32_minus: "fl32 (- x) = - fl32 x"
  by (simp add: fl32_def Let_def round_half_even_minus)

lemma powr_int_add: "2 powr real_of_int (e + int k) = 2 ^ k * 2 powr real_of_int e"
proof -
  have "2 powr real_of_int (e + int k) = 2 powr (real_of_int e + real k)" by simp
  also have "\<dots> = 2 powr real_of_int e * 2 powr real k" by (rule powr_add)
  also have "\<dots> = 2 ^ k * 2 powr real_of_int e" by (simp add: powr_realpow)
  finally show ?thesis .
qed

lemma powr_int_add':
  "k = e + int j \<Longrightarrow> 2 powr real_of_int k = 2 ^ j * 2 powr real_of_int e"
  by (simp only: powr_int_add)

lemma fl32_representable:
  assumes "2 ^ 23 \<le> m" "m \<le> 2 ^ 24"
  shows "fl32 (real_of_int m * 2 powr real_of_int e) = real_of_int m * 2 powr real_of_int e"
proof -
  let ?p = "2 powr real_of_int e"
  let ?y = "real_of_int m * ?p"
  have p: "0 < ?p" by simp
  have m: "(2::real) ^ 23 \<le> real_of_int m" "real_of_int m \<le> 2 ^ 24"
    using assms by (metis of_int_le_iff of_int_numeral of_int_power)+
  have y: "0 < ?y" using m(1) p by (smt (verit) mult_pos_pos zero_less_power)
  show ?thesis
  proof (cases "m < 2 ^ 24")
    case True
    then have m2: "real_of_int m < 2 ^ 24"
      by (metis of_int_less_iff of_int_numeral of_int_power)
    have k23: "2 powr real_of_int (e + 23) = 2 ^ 23 * ?p"
      by (rule powr_int_add') simp
    have k24: "2 powr real_of_int (e + 23 + 1) = 2 ^ 24 * ?p"
      by (rule powr_int_add') simp
    have "2 ^ 23 * ?p \<le> ?y" using m(1) p by (intro mult_right_mono) simp_all
    then have lo: "2 powr real_of_int (e + 23) \<le> ?y" by (simp only: k23)
    have "?y < 2 ^ 24 * ?p" using m2 p by (intro mult_strict_right_mono) simp_all
    then have hi: "?y < 2 powr real_of_int (e + 23 + 1)" by (simp only: k24)
    have "\<lfloor>log 2 ?y\<rfloor> = e + 23"
      using floor_log_eq_powr_iff [of ?y 2 "e + 23"] y lo hi by simp
    then have l: "\<lfloor>log 2 \<bar>?y\<bar>\<rfloor> - 23 = e" using y by simp
    have q: "?y / ?p = real_of_int m" by simp
    have nz: "?y \<noteq> 0" using y by linarith
    have "fl32 ?y = real_of_int (round_half_even (?y / ?p)) * ?p"
      using nz by (simp only: fl32_def Let_def l if_False)
    then show ?thesis by (simp only: q round_half_even_of_int)
  next
    case False
    then have me: "m = 2 ^ 24" using assms(2) by simp
    have ye: "?y = 2 ^ 24 * ?p" by (simp add: me)
    have k24: "2 powr real_of_int (e + 24) = 2 ^ 24 * ?p"
      by (rule powr_int_add') simp
    have k25: "2 powr real_of_int (e + 24 + 1) = 2 ^ 25 * ?p"
      by (rule powr_int_add') simp
    have lo: "2 powr real_of_int (e + 24) \<le> ?y" by (simp only: k24 ye)
    have "(2::real) ^ 24 * ?p < 2 ^ 25 * ?p" using p by (intro mult_strict_right_mono) simp_all
    then have hi: "?y < 2 powr real_of_int (e + 24 + 1)" by (simp only: k25 ye)
    have "\<lfloor>log 2 ?y\<rfloor> = e + 24"
      using floor_log_eq_powr_iff [of ?y 2 "e + 24"] y lo hi by simp
    then have l: "\<lfloor>log 2 \<bar>?y\<bar>\<rfloor> - 23 = e + 1" using y by simp
    have "2 powr real_of_int (e + 1) = 2 ^ 1 * ?p" by (rule powr_int_add') simp
    then have p1: "2 powr real_of_int (e + 1) = 2 * ?p" by simp
    have q: "?y / (2 * ?p) = real_of_int (2 ^ 23)" by (simp add: ye)
    have nz: "?y \<noteq> 0" using y by linarith
    have "fl32 ?y = real_of_int (round_half_even (?y / (2 * ?p))) * (2 * ?p)"
      using nz by (simp only: fl32_def Let_def l if_False p1)
    then have "fl32 ?y = real_of_int (2 ^ 23) * (2 * ?p)"
      by (simp only: q round_half_even_of_int)
    then show ?thesis by (simp add: ye)
  qed
qed

lemma fl32_pos_form:
  assumes "0 < x"
  shows "\<exists>m e. fl32 x = real_of_int m * 2 powr real_of_int e \<and> 2 ^ 23 \<le> m \<and> m \<le> 2 ^ 24"
proof -
  let ?e = "\<lfloor>log 2 \<bar>x\<bar>\<rfloor> - 23"
  let ?p = "2 powr real_of_int ?e"
  let ?m = "round_half_even (x / ?p)"
  have p: "0 < ?p" by simp
  have ax: "\<bar>x\<bar> = x" using assms by simp
  have b: "2 powr real_of_int \<lfloor>log 2 x\<rfloor> \<le> x \<and> x < 2 powr real_of_int (\<lfloor>log 2 x\<rfloor> + 1)"
    using floor_log_eq_powr_iff [of x 2 "\<lfloor>log 2 x\<rfloor>"] assms by simp
  have e1: "2 powr real_of_int \<lfloor>log 2 x\<rfloor> = 2 ^ 23 * ?p"
    by (rule powr_int_add') (simp add: ax)
  have e2: "2 powr real_of_int (\<lfloor>log 2 x\<rfloor> + 1) = 2 ^ 24 * ?p"
    by (rule powr_int_add') (simp add: ax)
  have "2 ^ 23 * ?p \<le> x" using b e1 by simp
  then have lo: "real_of_int (2 ^ 23) \<le> x / ?p" using p by (simp add: pos_le_divide_eq)
  have "x < 2 ^ 24 * ?p" using b e2 by simp
  then have hi: "x / ?p \<le> real_of_int (2 ^ 24)" using p by (simp add: pos_divide_le_eq)
  have "fl32 x = real_of_int ?m * ?p"
    using assms by (simp add: fl32_def Let_def)
  moreover have "2 ^ 23 \<le> ?m" using lo by (rule round_half_even_lower)
  moreover have "?m \<le> 2 ^ 24" using hi by (rule round_half_even_upper)
  ultimately show ?thesis by blast
qed

lemma fl32_idem: "fl32 (fl32 x) = fl32 x"
proof -
  have pos: "fl32 (fl32 y) = fl32 y" if yp: "0 < y" for y
  proof -
    obtain m e where "fl32 y = real_of_int m * 2 powr real_of_int e" "2 ^ 23 \<le> m" "m \<le> 2 ^ 24"
      using fl32_pos_form [OF yp] by blast
    then show ?thesis using fl32_representable [of m e] by simp
  qed
  consider "0 < x" | "x = 0" | "0 < - x" by linarith
  then show ?thesis
  proof cases
    case 1
    then show ?thesis by (rule pos)
  next
    case 2
    then show ?thesis by (simp add: fl32_zero)
  next
    case 3
    have "fl32 (fl32 x) = - fl32 (fl32 (- x))" by (simp add: fl32_minus)
    also have "\<dots> = - fl32 (- x)" by (simp only: pos [OF 3])
    also have "\<dots> = fl32 x" by (simp add: fl32_minus)
    finally show ?thesis .
  qed
qed

lemma fl32_one: "fl32 1 = 1"
proof -
  have "fl32 (real_of_int (2 ^ 23) * 2 powr real_of_int (- 23)) = real_of_int (2 ^ 23) * 2 powr real_of_int (- 23)"
    by (rule fl32_representable) simp_all
  moreover have "real_of_int (2 ^ 23) * 2 powr real_of_int (- 23) = 1"
    by (simp add: powr_minus_divide)
  ultimately show ?thesis by simp
qed


lemma rotate4_about_y: "rotate4 d identity4 a (Vec3 0 1 0) = rounded_rotation_about_y d a"
  by (simp add: rotate4_def identity4_def fnormalize_def fdot_def inversesqrt_def fscale_def scale4_def
        add4_def fadd_def fsub_def fmul_def fdiv_def fsqrt_def cosf_def sinf_def
        rounded_rotation_about_y_def Let_def fl32_zero fl32_one fl32_idem fl32_minus)


lemma round_half_even_error: "\<bar>real_of_int (round_half_even q) - q\<bar> \<le> 1 / 2"
proof -
  let ?f = "\<lfloor>q\<rfloor>"
  have lo: "real_of_int ?f \<le> q" and hi: "q < real_of_int ?f + 1" by linarith+
  consider (a) "q - real_of_int ?f < 1 / 2" | (b) "1 / 2 < q - real_of_int ?f" | (c) "q - real_of_int ?f = 1 / 2"
    by linarith
  then show ?thesis
  proof cases
    case a
    then have "round_half_even q = ?f" by (simp add: round_half_even_def Let_def)
    then show ?thesis using lo a by (simp only: abs_if) (simp; linarith)
  next
    case b
    then have "round_half_even q = ?f + 1" by (simp add: round_half_even_def Let_def)
    then show ?thesis using hi b by (simp only: abs_if) (simp; linarith)
  next
    case c
    then have "round_half_even q = ?f \<or> round_half_even q = ?f + 1"
      by (simp add: round_half_even_def Let_def)
    then have "real_of_int (round_half_even q) = real_of_int ?f
             \<or> real_of_int (round_half_even q) = real_of_int ?f + 1"
      by auto
    then have "real_of_int (round_half_even q) - q = - (1 / 2) \<or> real_of_int (round_half_even q) - q = 1 / 2"
      using c by linarith
    then show ?thesis by auto
  qed
qed

lemma fl32_error:
  assumes "\<bar>x\<bar> \<le> 1"
  shows "\<bar>fl32 x - x\<bar> \<le> 1 / 2 ^ 24"
proof (cases "x = 0")
  case True
  then show ?thesis by (simp add: fl32_zero)
next
  case False
  let ?e = "\<lfloor>log 2 \<bar>x\<bar>\<rfloor> - 23"
  let ?p = "2 powr real_of_int ?e"
  let ?q = "x / ?p"
  have p: "0 < ?p" by simp
  have "log 2 \<bar>x\<bar> \<le> 0" using assms False by simp
  then have "\<lfloor>log 2 \<bar>x\<bar>\<rfloor> \<le> 0" by (simp add: floor_le_iff)
  then have "real_of_int ?e \<le> - 23" by simp
  then have "?p \<le> 2 powr (- 23)" by (simp only: powr_le_cancel_iff) 
  also have "\<dots> = 1 / 2 ^ 23" by (simp add: powr_minus_divide)
  finally have pb: "?p \<le> 1 / 2 ^ 23" .
  have f: "fl32 x = real_of_int (round_half_even ?q) * ?p"
    using False by (simp add: fl32_def Let_def)
  have "fl32 x - x = (real_of_int (round_half_even ?q) - ?q) * ?p"
    using p by (simp add: f left_diff_distrib)
  then have "\<bar>fl32 x - x\<bar> = \<bar>real_of_int (round_half_even ?q) - ?q\<bar> * ?p"
    using p by (simp add: abs_mult)
  also have "\<dots> \<le> (1 / 2) * (1 / 2 ^ 23)"
    using round_half_even_error [of ?q] pb p by (intro mult_mono) simp_all
  finally show ?thesis by simp
qed

lemma cos_upper:
  fixes x :: real
  assumes "0 < x"
  shows "cos x \<le> 1 - x\<^sup>2 / 2 + x ^ 4 / 24"
proof -
  obtain t where t: "cos x = (\<Sum>m<4. cos_coeff m * x ^ m) + (cos (t + 1 / 2 * real 4 * pi) / fact 4) * x ^ 4"
    using Maclaurin_cos_expansion2 [OF assms, of 4] by auto
  have "(\<Sum>m<4. cos_coeff m * x ^ m)
          = cos_coeff 0 * x ^ 0 + cos_coeff 1 * x ^ 1 + cos_coeff 2 * x ^ 2 + cos_coeff 3 * x ^ 3"
    by (simp add: eval_nat_numeral)
  moreover have "cos_coeff 1 = 0" "cos_coeff 2 = - 1 / 2" "cos_coeff 3 = 0"
    by (simp_all add: cos_coeff_def)
  ultimately have s: "(\<Sum>m<4. cos_coeff m * x ^ m) = 1 - x\<^sup>2 / 2"
    by simp
  have c: "cos (t + 1 / 2 * real 4 * pi) = cos t"
    using cos_periodic [of t] by (simp add: add.commute)
  have "cos t * x ^ 4 \<le> 1 * x ^ 4"
    by (intro mult_right_mono) simp_all
  then have "(cos t / fact 4) * x ^ 4 \<le> x ^ 4 / 24"
    by (simp add: fact_numeral)
  then show ?thesis using t by (simp only: s c)
qed

lemma rounded_rotation_differs:
  assumes "libm_cos d = cos" "libm_sin d = sin" "b < a"
    and "1 / 2 ^ 48 < (a - b)\<^sup>2 / 2 - (a - b) ^ 4 / 24"
  shows "rounded_rotation_about_y d a \<noteq> rotation_about_y b"
proof
  assume "rounded_rotation_about_y d a = rotation_about_y b"
  then have cs: "fl32 (cos a) = cos b" "fl32 (sin a) = sin b"
    using assms(1,2) by (simp_all add: rounded_rotation_about_y_def rotation_about_y_def cosf_def sinf_def Let_def)
  have "\<bar>fl32 (cos a) - cos a\<bar> \<le> 1 / 2 ^ 24" by (rule fl32_error) simp
  then have "\<bar>cos b - cos a\<bar> \<le> 1 / 2 ^ 24" by (simp only: cs)
  then have "(cos b - cos a)\<^sup>2 \<le> (1 / 2 ^ 24)\<^sup>2"
    by (metis abs_le_square_iff abs_of_nonneg zero_le_divide_1_iff zero_le_numeral zero_le_power) 
  then have c2: "(cos b - cos a)\<^sup>2 \<le> 1 / 2 ^ 48" by (simp add: power_divide)
  have "\<bar>fl32 (sin a) - sin a\<bar> \<le> 1 / 2 ^ 24" by (rule fl32_error) simp
  then have "\<bar>sin b - sin a\<bar> \<le> 1 / 2 ^ 24" by (simp only: cs)
  then have "(sin b - sin a)\<^sup>2 \<le> (1 / 2 ^ 24)\<^sup>2"
    by (metis abs_le_square_iff abs_of_nonneg zero_le_divide_1_iff zero_le_numeral zero_le_power) 
  then have s2: "(sin b - sin a)\<^sup>2 \<le> 1 / 2 ^ 48" by (simp add: power_divide)
  have "(cos b - cos a)\<^sup>2 + (sin b - sin a)\<^sup>2
        = ((cos a)\<^sup>2 + (sin a)\<^sup>2) + ((cos b)\<^sup>2 + (sin b)\<^sup>2) - 2 * (cos a * cos b + sin a * sin b)"
    by (simp add: power2_eq_square algebra_simps)
  also have "\<dots> = 2 - 2 * cos (a - b)"
    by (simp only: cos_diff sin_cos_squared_add2)
  finally have "2 - 2 * cos (a - b) \<le> 2 / 2 ^ 48" using c2 s2 by simp
  then have "1 - cos (a - b) \<le> 1 / 2 ^ 48" by simp
  moreover have "cos (a - b) \<le> 1 - (a - b)\<^sup>2 / 2 + (a - b) ^ 4 / 24"
    by (rule cos_upper) (use assms(3) in simp)
  ultimately show False using assms(4) by linarith
qed

lemma floor_log2_scaled:
  assumes "2 ^ (23 + j) \<le> n" "n < 2 ^ (24 + j)"
  shows "\<lfloor>log 2 \<bar>real_of_int n / 2 ^ 30\<bar>\<rfloor> = int j - 7"
proof -
  let ?x = "real_of_int n / 2 ^ 30"
  have n: "(2::real) ^ (23 + j) \<le> real_of_int n" "real_of_int n < 2 ^ (24 + j)"
    using assms by (metis of_int_le_iff of_int_numeral of_int_power, metis of_int_less_iff of_int_numeral of_int_power)
  have pos: "0 < ?x" using n(1) by (smt (verit) divide_pos_pos zero_less_power)
  have lo: "2 powr real_of_int (int j - 7) \<le> ?x"
  proof -
    have "2 powr real_of_int (int j - 7) = 2 ^ (23 + j) / 2 ^ 30"
      by (simp add: powr_diff powr_realpow power_add)
    also have "\<dots> \<le> ?x" using n(1) by (simp add: divide_right_mono)
    finally show ?thesis .
  qed
  have hi: "?x < 2 powr real_of_int (int j - 7 + 1)"
  proof -
    have "2 powr real_of_int (int j - 7 + 1) = 2 ^ (24 + j) / 2 ^ 30"
      by (simp add: powr_diff powr_realpow power_add)
    moreover have "?x < 2 ^ (24 + j) / 2 ^ 30" using n(2) by (simp add: divide_strict_right_mono)
    ultimately show ?thesis by simp
  qed
  have "\<lfloor>log 2 ?x\<rfloor> = int j - 7"
    using floor_log_eq_powr_iff [of ?x 2 "int j - 7"] pos lo hi by simp
  then show ?thesis using pos by simp
qed

declare shift24.simps [simp del]

lemma shift24_bounds_mult:
  "2 ^ 23 \<le> n \<Longrightarrow> 2 ^ 23 * 2 ^ shift24 n \<le> n \<and> n < 2 ^ 24 * 2 ^ shift24 n"
proof (induction n rule: shift24.induct)
  case (1 n)
  show ?case
  proof (cases "n < 2 ^ 24")
    case True
    then show ?thesis using "1.prems" by (simp add: shift24.simps [of n])
  next
    case False
    then have h: "2 ^ 23 \<le> n div 2" by simp
    have ih: "2 ^ 23 * 2 ^ shift24 (n div 2) \<le> n div 2 \<and> n div 2 < 2 ^ 24 * 2 ^ shift24 (n div 2)"
      using "1.IH" [OF False h] .
    have s: "shift24 n = Suc (shift24 (n div 2))" using False by (simp add: shift24.simps [of n])
    have "2 * (2 ^ 23 * 2 ^ shift24 (n div 2)) \<le> n" using ih by linarith
    moreover have "n < 2 * (2 ^ 24 * 2 ^ shift24 (n div 2))" using ih by linarith
    ultimately show ?thesis unfolding s power_Suc by (simp only: mult.left_commute) 
  qed
qed

lemma shift24_bounds:
  "2 ^ 23 \<le> n \<Longrightarrow> 2 ^ (23 + shift24 n) \<le> n \<and> n < 2 ^ (24 + shift24 n)"
  using shift24_bounds_mult [of n] by (simp only: power_add)

lemma round_half_even_scaled: "round_half_even (real_of_int n / 2 ^ j) = rne_int n j"
proof -
  let ?q = "n div 2 ^ j" and ?r = "n mod 2 ^ j"
  have f: "\<lfloor>real_of_int n / 2 ^ j\<rfloor> = ?q"
    using floor_divide_of_int_eq [of n "2 ^ j", where ?'a = real] by simp
  have "real_of_int n = real_of_int (?q * 2 ^ j + ?r)"
    by (simp only: div_mult_mod_eq)
  then have "real_of_int n = real_of_int ?q * 2 ^ j + real_of_int ?r"
    by (simp only: of_int_add of_int_mult of_int_power of_int_numeral)
  then have d: "real_of_int n / 2 ^ j - real_of_int ?q = real_of_int ?r / 2 ^ j"
    by (simp add: field_simps)
  have lt: "real_of_int ?r / 2 ^ j < 1 / 2 \<longleftrightarrow> 2 * ?r < 2 ^ j"
  proof -
    have "real_of_int ?r / 2 ^ j < 1 / 2 \<longleftrightarrow> 2 * real_of_int ?r < 2 ^ j"
      by (simp add: field_simps)
    also have "\<dots> \<longleftrightarrow> real_of_int (2 * ?r) < real_of_int (2 ^ j)" by simp
    also have "\<dots> \<longleftrightarrow> 2 * ?r < 2 ^ j" by (simp only: of_int_less_iff)
    finally show ?thesis .
  qed
  have gt: "1 / 2 < real_of_int ?r / 2 ^ j \<longleftrightarrow> 2 ^ j < 2 * ?r"
  proof -
    have "1 / 2 < real_of_int ?r / 2 ^ j \<longleftrightarrow> 2 ^ j < 2 * real_of_int ?r"
      by (simp add: field_simps)
    also have "\<dots> \<longleftrightarrow> real_of_int (2 ^ j) < real_of_int (2 * ?r)" by simp
    also have "\<dots> \<longleftrightarrow> 2 ^ j < 2 * ?r" by (simp only: of_int_less_iff)
    finally show ?thesis .
  qed
  show ?thesis
    by (simp only: round_half_even_def rne_int_def Let_def f d lt gt)
qed

lemma powr_shift: "2 powr real_of_int (int j - 30) = 2 ^ j / 2 ^ 30"
proof -
  have "2 powr real_of_int (int j - 30) = 2 powr (real j - 30)" by simp
  also have "\<dots> = 2 powr real j / 2 powr 30" by (rule powr_diff)
  also have "\<dots> = 2 ^ j / 2 ^ 30" by (simp add: powr_realpow)
  finally show ?thesis .
qed

lemma fl32_scaled:
  assumes "2 ^ 23 \<le> n"
  shows "fl32 (real_of_int n / 2 ^ 30) = real_of_int (rne_int n (shift24 n) * 2 ^ shift24 n) / 2 ^ 30"
proof -
  let ?j = "shift24 n"
  let ?x = "real_of_int n / 2 ^ 30"
  have b: "2 ^ (23 + ?j) \<le> n" "n < 2 ^ (24 + ?j)"
    using shift24_bounds [OF assms] by simp_all
  have l: "\<lfloor>log 2 \<bar>?x\<bar>\<rfloor> - 23 = int ?j - 30"
    using floor_log2_scaled [OF b] by simp
  have "0 < n" using assms by (smt (verit) zero_less_power)
  then have nz: "?x \<noteq> 0" by simp
  have q: "?x / (2 ^ ?j / 2 ^ 30) = real_of_int n / 2 ^ ?j" by simp
  have "fl32 ?x = real_of_int (round_half_even (?x / 2 powr real_of_int (int ?j - 30)))
                    * 2 powr real_of_int (int ?j - 30)"
    using nz by (simp only: fl32_def Let_def l if_False)
  also have "\<dots> = real_of_int (rne_int n ?j) * (2 ^ ?j / 2 ^ 30)"
    by (simp only: powr_shift q round_half_even_scaled)
  also have "\<dots> = real_of_int (rne_int n ?j * 2 ^ ?j) / 2 ^ 30"
    by simp
  finally show ?thesis .
qed

lemma rotation_step_value: "rotation_step = 10737418 / 2 ^ 30"
proof -
  have l: "\<lfloor>log 2 \<bar>1 / 100 :: real\<bar>\<rfloor> = - 7"
    using floor_log_eq_powr_iff [of "1 / 100 :: real" 2 "- 7"]
    by (simp add: powr_minus)
  have p: "2 powr real_of_int (- 7 - 23) = 1 / 2 ^ 30"
    using powr_shift [of 0] by simp
  have nz: "(1 / 100 :: real) \<noteq> 0" by simp
  have r: "round_half_even ((1 / 100) / (1 / 2 ^ 30)) = 10737418"
    by (simp add: round_half_even_def Let_def)
  have "fl32 (1 / 100) = real_of_int (round_half_even ((1 / 100) / 2 powr real_of_int (- 7 - 23)))
          * 2 powr real_of_int (- 7 - 23)"
    using nz by (simp only: fl32_def Let_def l if_False)
  then show ?thesis
    by (simp only: rotation_step_def p r)
qed

lemma rne_int_ge: "n div 2 ^ j \<le> rne_int n j"
  by (simp add: rne_int_def Let_def)

lemma next30_ge:
  assumes "0 \<le> k"
  shows "2 ^ 23 \<le> next30 k"
proof -
  let ?n = "k + 10737418"
  let ?j = "shift24 ?n"
  have n: "2 ^ 23 \<le> ?n" using assms by simp
  have b: "2 ^ 23 * 2 ^ ?j \<le> ?n" using shift24_bounds_mult [OF n] by simp
  have "(2 ^ 23 * 2 ^ ?j) div 2 ^ ?j \<le> ?n div 2 ^ ?j"
    using b by (rule zdiv_mono1) simp
  then have "2 ^ 23 \<le> ?n div 2 ^ ?j" by simp
  then have q: "2 ^ 23 \<le> rne_int ?n ?j" using rne_int_ge [of ?n ?j] by linarith
  have "(1::int) \<le> 2 ^ ?j" by simp
  then have "rne_int ?n ?j * 1 \<le> rne_int ?n ?j * 2 ^ ?j"
    using q by (intro mult_left_mono) simp_all
  then have m: "rne_int ?n ?j \<le> next30 k" by (simp add: next30_def Let_def)
  show ?thesis using q m by linarith
qed

lemma next30_nonneg: "0 \<le> k \<Longrightarrow> 0 \<le> next30 k"
proof -
  assume "0 \<le> k"
  then have "2 ^ 23 \<le> next30 k" by (rule next30_ge)
  moreover have "(0::int) \<le> 2 ^ 23" by simp
  ultimately show ?thesis by (rule_tac order_trans)
qed

lemma advance_scaled:
  assumes "0 \<le> k"
  shows "advance (real_of_int k / 2 ^ 30) = real_of_int (next30 k) / 2 ^ 30"
proof -
  let ?n = "k + 10737418"
  have n: "2 ^ 23 \<le> ?n" using assms by simp
  have "real_of_int k / 2 ^ 30 + rotation_step = real_of_int ?n / 2 ^ 30"
    by (simp add: rotation_step_value add_divide_distrib)
  then have "advance (real_of_int k / 2 ^ 30) = fl32 (real_of_int ?n / 2 ^ 30)"
    by (simp only: advance_def)
  also have "\<dots> = real_of_int (next30 k) / 2 ^ 30"
    using fl32_scaled [OF n] by (simp only: next30_def Let_def)
  finally show ?thesis .
qed

lemma angle30_nonneg: "0 \<le> k \<Longrightarrow> 0 \<le> angle30 n k"
proof (induction n arbitrary: k)
  case 0
  then show ?case by simp
next
  case (Suc n)
  have "0 \<le> next30 k" using Suc.prems by (rule next30_nonneg)
  then show ?case using Suc.IH by simp
qed

lemma advance_funpow:
  "0 \<le> k \<Longrightarrow> (advance ^^ n) (real_of_int k / 2 ^ 30) = real_of_int (angle30 n k) / 2 ^ 30"
proof (induction n arbitrary: k)
  case 0
  then show ?case by simp
next
  case (Suc n)
  have "0 \<le> next30 k" using Suc.prems by (rule next30_nonneg)
  then have ih: "(advance ^^ n) (real_of_int (next30 k) / 2 ^ 30) = real_of_int (angle30 n (next30 k)) / 2 ^ 30"
    by (rule Suc.IH)
  have "(advance ^^ Suc n) (real_of_int k / 2 ^ 30) = (advance ^^ n) (advance (real_of_int k / 2 ^ 30))"
    by (simp only: funpow_Suc_right o_apply)
  also have "\<dots> = (advance ^^ n) (real_of_int (next30 k) / 2 ^ 30)"
    by (simp only: advance_scaled [OF Suc.prems])
  also have "\<dots> = real_of_int (angle30 (Suc n) k) / 2 ^ 30"
    by (simp only: ih angle30.simps)
  finally show ?case .
qed

subsection \<open>Rotation: a thousand frames\<close>

lemma shift24_numeral:
  "shift24 (numeral w) = (if numeral w < (16777216::int) then 0 else Suc (shift24 (numeral w div 2)))"
  by (subst shift24.simps) simp

lemma angle30_numeral: "angle30 (numeral w) k = angle30 (pred_numeral w) (next30 k)"
  by (simp add: numeral_eq_Suc)

lemma next30_numeral:
  "next30 (numeral w) =
     (let n = numeral w + 10737418; j = shift24 n; q = n div 2 ^ j; r = n mod 2 ^ j
      in (if 2 * r < 2 ^ j then q else if 2 ^ j < 2 * r then q + 1 else if even q then q else q + 1) * 2 ^ j)"
  by (simp only: next30_def rne_int_def Let_def)

lemma next30_zero: "next30 0 = 10737418"
  by (simp add: next30_def rne_int_def shift24_numeral Let_def)

lemma angle30_add: "angle30 (m + n) k = angle30 n (angle30 m k)"
  by (induction m arbitrary: k) simp_all

lemma angle30_one: "angle30 1 0 = 10737418"
  by (simp add: next30_zero)

lemma angle30_from_0: "angle30 100 0 = 1073741120"
  by (simp add: angle30_numeral next30_numeral shift24_numeral next30_zero Let_def)

lemma angle30_from_100: "angle30 100 1073741120 = 2147481984"
  by (simp add: angle30_numeral next30_numeral shift24_numeral Let_def)

lemma angle30_from_200: "angle30 100 2147481984 = 3221222912"
  by (simp add: angle30_numeral next30_numeral shift24_numeral Let_def)

lemma angle30_from_300: "angle30 100 3221222912 = 4294963712"
  by (simp add: angle30_numeral next30_numeral shift24_numeral Let_def)

lemma angle30_from_400: "angle30 100 4294963712 = 5368730112"
  by (simp add: angle30_numeral next30_numeral shift24_numeral Let_def)

lemma angle30_from_500: "angle30 100 5368730112 = 6442496512"
  by (simp add: angle30_numeral next30_numeral shift24_numeral Let_def)

lemma angle30_from_600: "angle30 100 6442496512 = 7516262912"
  by (simp add: angle30_numeral next30_numeral shift24_numeral Let_def)

lemma angle30_from_700: "angle30 100 7516262912 = 8590028800"
  by (simp add: angle30_numeral next30_numeral shift24_numeral Let_def)

lemma angle30_from_800: "angle30 100 8590028800 = 9663795200"
  by (simp add: angle30_numeral next30_numeral shift24_numeral Let_def)

lemma angle30_from_900: "angle30 100 9663795200 = 10737561600"
  by (simp add: angle30_numeral next30_numeral shift24_numeral Let_def)

lemma angle30_1000: "angle30 1000 0 = 10737561600"
proof -
  have a100: "angle30 100 0 = 1073741120" by (rule angle30_from_0)
  have a200: "angle30 200 0 = 2147481984"
    using angle30_add [of 100 100 0] by (simp only: a100 angle30_from_100) simp
  have a300: "angle30 300 0 = 3221222912"
    using angle30_add [of 200 100 0] by (simp only: a200 angle30_from_200) simp
  have a400: "angle30 400 0 = 4294963712"
    using angle30_add [of 300 100 0] by (simp only: a300 angle30_from_300) simp
  have a500: "angle30 500 0 = 5368730112"
    using angle30_add [of 400 100 0] by (simp only: a400 angle30_from_400) simp
  have a600: "angle30 600 0 = 6442496512"
    using angle30_add [of 500 100 0] by (simp only: a500 angle30_from_500) simp
  have a700: "angle30 700 0 = 7516262912"
    using angle30_add [of 600 100 0] by (simp only: a600 angle30_from_600) simp
  have a800: "angle30 800 0 = 8590028800"
    using angle30_add [of 700 100 0] by (simp only: a700 angle30_from_700) simp
  have a900: "angle30 900 0 = 9663795200"
    using angle30_add [of 800 100 0] by (simp only: a800 angle30_from_800) simp
  have a1000: "angle30 1000 0 = 10737561600"
    using angle30_add [of 900 100 0] by (simp only: a900 angle30_from_900) simp
  show ?thesis by (rule a1000)
qed

lemma color_key_rotation:
  "rotationAngle (fst (color_key ks k c rw)) = rotationAngle (fst rw)
   \<and> model (fst (color_key ks k c rw)) = model (fst rw)"
  by (simp add: color_key_def set_objectColor_def Let_def)

lemma phong_iteration_rotation:
  "rotationAngle (fst (phong_iteration d f rw)) = advance (rotationAngle (fst rw))
   \<and> model (fst (phong_iteration d f rw)) = rounded_rotation_about_y d (advance (rotationAngle (fst rw)))"
  by (simp add: phong_iteration_def phong_render_def phong_processInput_def Let_def
        color_key_rotation escape_key_fst advance_def rotate4_about_y)

lemma textured_iteration_rotation:
  "rotationAngle (fst (textured_iteration d f rw)) = advance (rotationAngle (fst rw))
   \<and> model (fst (textured_iteration d f rw)) = rounded_rotation_about_y d (advance (rotationAngle (fst rw)))"
  by (simp add: textured_iteration_def textured_render_def textured_processInput_def Let_def
        color_key_rotation escape_key_fst advance_def rotate4_about_y)

lemma phong_frames_snoc: "phong_frames d (fs @ [f]) rw = phong_iteration d f (phong_frames d fs rw)"
  by (simp add: phong_frames_def)

lemma textured_frames_snoc: "textured_frames d (fs @ [f]) rw = textured_iteration d f (textured_frames d fs rw)"
  by (simp add: textured_frames_def)

lemma phong_frames_angle:
  "rotationAngle (fst (phong_frames d fs rw)) = (advance ^^ length fs) (rotationAngle (fst rw))"
proof (induction fs rule: rev_induct)
  case Nil
  then show ?case by (simp add: phong_frames_def)
next
  case (snoc f fs)
  then show ?case by (simp add: phong_frames_snoc phong_iteration_rotation)
qed

lemma textured_frames_angle:
  "rotationAngle (fst (textured_frames d fs rw)) = (advance ^^ length fs) (rotationAngle (fst rw))"
proof (induction fs rule: rev_induct)
  case Nil
  then show ?case by (simp add: textured_frames_def)
next
  case (snoc f fs)
  then show ?case by (simp add: textured_frames_snoc textured_iteration_rotation)
qed

lemma phong_frames_model:
  "model (fst (phong_frames d (fs @ [f]) rw))
     = rounded_rotation_about_y d ((advance ^^ Suc (length fs)) (rotationAngle (fst rw)))"
  by (simp add: phong_frames_snoc phong_iteration_rotation phong_frames_angle)

lemma textured_frames_model:
  "model (fst (textured_frames d (fs @ [f]) rw))
     = rounded_rotation_about_y d ((advance ^^ Suc (length fs)) (rotationAngle (fst rw)))"
  by (simp add: textured_frames_snoc textured_iteration_rotation textured_frames_angle)

lemma constructed_rotation:
  "rotationAngle (PhongTriangleRenderer u) = 0 \<and> model (PhongTriangleRenderer u) = identity4
   \<and> rotationAngle (TexturedTriangleRenderer u) = 0 \<and> model (TexturedTriangleRenderer u) = identity4"
  by (simp add: PhongTriangleRenderer_def TexturedTriangleRenderer_def Let_def)

lemma advance_from_zero: "(advance ^^ n) 0 = real_of_int (angle30 n 0) / 2 ^ 30"
  using advance_funpow [of 0 n] by simp

lemma advance_thousand: "(advance ^^ 1000) 0 = 2621475 / 262144"
  by (simp add: advance_from_zero angle30_1000)

lemma advance_once: "(advance ^^ 1) 0 = rotation_step"
proof -
  have "(advance ^^ 1) 0 = real_of_int (angle30 1 0) / 2 ^ 30" by (rule advance_from_zero)
  also have "\<dots> = 10737418 / 2 ^ 30" by (simp add: next30_zero)
  also have "\<dots> = rotation_step" by (simp only: rotation_step_value)
  finally show ?thesis .
qed

lemma good_driver_libm: "libm_cos good_driver = cos \<and> libm_sin good_driver = sin"
  by (simp add: good_driver_def)

text \<open>
  C2, as the claim states it, fails at \<open>N = 1000\<close>: \<open>rotationAngle\<close> is a \<open>float\<close>, and a
  thousand rounded additions of \<open>0.01f\<close> give \<open>2621475 / 262144 = 10.000133514404296875\<close>.
  That is neither \<open>1000 * 0.01 = 10\<close> nor a thousand times the value of \<open>0.01f\<close>. The
  model matrix of that frame is what \<open>glm::rotate\<close> computes in binary32 from the stored
  angle, with a correctly rounded cosine and sine; it is the rotation matrix for neither
  of these two angles, its entries being further from theirs than rounding can account
  for.
\<close>
theorem thousand_frames_angle_counterexample:
  "rotationAngle (fst (phong_frames good_driver (replicate 1000 quiet_frame) (PhongTriangleRenderer storage, world0)))
     = 2621475 / 262144
   \<and> (2621475 / 262144 :: real) \<noteq> 1000 * (1 / 100)
   \<and> 2621475 / 262144 \<noteq> 1000 * rotation_step
   \<and> model (fst (phong_frames good_driver (replicate 1000 quiet_frame) (PhongTriangleRenderer storage, world0)))
     = rounded_rotation_about_y good_driver (2621475 / 262144)
   \<and> model (fst (phong_frames good_driver (replicate 1000 quiet_frame) (PhongTriangleRenderer storage, world0)))
     \<noteq> rotation_about_y (1000 * (1 / 100))
   \<and> model (fst (phong_frames good_driver (replicate 1000 quiet_frame) (PhongTriangleRenderer storage, world0)))
     \<noteq> rotation_about_y (1000 * rotation_step)"
proof -
  let ?r = "fst (phong_frames good_driver (replicate 1000 quiet_frame) (PhongTriangleRenderer storage, world0))"
  have a: "rotationAngle ?r = 2621475 / 262144"
    using phong_frames_angle [of good_driver "replicate 1000 quiet_frame" "(PhongTriangleRenderer storage, world0)"]
    by (simp add: constructed_rotation advance_thousand)
  have k: "(1000::nat) = Suc 999" by simp
  have r: "replicate 1000 quiet_frame = replicate 999 quiet_frame @ [quiet_frame]"
    by (subst k) (simp only: replicate_Suc replicate_append_same)
  have "model ?r = rounded_rotation_about_y good_driver ((advance ^^ Suc (length (replicate 999 quiet_frame))) 0)"
    unfolding r using phong_frames_model [of good_driver "replicate 999 quiet_frame" quiet_frame
                        "(PhongTriangleRenderer storage, world0)"]
    by (simp add: constructed_rotation)
  moreover have "Suc (length (replicate 999 quiet_frame)) = 1000" by simp
  ultimately have m: "model ?r = rounded_rotation_about_y good_driver (2621475 / 262144)"
    by (simp only: advance_thousand)
  have n1: "(2621475 / 262144 :: real) \<noteq> 1000 * (1 / 100)" by simp
  have n2: "2621475 / 262144 \<noteq> 1000 * rotation_step" by (simp add: rotation_step_value)
  have d1: "rounded_rotation_about_y good_driver (2621475 / 262144) \<noteq> rotation_about_y (1000 * (1 / 100))"
    by (rule rounded_rotation_differs) (simp_all add: good_driver_libm power_divide)
  have d2: "rounded_rotation_about_y good_driver (2621475 / 262144) \<noteq> rotation_about_y (1000 * rotation_step)"
    by (rule rounded_rotation_differs) (simp_all add: good_driver_libm rotation_step_value power_divide)
  show ?thesis using a m n1 n2 d1 d2 by simp
qed

text \<open>
  C2, amended. After \<open>N\<close> passes of the render loop, starting from the constructed
  renderer, \<open>rotationAngle\<close> is the result of \<open>N\<close> additions of the value of \<open>0.01f\<close>, each
  rounded to binary32, starting from 0; the angle is never reduced modulo \<open>2 * pi\<close>. The
  angle is \<open>0\<close> for \<open>N = 0\<close> and the value of \<open>0.01f\<close> (\<open>10737418 / 2^30\<close>) for \<open>N = 1\<close>;
  for \<open>N = 1000\<close> it is \<open>2621475 / 262144\<close>, which is beyond \<open>2 * pi\<close>. The model matrix
  is the identity before the first pass; after each pass it is what \<open>glm::rotate\<close>
  computes in binary32 from the identity, that angle and the vertical axis: with \<open>c\<close> and
  \<open>s\<close> the platform's cosine and sine of the angle as \<open>float\<close>s, the columns
  \<open>(c, 0, -s, 0)\<close>, \<open>(0, fl (c + fl (1 - c)), 0, 0)\<close>, \<open>(s, 0, c, 0)\<close> and \<open>(0, 0, 0, 1)\<close>.
  That is the rotation about the vertical axis up to the rounding of its entries, not
  exactly. Phong and textured variants.
\<close>
theorem rotation_accumulates_rounded_without_wraparound:
  "rotationAngle (fst (phong_frames d fs (PhongTriangleRenderer u, w))) = (advance ^^ length fs) 0
   \<and> model (fst (phong_frames d [] (PhongTriangleRenderer u, w))) = identity4
   \<and> model (fst (phong_frames d (fs @ [f]) (PhongTriangleRenderer u, w)))
       = rounded_rotation_about_y d ((advance ^^ Suc (length fs)) 0)
   \<and> rotationAngle (fst (textured_frames d fs (TexturedTriangleRenderer u, w))) = (advance ^^ length fs) 0
   \<and> model (fst (textured_frames d [] (TexturedTriangleRenderer u, w))) = identity4
   \<and> model (fst (textured_frames d (fs @ [f]) (TexturedTriangleRenderer u, w)))
       = rounded_rotation_about_y d ((advance ^^ Suc (length fs)) 0)
   \<and> rounded_rotation_about_y d a =
       Mat4 (Vec4 (cosf d a) 0 (- sinf d a) 0)
            (Vec4 0 (fl32 (cosf d a + fl32 (1 - cosf d a))) 0 0)
            (Vec4 (sinf d a) 0 (cosf d a) 0)
            (Vec4 0 0 0 1)
   \<and> advance a = fl32 (a + rotation_step)
   \<and> rotation_step = 10737418 / 2 ^ 30
   \<and> (advance ^^ 0) 0 = 0
   \<and> (advance ^^ 1) 0 = rotation_step
   \<and> (advance ^^ 1000) 0 = 2621475 / 262144
   \<and> 2 * pi < (advance ^^ 1000) 0"
proof -
  have "2 * pi < 8" using pi_less_4 by simp
  then have b: "2 * pi < (advance ^^ 1000) 0" by (simp add: advance_thousand)
  have f1: "rotationAngle (fst (phong_frames d fs (PhongTriangleRenderer u, w))) = (advance ^^ length fs) 0"
    using phong_frames_angle [of d fs "(PhongTriangleRenderer u, w)"] by (simp add: constructed_rotation)
  have f2: "model (fst (phong_frames d [] (PhongTriangleRenderer u, w))) = identity4"
    by (simp add: phong_frames_def constructed_rotation)
  have f3: "model (fst (phong_frames d (fs @ [f]) (PhongTriangleRenderer u, w)))
       = rounded_rotation_about_y d ((advance ^^ Suc (length fs)) 0)"
    using phong_frames_model [of d fs f "(PhongTriangleRenderer u, w)"] by (simp add: constructed_rotation)
  have f4: "rotationAngle (fst (textured_frames d fs (TexturedTriangleRenderer u, w))) = (advance ^^ length fs) 0"
    using textured_frames_angle [of d fs "(TexturedTriangleRenderer u, w)"] by (simp add: constructed_rotation)
  have f5: "model (fst (textured_frames d [] (TexturedTriangleRenderer u, w))) = identity4"
    by (simp add: textured_frames_def constructed_rotation)
  have f6: "model (fst (textured_frames d (fs @ [f]) (TexturedTriangleRenderer u, w)))
       = rounded_rotation_about_y d ((advance ^^ Suc (length fs)) 0)"
    using textured_frames_model [of d fs f "(TexturedTriangleRenderer u, w)"] by (simp add: constructed_rotation)
  have f7: "rounded_rotation_about_y d a =
       Mat4 (Vec4 (cosf d a) 0 (- sinf d a) 0)
            (Vec4 0 (fl32 (cosf d a + fl32 (1 - cosf d a))) 0 0)
            (Vec4 (sinf d a) 0 (cosf d a) 0)
            (Vec4 0 0 0 1)"
    by (simp add: rounded_rotation_about_y_def Let_def)
  have f8: "advance a = fl32 (a + rotation_step)" by (rule advance_def)
  have f9: "(advance ^^ 0) 0 = 0" by simp
  show ?thesis
    by (intro conjI) (rule f1, rule f2, rule f3, rule f4, rule f5, rule f6, rule f7, rule f8,
        rule rotation_step_value, rule f9, rule advance_once, rule advance_thousand, rule b)
qed

theorem rotation_accumulates_rounded_without_wraparound_witness:
  "rotationAngle (fst (phong_frames good_driver [] (PhongTriangleRenderer storage, world0))) = 0
   \<and> model (fst (phong_frames good_driver [] (PhongTriangleRenderer storage, world0))) = identity4
   \<and> rotationAngle (fst (phong_frames good_driver [quiet_frame] (PhongTriangleRenderer storage, world0)))
       = 10737418 / 2 ^ 30
   \<and> model (fst (phong_frames good_driver [quiet_frame] (PhongTriangleRenderer storage, world0)))
       = rounded_rotation_about_y good_driver (10737418 / 2 ^ 30)"
proof -
  note t0 = rotation_accumulates_rounded_without_wraparound [of good_driver "[]" storage world0 quiet_frame 0]
  note t1 = rotation_accumulates_rounded_without_wraparound [of good_driver "[quiet_frame]" storage world0 quiet_frame 0]
  have s: "(advance ^^ 1) 0 = 10737418 / 2 ^ 30" using t1 by metis
  have w1: "rotationAngle (fst (phong_frames good_driver [] (PhongTriangleRenderer storage, world0))) = 0"
    and w2: "model (fst (phong_frames good_driver [] (PhongTriangleRenderer storage, world0))) = identity4"
    using t0 by simp_all
  have "rotationAngle (fst (phong_frames good_driver [quiet_frame] (PhongTriangleRenderer storage, world0)))
       = (advance ^^ length [quiet_frame]) 0"
    using t1 by blast
  moreover have "length [quiet_frame] = 1" by simp
  ultimately have w3: "rotationAngle (fst (phong_frames good_driver [quiet_frame] (PhongTriangleRenderer storage, world0)))
       = 10737418 / 2 ^ 30"
    by (simp only: s)
  have "model (fst (phong_frames good_driver ([] @ [quiet_frame]) (PhongTriangleRenderer storage, world0)))
       = rounded_rotation_about_y good_driver ((advance ^^ Suc (length ([] :: frame list))) 0)"
    using t0 by blast
  moreover have "Suc (length ([] :: frame list)) = 1" "[] @ [quiet_frame] = [quiet_frame]" by simp_all
  ultimately have w4: "model (fst (phong_frames good_driver [quiet_frame] (PhongTriangleRenderer storage, world0)))
       = rounded_rotation_about_y good_driver (10737418 / 2 ^ 30)"
    by (simp only: s)
  show ?thesis by (intro conjI) (rule w1, rule w2, rule w3, rule w4)
qed

end
